theory Spec2Isabelle
  imports Main "HOL-Library.Sublist" "HOL-Library.Multiset"
begin

section \<open>Data model\<close>

text \<open>
  The persistent store is the SQLite database declared in \<^verbatim>\<open>schema.sql\<close>. Each table is a
  list of rows in rowid order (the order of insertion; no statement of the application
  deletes a row). 64-bit identifiers are integers, text columns are strings, and a
  \<^verbatim>\<open>TIMESTAMP\<close> column holds a number of whole seconds. Every table is declared
  \<^verbatim>\<open>INTEGER PRIMARY KEY AUTOINCREMENT\<close>, so the database also holds SQLite's table
  \<^verbatim>\<open>sqlite_sequence\<close>: for each table the largest rowid handed out so far.

  Driver-level faults (a closed connection, an I/O error) are not part of the model: every
  statement runs to completion on the in-memory value. The errors that are modelled are
  the ones the data determines: \<^verbatim>\<open>sql.ErrNoRows\<close>, a violated \<^verbatim>\<open>UNIQUE\<close> constraint, and
  \<^verbatim>\<open>SQLITE_FULL\<close> when no rowid is left.
  The \<^verbatim>\<open>FOREIGN KEY\<close> clauses of the schema are not enforced by the statements below:
  \<^verbatim>\<open>InitDB\<close> opens the database with a plain data source name and never turns the
  \<^verbatim>\<open>foreign_keys\<close> pragma on, and SQLite leaves it off by default.
\<close>

text \<open>
  The values of Go's \<^verbatim>\<open>error\<close> that the modelled code can produce. A function that
  returns \<^verbatim>\<open>(T, error)\<close> returns \<open>error + T\<close> here, and one that returns only \<^verbatim>\<open>error\<close>
  returns \<open>error option\<close> (\<open>None\<close> is \<^verbatim>\<open>nil\<close>).
\<close>

datatype error =
    ErrNoRows                     \<comment> \<open>\<^verbatim>\<open>sql.ErrNoRows\<close>\<close>
  | ErrConstraintUnique string    \<comment> \<open>SQLite: UNIQUE constraint failed on the named column\<close>
  | ErrFull                       \<comment> \<open>SQLite: database or disk is full (\<^verbatim>\<open>SQLITE_FULL\<close>)\<close>
  | ErrIncompleteTemplate string  \<comment> \<open>\<^verbatim>\<open>html/template\<close>: the named template is incomplete or empty\<close>
  | ErrNoCookie                   \<comment> \<open>\<^verbatim>\<open>http.ErrNoCookie\<close>, wrapped by \<^verbatim>\<open>GetCurrentUser\<close>\<close>
  | ErrInvalidSessionToken        \<comment> \<open>\<^verbatim>\<open>fmt.Errorf("invalid session token")\<close>\<close>
  | ErrSyntax                     \<comment> \<open>\<^verbatim>\<open>strconv.ErrSyntax\<close>\<close>
  | ErrRange                      \<comment> \<open>\<^verbatim>\<open>strconv.ErrRange\<close>\<close>
  | ErrLibrary string             \<comment> \<open>an error reported by bcrypt or uuid\<close>

text \<open>\<^verbatim>\<open>models.User\<close>, also a row of table \<^verbatim>\<open>users\<close> (same columns).\<close>

record User =
  User_ID :: int
  User_Email :: string
  User_PasswordHash :: string
  User_CreatedAt :: nat

text \<open>\<^verbatim>\<open>models.Game\<close>, also a row of table \<^verbatim>\<open>games\<close>.\<close>

record Game =
  Game_ID :: int
  Game_GMID :: int
  Game_Title :: string
  Game_Description :: string
  Game_GameDateTime :: nat
  Game_Location :: string
  Game_CreatedAt :: nat

text \<open>A row of table \<^verbatim>\<open>rsvps\<close>.\<close>

record rsvps_row =
  rsvps_id :: int
  rsvps_user_id :: int
  rsvps_game_id :: int
  rsvps_status :: string
  rsvps_created_at :: nat
  rsvps_updated_at :: nat

text \<open>\<^verbatim>\<open>models.RSVP\<close>: the row together with the submitter's email.\<close>

record RSVP =
  RSVP_ID :: int
  RSVP_UserID :: int
  RSVP_GameID :: int
  RSVP_Status :: string
  RSVP_CreatedAt :: nat
  RSVP_UpdatedAt :: nat
  RSVP_UserEmail :: string

text \<open>A row of table \<^verbatim>\<open>chat_messages\<close>.\<close>

record chat_messages_row =
  chat_id :: int
  chat_game_id :: int
  chat_user_id :: int
  chat_message_content :: string
  chat_created_at :: nat

text \<open>\<^verbatim>\<open>models.ChatMessage\<close>.\<close>

record ChatMessage =
  ChatMessage_ID :: int
  ChatMessage_GameID :: int
  ChatMessage_UserID :: int
  ChatMessage_UserEmail :: string
  ChatMessage_MessageContent :: string
  ChatMessage_CreatedAt :: nat

text \<open>
  The four tables, and the row of \<^verbatim>\<open>sqlite_sequence\<close> of each (0 while the table has none).
\<close>

record database =
  users :: "User list"
  games :: "Game list"
  rsvps :: "rsvps_row list"
  chat_messages :: "chat_messages_row list"
  users_seq :: int
  games_seq :: int
  rsvps_seq :: int
  chat_messages_seq :: int

definition RSVPStatusAttending :: string where
  "RSVPStatusAttending = ''attending''"

definition RSVPStatusNotAttending :: string where
  "RSVPStatusNotAttending = ''not_attending''"

definition RSVPStatusMaybe :: string where
  "RSVPStatusMaybe = ''maybe''"

text \<open>
  \<^verbatim>\<open>CURRENT_TIMESTAMP\<close> is the wall clock at the moment the statement runs, as text
  \<^verbatim>\<open>YYYY-MM-DD HH:MM:SS\<close>: whole seconds. The clock is an input of every statement that
  uses it, read in milliseconds; the stored value is the clock truncated to seconds.
\<close>

definition CURRENT_TIMESTAMP :: "nat \<Rightarrow> nat" where
  "CURRENT_TIMESTAMP clock_ms = clock_ms div 1000"

text \<open>
  The rowid of an \<^verbatim>\<open>INSERT\<close> into a table with \<^verbatim>\<open>AUTOINCREMENT\<close> (SQLite's \<^verbatim>\<open>OP_NewRowid\<close>):
  one more than the largest rowid of the table (1 for an empty table), raised to one more
  than the table's value in \<^verbatim>\<open>sqlite_sequence\<close>; the statement fails with \<^verbatim>\<open>SQLITE_FULL\<close>
  when the largest rowid or the sequence has reached the largest 64-bit integer (both are
  64-bit values; on the unbounded integers of the model the test is \<open>\<ge>\<close>). The rowid
  is computed before the constraints are checked, and a statement that completes writes it
  to \<^verbatim>\<open>sqlite_sequence\<close>; so does an upsert that ends in its \<^verbatim>\<open>DO UPDATE\<close>.
\<close>

definition MAX_ROWID :: int where
  "MAX_ROWID = 2 ^ 63 - 1"

definition last_rowid :: "int list \<Rightarrow> int" where
  "last_rowid ids = (case ids of [] \<Rightarrow> 0 | i # is \<Rightarrow> fold max is i)"

definition NewRowid :: "int \<Rightarrow> int list \<Rightarrow> error + int" where
  "NewRowid seq ids =
     (if last_rowid ids \<ge> MAX_ROWID \<or> seq \<ge> MAX_ROWID then Inl ErrFull
      else Inr (max (last_rowid ids + 1) (seq + 1)))"

section \<open>RSVP statements (\<^verbatim>\<open>rsvps_db.go\<close>)\<close>

text \<open>The conflict target of the upsert: \<^verbatim>\<open>UNIQUE (user_id, game_id)\<close>.\<close>

definition rsvp_conflict :: "RSVP \<Rightarrow> rsvps_row \<Rightarrow> bool" where
  "rsvp_conflict rsvp r \<longleftrightarrow>
     rsvps_user_id r = RSVP_UserID rsvp \<and> rsvps_game_id r = RSVP_GameID rsvp"

text \<open>
  \<^verbatim>\<open>INSERT INTO rsvps (user_id, game_id, status, created_at, updated_at)
  VALUES (?, ?, ?, CURRENT_TIMESTAMP, CURRENT_TIMESTAMP)
  ON CONFLICT(user_id, game_id) DO UPDATE SET
    status = excluded.status, updated_at = CURRENT_TIMESTAMP\<close>
  executed with \<^verbatim>\<open>rsvp.UserID, rsvp.GameID, rsvp.Status\<close>. It is one statement, hence one
  transition of the store. The rowid is taken first; without one the statement fails and
  changes nothing. Then the row is inserted, or on a conflict the existing row is updated;
  in both cases the rowid taken is written to \<^verbatim>\<open>sqlite_sequence\<close>.
\<close>

definition upsert_new_row :: "nat \<Rightarrow> RSVP \<Rightarrow> int \<Rightarrow> rsvps_row" where
  "upsert_new_row clock_ms rsvp rowid =
     \<lparr>rsvps_id = rowid,
      rsvps_user_id = RSVP_UserID rsvp,
      rsvps_game_id = RSVP_GameID rsvp,
      rsvps_status = RSVP_Status rsvp,
      rsvps_created_at = CURRENT_TIMESTAMP clock_ms,
      rsvps_updated_at = CURRENT_TIMESTAMP clock_ms\<rparr>"

definition CreateOrUpdateRSVP :: "nat \<Rightarrow> database \<Rightarrow> RSVP \<Rightarrow> database \<times> error option" where
  "CreateOrUpdateRSVP clock_ms db rsvp =
     (case NewRowid (rsvps_seq db) (map rsvps_id (rsvps db)) of
        Inl err \<Rightarrow> (db, Some err)
      | Inr rowid \<Rightarrow>
          (case find (rsvp_conflict rsvp) (rsvps db) of
             None \<Rightarrow>
               (db\<lparr>rsvps := rsvps db @ [upsert_new_row clock_ms rsvp rowid],
                   rsvps_seq := rowid\<rparr>, None)
           | Some _ \<Rightarrow>
               (db\<lparr>rsvps :=
                    map (\<lambda>r. if rsvp_conflict rsvp r
                             then r\<lparr>rsvps_status := RSVP_Status rsvp,
                                    rsvps_updated_at := CURRENT_TIMESTAMP clock_ms\<rparr>
                             else r)
                      (rsvps db),
                   rsvps_seq := rowid\<rparr>, None)))"

text \<open>\<^verbatim>\<open>rows.Scan\<close> of one row of \<^verbatim>\<open>rsvps r JOIN users u ON r.user_id = u.id\<close>.\<close>

definition scan_rsvp :: "rsvps_row \<Rightarrow> User \<Rightarrow> RSVP" where
  "scan_rsvp r u =
     \<lparr>RSVP_ID = rsvps_id r, RSVP_UserID = rsvps_user_id r, RSVP_GameID = rsvps_game_id r,
      RSVP_Status = rsvps_status r, RSVP_CreatedAt = rsvps_created_at r,
      RSVP_UpdatedAt = rsvps_updated_at r, RSVP_UserEmail = User_Email u\<rparr>"

definition rsvps_join_users :: "database \<Rightarrow> rsvps_row list \<Rightarrow> RSVP list" where
  "rsvps_join_users db rs =
     concat (map (\<lambda>r. map (scan_rsvp r) (filter (\<lambda>u. User_ID u = rsvps_user_id r) (users db))) rs)"

text \<open>
  \<^verbatim>\<open>SELECT ... FROM rsvps r JOIN users u ON r.user_id = u.id
  WHERE r.game_id = ? ORDER BY r.updated_at DESC\<close>.
  Rows with the same \<^verbatim>\<open>updated_at\<close> are left in the order of the table scan (SQL does not
  fix their order; the sort used here is stable).
\<close>

definition GetRSVPsForGame :: "database \<Rightarrow> int \<Rightarrow> error + RSVP list" where
  "GetRSVPsForGame db gameID =
     Inr (sort_key (\<lambda>x. - int (RSVP_UpdatedAt x))
            (rsvps_join_users db (filter (\<lambda>r. rsvps_game_id r = gameID) (rsvps db))))"

text \<open>
  \<^verbatim>\<open>SELECT ... WHERE r.user_id = ? AND r.game_id = ?\<close> through \<^verbatim>\<open>QueryRow\<close>: the first row,
  or \<^verbatim>\<open>sql.ErrNoRows\<close>.
\<close>

definition GetRSVPByUserForGame :: "database \<Rightarrow> int \<Rightarrow> int \<Rightarrow> error + RSVP" where
  "GetRSVPByUserForGame db userID gameID =
     (case rsvps_join_users db
             (filter (\<lambda>r. rsvps_user_id r = userID \<and> rsvps_game_id r = gameID) (rsvps db)) of
        [] \<Rightarrow> Inl ErrNoRows
      | x # _ \<Rightarrow> Inr x)"

text \<open>The rows of table \<^verbatim>\<open>rsvps\<close> for a pair, and the schema's \<^verbatim>\<open>UNIQUE (user_id, game_id)\<close>.\<close>

definition rsvp_rows_for :: "database \<Rightarrow> int \<Rightarrow> int \<Rightarrow> rsvps_row list" where
  "rsvp_rows_for db userID gameID =
     filter (\<lambda>r. rsvps_user_id r = userID \<and> rsvps_game_id r = gameID) (rsvps db)"

definition rsvps_unique :: "database \<Rightarrow> bool" where
  "rsvps_unique db \<longleftrightarrow> distinct (map (\<lambda>r. (rsvps_user_id r, rsvps_game_id r)) (rsvps db))"


section \<open>User statements (\<^verbatim>\<open>users_db.go\<close>)\<close>

text \<open>
  \<^verbatim>\<open>SELECT id, email, password_hash, created_at FROM users WHERE email = ?\<close> through
  \<^verbatim>\<open>QueryRow\<close>. The comparison is SQLite's default binary collation: byte equality.
\<close>

definition GetUserByEmail :: "database \<Rightarrow> string \<Rightarrow> error + User" where
  "GetUserByEmail db email =
     (case filter (\<lambda>u. User_Email u = email) (users db) of
        [] \<Rightarrow> Inl ErrNoRows
      | u # _ \<Rightarrow> Inr u)"

definition GetUserByID :: "database \<Rightarrow> int \<Rightarrow> error + User" where
  "GetUserByID db id' =
     (case filter (\<lambda>u. User_ID u = id') (users db) of
        [] \<Rightarrow> Inl ErrNoRows
      | u # _ \<Rightarrow> Inr u)"

text \<open>
  \<^verbatim>\<open>CreateUser\<close>: hash the password, then
  \<^verbatim>\<open>INSERT INTO users(email, password_hash) VALUES(?, ?)\<close>, then read the row back.
  \<^verbatim>\<open>bcrypt.GenerateFromPassword\<close> is a library function (salted, so not a function of the
  password alone in Go); it is the parameter \<open>GenerateFromPassword\<close>. The insert takes
  its rowid first (\<^verbatim>\<open>SQLITE_FULL\<close> without one). The column \<^verbatim>\<open>email\<close> is \<^verbatim>\<open>UNIQUE\<close>: the insert
  fails when the email is already in the table, and a failed statement changes nothing.
  \<^verbatim>\<open>created_at\<close> takes its default, \<^verbatim>\<open>CURRENT_TIMESTAMP\<close>. \<^verbatim>\<open>res.LastInsertId()\<close> is the rowid.
\<close>

definition CreateUser ::
  "(string \<Rightarrow> error + string) \<Rightarrow> nat \<Rightarrow> database \<Rightarrow> string \<Rightarrow> string \<Rightarrow> database \<times> (error + User)"
where
  "CreateUser GenerateFromPassword clock_ms db email password =
     (case GenerateFromPassword password of
        Inl err \<Rightarrow> (db, Inl err)
      | Inr hashedPassword \<Rightarrow>
          (case NewRowid (users_seq db) (map User_ID (users db)) of
             Inl err \<Rightarrow> (db, Inl err)
           | Inr id' \<Rightarrow>
               if list_ex (\<lambda>u. User_Email u = email) (users db)
               then (db, Inl (ErrConstraintUnique ''users.email''))
               else
                 let db' = db\<lparr>users := users db @
                              [\<lparr>User_ID = id', User_Email = email,
                                User_PasswordHash = hashedPassword,
                                User_CreatedAt = CURRENT_TIMESTAMP clock_ms\<rparr>],
                            users_seq := id'\<rparr>
                 in (db', GetUserByID db' id')))"

text \<open>
  \<^verbatim>\<open>VerifyPassword\<close> returns what \<^verbatim>\<open>bcrypt.CompareHashAndPassword\<close> returns (the parameter
  \<open>CompareHashAndPassword\<close>): \<^verbatim>\<open>nil\<close> when the password matches the hash.
\<close>

definition VerifyPassword :: "(string \<Rightarrow> string \<Rightarrow> error option) \<Rightarrow> string \<Rightarrow> string \<Rightarrow> error option" where
  "VerifyPassword CompareHashAndPassword hashedPassword password =
     CompareHashAndPassword hashedPassword password"

section \<open>Game statements\<close>

definition GetGameByID :: "database \<Rightarrow> int \<Rightarrow> error + Game" where
  "GetGameByID db id' =
     (case filter (\<lambda>g. Game_ID g = id') (games db) of
        [] \<Rightarrow> Inl ErrNoRows
      | g # _ \<Rightarrow> Inr g)"

section \<open>Chat statements\<close>

text \<open>\<^verbatim>\<open>Scan\<close> of one row of \<^verbatim>\<open>chat_messages cm JOIN users u ON cm.user_id = u.id\<close>.\<close>

definition scan_chat_message :: "chat_messages_row \<Rightarrow> User \<Rightarrow> ChatMessage" where
  "scan_chat_message cm u =
     \<lparr>ChatMessage_ID = chat_id cm, ChatMessage_GameID = chat_game_id cm,
      ChatMessage_UserID = chat_user_id cm, ChatMessage_UserEmail = User_Email u,
      ChatMessage_MessageContent = chat_message_content cm,
      ChatMessage_CreatedAt = chat_created_at cm\<rparr>"

definition chat_join_users :: "database \<Rightarrow> chat_messages_row list \<Rightarrow> ChatMessage list" where
  "chat_join_users db cms =
     concat (map (\<lambda>cm. map (scan_chat_message cm)
                         (filter (\<lambda>u. User_ID u = chat_user_id cm) (users db))) cms)"

text \<open>
  \<^verbatim>\<open>CreateChatMessage\<close>:
  \<^verbatim>\<open>INSERT INTO chat_messages(game_id, user_id, message_content) VALUES(?, ?, ?)\<close>
  (\<^verbatim>\<open>created_at\<close> takes its default, \<^verbatim>\<open>CURRENT_TIMESTAMP\<close>; \<^verbatim>\<open>SQLITE_FULL\<close> without a rowid),
  then the inserted row is read back through the join with \<^verbatim>\<open>users\<close>. When the read finds
  no row the function returns the error, and the inserted row stays in the table.
\<close>

definition CreateChatMessage ::
  "nat \<Rightarrow> database \<Rightarrow> ChatMessage \<Rightarrow> database \<times> (error + ChatMessage)"
where
  "CreateChatMessage clock_ms db message =
     (case NewRowid (chat_messages_seq db) (map chat_id (chat_messages db)) of
        Inl err \<Rightarrow> (db, Inl err)
      | Inr id' \<Rightarrow>
          let db' = db\<lparr>chat_messages := chat_messages db @
                       [\<lparr>chat_id = id', chat_game_id = ChatMessage_GameID message,
                         chat_user_id = ChatMessage_UserID message,
                         chat_message_content = ChatMessage_MessageContent message,
                         chat_created_at = CURRENT_TIMESTAMP clock_ms\<rparr>],
                     chat_messages_seq := id'\<rparr>
          in (case chat_join_users db' (filter (\<lambda>cm. chat_id cm = id') (chat_messages db')) of
                [] \<Rightarrow> (db', Inl ErrNoRows)
              | createdMessage # _ \<Rightarrow> (db', Inr createdMessage)))"

text \<open>
  \<^verbatim>\<open>SELECT ... FROM chat_messages cm JOIN users u ON cm.user_id = u.id
  WHERE cm.game_id = ? ORDER BY cm.created_at ASC\<close>; rows with the same \<^verbatim>\<open>created_at\<close>
  stay in the order of the table scan.
\<close>

definition GetChatMessagesForGame :: "database \<Rightarrow> int \<Rightarrow> error + ChatMessage list" where
  "GetChatMessagesForGame db gameID =
     Inr (sort_key ChatMessage_CreatedAt
            (chat_join_users db (filter (\<lambda>cm. chat_game_id cm = gameID) (chat_messages db))))"


section \<open>Library functions on strings\<close>

text \<open>
  A Go string is a sequence of bytes, here a \<open>string\<close>. The functions below are the
  ones of packages \<^verbatim>\<open>strings\<close> and \<^verbatim>\<open>strconv\<close> that the handlers call.
\<close>

definition TrimSuffix :: "string \<Rightarrow> string \<Rightarrow> string" where
  "TrimSuffix s suf = (if suffix suf s then take (length s - length suf) s else s)"

text \<open>
  \<^verbatim>\<open>strings.Split(s, sep)\<close> for a separator of one byte (both call sites pass \<^verbatim>\<open>"/"\<close>).
  The result is never empty: a string without the separator gives the list of that string.
\<close>

fun Split :: "string \<Rightarrow> char \<Rightarrow> string list" where
  "Split [] sep = [[]]"
| "Split (c # cs) sep =
     (if c = sep then [] # Split cs sep
      else (case Split cs sep of
              [] \<Rightarrow> [[c]]
            | p # ps \<Rightarrow> (c # p) # ps))"

text \<open>
  \<^verbatim>\<open>strconv.ParseUint(s, 10, 64)\<close>: the digit loop with its overflow checks, and
  \<^verbatim>\<open>strconv.ParseInt(s, 10, 64)\<close>: an optional sign, then the unsigned value, then the
  range of a signed 64-bit integer.
\<close>

fun ParseUint_loop :: "int \<Rightarrow> string \<Rightarrow> error + int" where
  "ParseUint_loop n [] = Inr n"
| "ParseUint_loop n (c # cs) =
     (let d = (of_char c :: int) in
      if d < 48 \<or> 57 < d then Inl ErrSyntax
      else if n \<ge> (2 ^ 64 - 1) div 10 + 1 then Inl ErrRange
      else let n1 = n * 10 + (d - 48) in
           if n1 > 2 ^ 64 - 1 then Inl ErrRange else ParseUint_loop n1 cs)"

definition ParseUint :: "string \<Rightarrow> error + int" where
  "ParseUint s = (if s = [] then Inl ErrSyntax else ParseUint_loop 0 s)"

definition ParseInt :: "string \<Rightarrow> error + int" where
  "ParseInt s =
     (case s of
        [] \<Rightarrow> Inl ErrSyntax
      | c # cs \<Rightarrow>
          let neg = (c = CHR ''-'');
              s' = (if c = CHR ''+'' \<or> c = CHR ''-'' then cs else s)
          in case ParseUint s' of
               Inl err \<Rightarrow> Inl err
             | Inr un \<Rightarrow>
                 if \<not> neg \<and> un \<ge> 2 ^ 63 then Inl ErrRange
                 else if neg \<and> un > 2 ^ 63 then Inl ErrRange
                 else Inr (if neg then - un else un))"

text \<open>
  \<^verbatim>\<open>strings.TrimSpace\<close> removes the leading and the trailing white space, where white
  space is \<^verbatim>\<open>unicode.IsSpace\<close> on the runes of the UTF-8 string: U+0009 to U+000D, U+0020,
  U+0085, U+00A0, U+1680, U+2000 to U+200A, U+2028, U+2029, U+202F, U+205F and U+3000.
  The list holds their UTF-8 encodings. A rune is the first (or last) rune of a string
  exactly when its encoding is a prefix (or suffix) of the string.
\<close>

definition white_space :: "string list" where
  "white_space =
     [[CHR 0x09], [CHR 0x0A], [CHR 0x0B], [CHR 0x0C], [CHR 0x0D], [CHR 0x20],
      [CHR 0xC2, CHR 0x85], [CHR 0xC2, CHR 0xA0],
      [CHR 0xE1, CHR 0x9A, CHR 0x80],
      [CHR 0xE2, CHR 0x80, CHR 0x80], [CHR 0xE2, CHR 0x80, CHR 0x81],
      [CHR 0xE2, CHR 0x80, CHR 0x82], [CHR 0xE2, CHR 0x80, CHR 0x83],
      [CHR 0xE2, CHR 0x80, CHR 0x84], [CHR 0xE2, CHR 0x80, CHR 0x85],
      [CHR 0xE2, CHR 0x80, CHR 0x86], [CHR 0xE2, CHR 0x80, CHR 0x87],
      [CHR 0xE2, CHR 0x80, CHR 0x88], [CHR 0xE2, CHR 0x80, CHR 0x89],
      [CHR 0xE2, CHR 0x80, CHR 0x8A],
      [CHR 0xE2, CHR 0x80, CHR 0xA8], [CHR 0xE2, CHR 0x80, CHR 0xA9],
      [CHR 0xE2, CHR 0x80, CHR 0xAF], [CHR 0xE2, CHR 0x81, CHR 0x9F],
      [CHR 0xE3, CHR 0x80, CHR 0x80]]"

text \<open>Remove, as long as there is one, a leading element of \<open>ws\<close> from the string.\<close>

function trim_leading :: "string list \<Rightarrow> string \<Rightarrow> string" where
  "trim_leading ws s =
     (case find (\<lambda>w. w \<noteq> [] \<and> prefix w s) ws of
        None \<Rightarrow> s
      | Some w \<Rightarrow> trim_leading ws (drop (length w) s))"
  by pat_completeness auto
termination
proof (relation "measure (\<lambda>(ws, s). length s)")
  show "wf (measure (\<lambda>(ws, s). length s))" by simp
next
  fix ws :: "string list" and s w :: string
  assume "find (\<lambda>w. w \<noteq> [] \<and> prefix w s) ws = Some w"
  then have "w \<noteq> []" and "prefix w s"
    by (auto simp: find_Some_iff)
  then have "s \<noteq> []" by auto
  with \<open>w \<noteq> []\<close> show "((ws, drop (length w) s), (ws, s)) \<in> measure (\<lambda>(ws, s). length s)"
    by simp
qed

definition TrimSpace :: "string \<Rightarrow> string" where
  "TrimSpace s = rev (trim_leading (map rev white_space) (rev (trim_leading white_space s)))"

section \<open>Requests and responses\<close>

text \<open>
  What a handler reads of \<^verbatim>\<open>*http.Request\<close>: the method, the path of the URL, the cookies
  (name and value, in header order), the parsed form (\<open>None\<close> when \<^verbatim>\<open>ParseForm\<close> fails;
  otherwise keys with their first value) and whether the connection uses TLS.
\<close>

record request =
  Method :: string
  URL_Path :: string
  Cookies :: "(string \<times> string) list"
  Form :: "(string \<times> string) list option"
  TLS :: bool

text \<open>\<^verbatim>\<open>r.Cookie(name)\<close>: the first cookie of that name, \<^verbatim>\<open>http.ErrNoCookie\<close> without one.\<close>

definition Cookie :: "request \<Rightarrow> string \<Rightarrow> error + string" where
  "Cookie r name = (case map_of (Cookies r) name of None \<Rightarrow> Inl ErrNoCookie | Some v \<Rightarrow> Inr v)"

text \<open>\<^verbatim>\<open>r.FormValue(key)\<close> on a parsed form: the first value of the key, or the empty string.\<close>

definition FormValue :: "(string \<times> string) list \<Rightarrow> string \<Rightarrow> string" where
  "FormValue form key = (case map_of form key of None \<Rightarrow> [] | Some v \<Rightarrow> v)"

text \<open>\<^verbatim>\<open>http.Cookie\<close> as the handlers fill it; \<open>Expires\<close> is in milliseconds of the clock.\<close>

record SetCookie =
  Name :: string
  Value :: string
  Path :: string
  Expires :: nat
  HttpOnly :: bool
  Secure :: bool
  SameSite :: string

text \<open>
  The values a handler puts into the data of a template
  (\<^verbatim>\<open>map[string]interface{}\<close>, here the list of its entries in the order of the literal).
\<close>

datatype template_value =
    NilValue
  | StringValue string
  | IntValue int
  | UserValue User
  | GameValue Game
  | RSVPValue RSVP
  | RSVPList "RSVP list"
  | ChatMessageList "ChatMessage list"

type_synonym template_data = "(string \<times> template_value) list"

text \<open>
  What a handler writes: \<^verbatim>\<open>http.Error(w, msg, code)\<close>, \<^verbatim>\<open>http.Redirect(w, r, url, code)\<close>, or
  a page (status 200 and the bytes that the execution of a template wrote), together with
  the headers and cookies set before.
\<close>

datatype body =
    HttpError string nat
  | Redirect string nat
  | Page string

record response =
  Header :: "(string \<times> string) list"
  SetCookies :: "SetCookie list"
  Body :: body

definition http_Error :: "string \<Rightarrow> nat \<Rightarrow> response" where
  "http_Error msg code = \<lparr>Header = [], SetCookies = [], Body = HttpError msg code\<rparr>"

definition http_Redirect :: "string \<Rightarrow> nat \<Rightarrow> response" where
  "http_Redirect url code = \<lparr>Header = [], SetCookies = [], Body = Redirect url code\<rparr>"

definition StatusSeeOther :: nat where "StatusSeeOther = 303"
definition StatusBadRequest :: nat where "StatusBadRequest = 400"
definition StatusUnauthorized :: nat where "StatusUnauthorized = 401"
definition StatusMethodNotAllowed :: nat where "StatusMethodNotAllowed = 405"
definition StatusInternalServerError :: nat where "StatusInternalServerError = 500"

definition MethodPost :: string where "MethodPost = ''POST''"

text \<open>\<^verbatim>\<open>err.Error()\<close>, where a handler puts it into a message.\<close>

fun Error_text :: "error \<Rightarrow> string" where
  "Error_text ErrNoRows = ''sql: no rows in result set''"
| "Error_text (ErrConstraintUnique col) = ''UNIQUE constraint failed: '' @ col"
| "Error_text ErrFull = ''database or disk is full''"
| "Error_text (ErrIncompleteTemplate name) =
     ''template: '' @ [CHR 0x22] @ name @ [CHR 0x22] @ '' is an incomplete or empty template''"
| "Error_text ErrNoCookie = ''no session cookie: http: named cookie not present''"
| "Error_text ErrInvalidSessionToken = ''invalid session token''"
| "Error_text ErrSyntax = ''invalid syntax''"
| "Error_text ErrRange = ''value out of range''"
| "Error_text (ErrLibrary msg) = msg"

section \<open>Templates (\<^verbatim>\<open>LoadTemplates\<close>, \<^verbatim>\<open>RenderTemplate\<close>)\<close>

text \<open>
  A file below the templates directory: the directories between the directory and the
  file, the name of the file, and what parsing its text gives: an error, or the names of
  its \<^verbatim>\<open>{{define}}\<close> blocks. The files themselves are data of the deployment; the listing is
  a parameter of \<open>LoadTemplates\<close>, in the order in which \<^verbatim>\<open>filepath.Glob\<close> returns the files.
  Paths are those of a system with separator \<^verbatim>\<open>/\<close>, where \<^verbatim>\<open>filepath.ToSlash\<close> changes nothing.
\<close>

record template_file =
  file_dir :: "string list"
  file_base :: string
  file_parse :: "error + string list"

definition Join :: "string \<Rightarrow> string list \<Rightarrow> string" where
  "Join dir elems = fold (\<lambda>e p. p @ ''/'' @ e) elems dir"

definition file_path :: "string \<Rightarrow> template_file \<Rightarrow> string" where
  "file_path dir f = Join dir (file_dir f @ [file_base f])"

definition TrimPrefix :: "string \<Rightarrow> string \<Rightarrow> string" where
  "TrimPrefix s pre = (if prefix pre s then drop (length pre) s else s)"

text \<open>
  \<^verbatim>\<open>filepath.Glob(filepath.Join(dir, "**/_*.html"))\<close> and the same with \<^verbatim>\<open>"**/*.html"\<close>. In a
  pattern of \<^verbatim>\<open>filepath.Match\<close> a \<^verbatim>\<open>*\<close> matches any sequence of characters other than the
  separator, and \<^verbatim>\<open>**\<close> is two of them: the patterns match the files exactly one directory
  below \<open>dir\<close>.
\<close>

definition match_partial :: "template_file \<Rightarrow> bool" where
  "match_partial f \<longleftrightarrow>
     length (file_dir f) = 1 \<and> length (file_base f) \<ge> 6 \<and>
     prefix ''_'' (file_base f) \<and> suffix ''.html'' (file_base f)"

definition match_html :: "template_file \<Rightarrow> bool" where
  "match_html f \<longleftrightarrow> length (file_dir f) = 1 \<and> suffix ''.html'' (file_base f)"

text \<open>
  A \<^verbatim>\<open>*template.Template\<close>, as far as \<^verbatim>\<open>Execute\<close> decides on it before it runs the
  template: its name, and the names of the templates of its set that have a parse tree.
  \<^verbatim>\<open>template.New(name)\<close> has none. \<^verbatim>\<open>ParseFiles\<close> parses each file into the template named
  by the base name of the file (\<^verbatim>\<open>filepath.Base\<close>) and adds the templates that the file
  defines; the first error ends it.
\<close>

record Template =
  Template_Name :: string
  Template_Trees :: "string list"

definition New :: "string \<Rightarrow> Template" where
  "New name = \<lparr>Template_Name = name, Template_Trees = []\<rparr>"

fun parseFiles :: "Template \<Rightarrow> template_file list \<Rightarrow> error + Template" where
  "parseFiles t [] = Inr t"
| "parseFiles t (f # fs) =
     (case file_parse f of
        Inl err \<Rightarrow> Inl err
      | Inr defined \<Rightarrow>
          parseFiles (t\<lparr>Template_Trees := Template_Trees t @ file_base f # defined\<rparr>) fs)"

definition ParseFiles :: "Template \<Rightarrow> template_file list \<Rightarrow> error + Template" where
  "ParseFiles t filenames =
     (if filenames = []
      then Inl (ErrLibrary ''html/template: no files named in call to ParseFiles'')
      else parseFiles t filenames)"

text \<open>
  The global \<^verbatim>\<open>templates\<close>, a \<^verbatim>\<open>map[string]*template.Template\<close>, is a list of its entries
  with one entry for a key; Go leaves the order in which a map is iterated open, and the
  order of the list stands for it.

  \<^verbatim>\<open>LoadTemplates(dir)\<close> on the files \<open>files\<close> below a clean path \<open>dir\<close>: the two loops, over
  the pages and over the partials. \<^verbatim>\<open>templatesOnce\<close> lets the body run once, at startup.
\<close>

type_synonym templates = "(string \<times> Template) list"

definition assign :: "string \<Rightarrow> Template \<Rightarrow> templates \<Rightarrow> templates" where
  "assign name tmpl ts =
     (if list_ex (\<lambda>e. fst e = name) ts
      then map (\<lambda>e. if fst e = name then (name, tmpl) else e) ts
      else ts @ [(name, tmpl)])"

definition template_name :: "string \<Rightarrow> template_file \<Rightarrow> string" where
  "template_name dir f = TrimPrefix (file_path dir f) (dir @ ''/'')"

fun load_pages ::
  "string \<Rightarrow> template_file \<Rightarrow> template_file list \<Rightarrow> template_file list \<Rightarrow> templates \<Rightarrow>
   error + templates"
where
  "load_pages dir layoutFile partialFiles [] ts = Inr ts"
| "load_pages dir layoutFile partialFiles (pageFile # pageFiles) ts =
     (let name = template_name dir pageFile;
          filesToParse = [pageFile, layoutFile] @ partialFiles
      in case ParseFiles (New name) filesToParse of
           Inl parseErr \<Rightarrow>
             Inl (ErrLibrary (''error parsing page template '' @ name @
                    '' with layout and partials: '' @ Error_text parseErr))
         | Inr tmpl \<Rightarrow> load_pages dir layoutFile partialFiles pageFiles (assign name tmpl ts))"

fun load_partials :: "string \<Rightarrow> template_file list \<Rightarrow> templates \<Rightarrow> error + templates" where
  "load_partials dir [] ts = Inr ts"
| "load_partials dir (partialFile # partialFiles) ts =
     (let name = template_name dir partialFile
      in case ParseFiles (New name) [partialFile] of
           Inl parseErr \<Rightarrow>
             Inl (ErrLibrary (''error parsing partial template '' @ name @ '': '' @
                    Error_text parseErr))
         | Inr tmpl \<Rightarrow> load_partials dir partialFiles (assign name tmpl ts))"

definition is_layout :: "template_file \<Rightarrow> bool" where
  "is_layout f \<longleftrightarrow> file_dir f = [] \<and> file_base f = ''layout.html''"

definition LoadTemplates :: "string \<Rightarrow> template_file list \<Rightarrow> error + templates" where
  "LoadTemplates dir files =
     (case find is_layout files of
        None \<Rightarrow> Inl (ErrLibrary (''layout.html not found in '' @ dir))
      | Some layoutFile \<Rightarrow>
          let partialFiles = filter match_partial files;
              allFiles = filter match_html files;
              pageFiles =
                filter (\<lambda>file. \<not> (file_path dir file = file_path dir layoutFile) \<and>
                                \<not> list_ex (\<lambda>pf. file_path dir file = file_path dir pf) partialFiles)
                  allFiles
          in (case load_pages dir layoutFile partialFiles pageFiles [] of
                Inl loadErr \<Rightarrow> Inl loadErr
              | Inr ts \<Rightarrow> load_partials dir partialFiles ts))"

text \<open>
  \<^verbatim>\<open>tmpl.Execute(w, data)\<close> of \<^verbatim>\<open>html/template\<close>: a template without a parse tree is refused
  before anything is written (\<^verbatim>\<open>template: "name" is an incomplete or empty template\<close>);
  otherwise the template runs. What running it writes, and the error it ends with,
  depend on the text of the files and on the library; that is the parameter \<open>HtmlExecute\<close>.
\<close>

definition Execute ::
  "(Template \<Rightarrow> template_data \<Rightarrow> string \<times> error option) \<Rightarrow> Template \<Rightarrow> template_data \<Rightarrow>
   string \<times> error option"
where
  "Execute HtmlExecute t data =
     (if Template_Name t \<in> set (Template_Trees t) then HtmlExecute t data
      else ([], Some (ErrIncompleteTemplate (Template_Name t))))"

text \<open>\<^verbatim>\<open>getTemplateKeys\<close>, and \<^verbatim>\<open>%v\<close> of a slice of strings.\<close>

definition getTemplateKeys :: "templates \<Rightarrow> string list" where
  "getTemplateKeys ts = map fst ts"

definition Sprint_strings :: "string list \<Rightarrow> string" where
  "Sprint_strings xs =
     ''['' @ (case xs of [] \<Rightarrow> [] | y # ys \<Rightarrow> fold (\<lambda>x acc. acc @ '' '' @ x) ys y) @ '']''"

text \<open>
  \<^verbatim>\<open>RenderTemplate(w, name, data)\<close>. Nothing was written before it is called. A template
  absent from the map is answered by \<^verbatim>\<open>http.Error\<close> with status 500. So is an error of
  \<^verbatim>\<open>Execute\<close>; when \<^verbatim>\<open>Execute\<close> had written something by then, status 200 is out already and
  \<^verbatim>\<open>http.Error\<close> only appends its line to the page.
\<close>

definition RenderTemplate ::
  "(Template \<Rightarrow> template_data \<Rightarrow> string \<times> error option) \<Rightarrow> templates \<Rightarrow> string \<Rightarrow>
   template_data \<Rightarrow> response"
where
  "RenderTemplate HtmlExecute ts name data =
     (case map_of ts name of
        None \<Rightarrow>
          http_Error (''Template not found: '' @ name @ ''. Available: '' @
                        Sprint_strings (getTemplateKeys ts)) StatusInternalServerError
      | Some tmpl \<Rightarrow>
          (case Execute HtmlExecute tmpl data of
             (out, None) \<Rightarrow> \<lparr>Header = [], SetCookies = [], Body = Page out\<rparr>
           | (out, Some err) \<Rightarrow>
               let msg = ''Error executing template '' @ name @ '': '' @ Error_text err
               in if out = [] then http_Error msg StatusInternalServerError
                  else \<lparr>Header = [], SetCookies = [], Body = Page (out @ msg @ [CHR 0x0A])\<rparr>))"

section \<open>Sessions and authentication (\<^verbatim>\<open>auth_handlers.go\<close>)\<close>

text \<open>
  \<^verbatim>\<open>var SessionStore = make(map[string]int64)\<close>: a map from session token to user id. The
  handlers read and write the one global map; here each takes the map and returns it.
\<close>

type_synonym session_store = "string \<rightharpoonup> int"

definition sessionCookieName :: string where
  "sessionCookieName = ''session_token''"

definition IsAuthenticated :: "session_store \<Rightarrow> request \<Rightarrow> bool" where
  "IsAuthenticated SessionStore r =
     (case Cookie r sessionCookieName of
        Inl err \<Rightarrow> False
      | Inr sessionToken \<Rightarrow> (case SessionStore sessionToken of None \<Rightarrow> False | Some _ \<Rightarrow> True))"

text \<open>
  \<^verbatim>\<open>GetCurrentUser\<close>. Its first check, \<^verbatim>\<open>db == nil\<close>, never holds for the handlers, which
  are closures over the open database.
\<close>

definition GetCurrentUser :: "session_store \<Rightarrow> request \<Rightarrow> database \<Rightarrow> error + User" where
  "GetCurrentUser SessionStore r db =
     (case Cookie r sessionCookieName of
        Inl err \<Rightarrow> Inl ErrNoCookie
      | Inr sessionToken \<Rightarrow>
          (case SessionStore sessionToken of
             None \<Rightarrow> Inl ErrInvalidSessionToken
           | Some userID \<Rightarrow> GetUserByID db userID))"

text \<open>
  \<^verbatim>\<open>AuthMiddleware(next)\<close>: redirect to \<^verbatim>\<open>/login\<close> unless authenticated, else run \<open>next\<close>.
  A handler maps the state it may change (\<open>'s\<close>) and the request to the new state and the
  response.
\<close>

definition AuthMiddleware ::
  "session_store \<Rightarrow> ('s \<Rightarrow> request \<Rightarrow> 's \<times> response) \<Rightarrow> 's \<Rightarrow> request \<Rightarrow> 's \<times> response"
where
  "AuthMiddleware SessionStore next st r =
     (if \<not> IsAuthenticated SessionStore r then (st, http_Redirect ''/login'' StatusSeeOther)
      else next st r)"


text \<open>
  \<^verbatim>\<open>Register(db)\<close>. The parameters are the template engine and the global \<^verbatim>\<open>templates\<close>,
  \<^verbatim>\<open>bcrypt.GenerateFromPassword\<close> and the clock.
\<close>

definition Register ::
  "(Template \<Rightarrow> template_data \<Rightarrow> string \<times> error option) \<Rightarrow> templates \<Rightarrow>
   (string \<Rightarrow> error + string) \<Rightarrow> nat \<Rightarrow> database \<Rightarrow> request \<Rightarrow> database \<times> response"
where
  "Register HtmlExecute ts GenerateFromPassword clock_ms db r =
     (if Method r \<noteq> MethodPost
      then (db, http_Error ''Only POST method is allowed'' StatusMethodNotAllowed)
      else case Form r of
        None \<Rightarrow> (db, http_Error ''Error parsing form'' StatusBadRequest)
      | Some form \<Rightarrow>
          let email = FormValue form ''email'';
              password = FormValue form ''password'';
              confirmPassword = FormValue form ''confirm_password''
          in
          if email = [] \<or> password = []
          then (db, RenderTemplate HtmlExecute ts ''auth/register.html''
                      [(''Error'', StringValue ''Email and password are required.'')])
          else if password \<noteq> confirmPassword
          then (db, RenderTemplate HtmlExecute ts ''auth/register.html''
                      [(''Error'', StringValue ''Passwords do not match.'')])
          else case GetUserByEmail db email of
            Inr _ \<Rightarrow>
              (db, RenderTemplate HtmlExecute ts ''auth/register.html''
                     [(''Error'', StringValue ''Email already registered.'')])
          | Inl err \<Rightarrow>
              if err \<noteq> ErrNoRows
              then (db, http_Error (''Database error: '' @ Error_text err) StatusInternalServerError)
              else case CreateUser GenerateFromPassword clock_ms db email password of
                (db', Inl err) \<Rightarrow>
                  (db', http_Error (''Could not create user: '' @ Error_text err)
                          StatusInternalServerError)
              | (db', Inr _) \<Rightarrow> (db', http_Redirect ''/login'' StatusSeeOther))"

text \<open>
  \<^verbatim>\<open>Login(db)\<close>. The parameters are the template engine and the global \<^verbatim>\<open>templates\<close>,
  \<^verbatim>\<open>bcrypt.CompareHashAndPassword\<close>, the result of \<^verbatim>\<open>uuid.NewRandom()\<close> as a string, and the
  clock (for the expiry of the cookie, 24 hours).
\<close>

definition Login ::
  "(Template \<Rightarrow> template_data \<Rightarrow> string \<times> error option) \<Rightarrow> templates \<Rightarrow>
   (string \<Rightarrow> string \<Rightarrow> error option) \<Rightarrow> error + string \<Rightarrow> nat \<Rightarrow>
   database \<Rightarrow> session_store \<Rightarrow> request \<Rightarrow> session_store \<times> response"
where
  "Login HtmlExecute ts CompareHashAndPassword NewRandom clock_ms db SessionStore r =
     (if Method r \<noteq> MethodPost
      then (SessionStore, http_Error ''Only POST method is allowed'' StatusMethodNotAllowed)
      else case Form r of
        None \<Rightarrow> (SessionStore, http_Error ''Error parsing form'' StatusBadRequest)
      | Some form \<Rightarrow>
          let email = FormValue form ''email'';
              password = FormValue form ''password''
          in
          if email = [] \<or> password = []
          then (SessionStore, RenderTemplate HtmlExecute ts ''auth/login.html''
                      [(''Error'', StringValue ''Email and password are required.'')])
          else case GetUserByEmail db email of
            Inl err \<Rightarrow>
              if err = ErrNoRows
              then (SessionStore, RenderTemplate HtmlExecute ts ''auth/login.html''
                      [(''Error'', StringValue ''Invalid email or password.'')])
              else (SessionStore, http_Error (''Database error: '' @ Error_text err)
                      StatusInternalServerError)
          | Inr user \<Rightarrow>
              (case VerifyPassword CompareHashAndPassword (User_PasswordHash user) password of
                 Some err \<Rightarrow>
                   (SessionStore, RenderTemplate HtmlExecute ts ''auth/login.html''
                      [(''Error'', StringValue ''Invalid email or password.'')])
               | None \<Rightarrow>
                   (case NewRandom of
                      Inl err \<Rightarrow>
                        (SessionStore, http_Error ''Could not create session ID''
                           StatusInternalServerError)
                    | Inr sessionToken \<Rightarrow>
                        (SessionStore(sessionToken \<mapsto> User_ID user),
                         \<lparr>Header = [],
                          SetCookies =
                            [\<lparr>Name = sessionCookieName, Value = sessionToken, Path = ''/'',
                              Expires = clock_ms + 24 * 60 * 60 * 1000, HttpOnly = True,
                              Secure = TLS r, SameSite = ''Lax''\<rparr>],
                          Body = Redirect ''/games'' StatusSeeOther\<rparr>))))"

text \<open>\<^verbatim>\<open>Logout\<close>: \<^verbatim>\<open>delete(SessionStore, sessionToken)\<close> and an expired cookie.\<close>

definition Logout :: "session_store \<Rightarrow> request \<Rightarrow> session_store \<times> response" where
  "Logout SessionStore r =
     (case Cookie r sessionCookieName of
        Inr sessionToken \<Rightarrow>
          (SessionStore(sessionToken := None),
           \<lparr>Header = [],
            SetCookies =
              [\<lparr>Name = sessionCookieName, Value = [], Path = ''/'', Expires = 0,
                HttpOnly = True, Secure = TLS r, SameSite = ''Lax''\<rparr>],
            Body = Redirect ''/login'' StatusSeeOther\<rparr>)
      | Inl err \<Rightarrow> (SessionStore, http_Redirect ''/login'' StatusSeeOther))"


section \<open>RSVP and chat handlers (\<^verbatim>\<open>rsvp_handlers.go\<close>, \<^verbatim>\<open>chat_handlers.go\<close>)\<close>

text \<open>
  The game id of \<^verbatim>\<open>/games/{id}/rsvp\<close> and \<^verbatim>\<open>/games/{id}/chat\<close>: the last part of the path
  without the action suffix (\<^verbatim>\<open>len(pathParts) > 0\<close> always holds for the result of
  \<^verbatim>\<open>Split\<close>).
\<close>

definition gameIDStr_of :: "string \<Rightarrow> string \<Rightarrow> string" where
  "gameIDStr_of path action =
     (let pathParts = Split (TrimSuffix path action) (CHR ''/'')
      in if length pathParts > 0 then last pathParts else [])"

definition valid_status :: "string \<Rightarrow> bool" where
  "valid_status status \<longleftrightarrow>
     status = RSVPStatusAttending \<or> status = RSVPStatusNotAttending \<or> status = RSVPStatusMaybe"

text \<open>
  \<^verbatim>\<open>SubmitRSVP(db)\<close>. The log lines written with \<^verbatim>\<open>fmt.Printf\<close> are not modelled. The fields
  of the \<^verbatim>\<open>models.RSVP\<close> literal that the handler does not set have Go's zero values.
\<close>

definition SubmitRSVP ::
  "(Template \<Rightarrow> template_data \<Rightarrow> string \<times> error option) \<Rightarrow> templates \<Rightarrow>
   session_store \<Rightarrow> nat \<Rightarrow> database \<Rightarrow> request \<Rightarrow> database \<times> response"
where
  "SubmitRSVP HtmlExecute ts SessionStore clock_ms db r =
     (if Method r \<noteq> MethodPost
      then (db, http_Error ''Only POST method is allowed'' StatusMethodNotAllowed)
      else case GetCurrentUser SessionStore r db of
        Inl err \<Rightarrow>
          (db, \<lparr>Header = [(''HX-Redirect'', ''/login'')], SetCookies = [],
                Body = HttpError ''User not authenticated'' StatusUnauthorized\<rparr>)
      | Inr currentUser \<Rightarrow>
          let gameIDStr = gameIDStr_of (URL_Path r) ''/rsvp'' in
          if gameIDStr = []
          then (db, http_Error ''Game ID missing in URL path'' StatusBadRequest)
          else case ParseInt gameIDStr of
            Inl err \<Rightarrow> (db, http_Error ''Invalid Game ID format'' StatusBadRequest)
          | Inr gameID \<Rightarrow>
              (case Form r of
                 None \<Rightarrow> (db, http_Error ''Error parsing form data'' StatusBadRequest)
               | Some form \<Rightarrow>
                   let status = FormValue form ''status'' in
                   if \<not> valid_status status
                   then (db, http_Error ''Invalid RSVP status value'' StatusBadRequest)
                   else
                     let rsvp = \<lparr>RSVP_ID = 0, RSVP_UserID = User_ID currentUser,
                                 RSVP_GameID = gameID, RSVP_Status = status,
                                 RSVP_CreatedAt = 0, RSVP_UpdatedAt = 0, RSVP_UserEmail = []\<rparr>
                     in case CreateOrUpdateRSVP clock_ms db rsvp of
                       (db', Some err) \<Rightarrow>
                         (db', http_Error ''Failed to update RSVP status. Please try again.''
                                 StatusInternalServerError)
                     | (db', None) \<Rightarrow>
                         (case GetRSVPsForGame db' gameID of
                            Inl err \<Rightarrow>
                              (db', http_Error ''Failed to refresh RSVP list.''
                                      StatusInternalServerError)
                          | Inr allGameRSVPs \<Rightarrow>
                              let currentUserRSVP =
                                    (case GetRSVPByUserForGame db' (User_ID currentUser) gameID of
                                       Inl err \<Rightarrow> NilValue
                                     | Inr x \<Rightarrow> RSVPValue x)
                              in case GetGameByID db' gameID of
                                Inl err \<Rightarrow>
                                  (db', http_Error ''Failed to load game context for RSVP.''
                                          StatusInternalServerError)
                              | Inr game \<Rightarrow>
                                  (db', RenderTemplate HtmlExecute ts ''games/_rsvp_section.html''
                                          [(''Game'', GameValue game),
                                           (''User'', UserValue currentUser),
                                           (''CurrentUserRSVP'', currentUserRSVP),
                                           (''AllGameRSVPs'', RSVPList allGameRSVPs)]))))"

text \<open>\<^verbatim>\<open>PostChatMessage(db)\<close>.\<close>

definition PostChatMessage ::
  "(Template \<Rightarrow> template_data \<Rightarrow> string \<times> error option) \<Rightarrow> templates \<Rightarrow>
   session_store \<Rightarrow> nat \<Rightarrow> database \<Rightarrow> request \<Rightarrow> database \<times> response"
where
  "PostChatMessage HtmlExecute ts SessionStore clock_ms db r =
     (if Method r \<noteq> MethodPost
      then (db, http_Error ''Only POST method is allowed'' StatusMethodNotAllowed)
      else case GetCurrentUser SessionStore r db of
        Inl err \<Rightarrow>
          (db, \<lparr>Header = [(''HX-Redirect'', ''/login'')], SetCookies = [],
                Body = HttpError ''User not authenticated'' StatusUnauthorized\<rparr>)
      | Inr currentUser \<Rightarrow>
          let gameIDStr = gameIDStr_of (URL_Path r) ''/chat'' in
          if gameIDStr = []
          then (db, http_Error ''Game ID missing in URL path'' StatusBadRequest)
          else case ParseInt gameIDStr of
            Inl err \<Rightarrow> (db, http_Error ''Invalid Game ID format'' StatusBadRequest)
          | Inr gameID \<Rightarrow>
              (case Form r of
                 None \<Rightarrow> (db, http_Error ''Error parsing form data'' StatusBadRequest)
               | Some form \<Rightarrow>
                   let messageContent = FormValue form ''message_content'' in
                   if TrimSpace messageContent = []
                   then (case GetChatMessagesForGame db gameID of
                           Inl fetchErr \<Rightarrow>
                             (db, http_Error
                                    ''Failed to refresh chat messages after validation error.''
                                    StatusInternalServerError)
                         | Inr chatMessages \<Rightarrow>
                             (db, RenderTemplate HtmlExecute ts ''games/_chat_messages.html''
                                    [(''ChatMessages'', ChatMessageList chatMessages),
                                     (''GameID'', IntValue gameID),
                                     (''User'', UserValue currentUser),
                                     (''Error'', StringValue ''Message content cannot be empty.'')]))
                   else
                     let chatMessage =
                           \<lparr>ChatMessage_ID = 0, ChatMessage_GameID = gameID,
                            ChatMessage_UserID = User_ID currentUser,
                            ChatMessage_UserEmail = User_Email currentUser,
                            ChatMessage_MessageContent = messageContent,
                            ChatMessage_CreatedAt = 0\<rparr>
                     in case CreateChatMessage clock_ms db chatMessage of
                       (db', Inl err) \<Rightarrow>
                         (db', http_Error ''Failed to post message. Please try again.''
                                 StatusInternalServerError)
                     | (db', Inr _) \<Rightarrow>
                         (case GetChatMessagesForGame db' gameID of
                            Inl err \<Rightarrow>
                              (db', http_Error ''Failed to refresh chat messages.''
                                      StatusInternalServerError)
                          | Inr updatedChatMessages \<Rightarrow>
                              (db', RenderTemplate HtmlExecute ts ''games/_chat_messages.html''
                                      [(''ChatMessages'', ChatMessageList updatedChatMessages),
                                       (''GameID'', IntValue gameID),
                                       (''User'', UserValue currentUser)]))))"

section \<open>Constraints of the schema\<close>

text \<open>
  \<^verbatim>\<open>users.id\<close> is the primary key and \<^verbatim>\<open>users.email\<close> is \<^verbatim>\<open>UNIQUE\<close>;
  \<^verbatim>\<open>rsvps.user_id\<close> and \<^verbatim>\<open>chat_messages.user_id\<close> reference \<^verbatim>\<open>users(id)\<close>.
\<close>

definition users_pk :: "database \<Rightarrow> bool" where
  "users_pk db \<longleftrightarrow> distinct (map User_ID (users db))"

definition users_email_unique :: "database \<Rightarrow> bool" where
  "users_email_unique db \<longleftrightarrow> distinct (map User_Email (users db))"

definition rsvps_fk_users :: "database \<Rightarrow> bool" where
  "rsvps_fk_users db \<longleftrightarrow> (\<forall>r \<in> set (rsvps db). list_ex (\<lambda>u. User_ID u = rsvps_user_id r) (users db))"

definition chat_fk_users :: "database \<Rightarrow> bool" where
  "chat_fk_users db \<longleftrightarrow>
     (\<forall>cm \<in> set (chat_messages db). list_ex (\<lambda>u. User_ID u = chat_user_id cm) (users db))"

text \<open>The columns of the table in a scanned \<^verbatim>\<open>models.RSVP\<close> and \<^verbatim>\<open>models.ChatMessage\<close>.\<close>

definition rsvp_row_of :: "RSVP \<Rightarrow> rsvps_row" where
  "rsvp_row_of x =
     \<lparr>rsvps_id = RSVP_ID x, rsvps_user_id = RSVP_UserID x, rsvps_game_id = RSVP_GameID x,
      rsvps_status = RSVP_Status x, rsvps_created_at = RSVP_CreatedAt x,
      rsvps_updated_at = RSVP_UpdatedAt x\<rparr>"

definition chat_row_of :: "ChatMessage \<Rightarrow> chat_messages_row" where
  "chat_row_of m =
     \<lparr>chat_id = ChatMessage_ID m, chat_game_id = ChatMessage_GameID m,
      chat_user_id = ChatMessage_UserID m,
      chat_message_content = ChatMessage_MessageContent m,
      chat_created_at = ChatMessage_CreatedAt m\<rparr>"

text \<open>All of them together, with the \<^verbatim>\<open>UNIQUE (user_id, game_id)\<close> of table \<^verbatim>\<open>rsvps\<close>.\<close>

definition schema_constraints :: "database \<Rightarrow> bool" where
  "schema_constraints db \<longleftrightarrow>
     users_pk db \<and> users_email_unique db \<and> rsvps_unique db \<and>
     rsvps_fk_users db \<and> chat_fk_users db"

text \<open>
  The databases the application can reach: from the empty database of \<^verbatim>\<open>InitDB\<close>, by the
  handlers that write (with any templates, session store, clock and request). The handler
  that creates a game writes table \<^verbatim>\<open>games\<close> and its sequence only; its step lets them change
  freely.
\<close>

inductive reachable :: "database \<Rightarrow> bool" where
  InitDB:
    "reachable \<lparr>users = [], games = [], rsvps = [], chat_messages = [],
                 users_seq = 0, games_seq = 0, rsvps_seq = 0, chat_messages_seq = 0\<rparr>"
| Register:
    "reachable db \<Longrightarrow>
     reachable (fst (Register HtmlExecute ts GenerateFromPassword clock_ms db r))"
| SubmitRSVP:
    "reachable db \<Longrightarrow> reachable (fst (SubmitRSVP HtmlExecute ts SessionStore clock_ms db r))"
| PostChatMessage:
    "reachable db \<Longrightarrow>
     reachable (fst (PostChatMessage HtmlExecute ts SessionStore clock_ms db r))"
| CreateGame: "reachable db \<Longrightarrow> reachable (db\<lparr>games := gs, games_seq := n\<rparr>)"

section \<open>Rowids\<close>

lemma fold_max_bounds:
  fixes a :: int
  shows "a \<le> fold max xs a \<and> (\<forall>x \<in> set xs. x \<le> fold max xs a)"
proof (induction xs arbitrary: a)
  case Nil
  show ?case by simp
next
  case (Cons x xs)
  from Cons [of "max x a"] show ?case by auto
qed

lemma last_rowid_ge: "i \<in> set ids \<Longrightarrow> i \<le> last_rowid ids"
proof (cases ids)
  case Nil
  assume "i \<in> set ids"
  with Nil show ?thesis by simp
next
  case (Cons j js)
  assume "i \<in> set ids"
  with Cons fold_max_bounds [of j js] show ?thesis
    by (auto simp: last_rowid_def)
qed

lemma fold_max_append_greater:
  fixes v :: int
  shows "fold max xs a < v \<Longrightarrow> fold max (xs @ [v]) a = v"
  by simp

lemma last_rowid_append:
  assumes "last_rowid ids < v"
  shows "last_rowid (ids @ [v]) = v"
proof (cases ids)
  case Nil
  then show ?thesis by (simp add: last_rowid_def)
next
  case (Cons j js)
  with assms show ?thesis by (simp add: last_rowid_def)
qed

lemma NewRowid_Inr:
  assumes "NewRowid seq ids = Inr v"
  shows "last_rowid ids < v" and "seq < v" and "v \<le> MAX_ROWID" and "v \<notin> set ids"
proof -
  from assms have full: "\<not> (last_rowid ids \<ge> MAX_ROWID \<or> seq \<ge> MAX_ROWID)"
    and v: "v = max (last_rowid ids + 1) (seq + 1)"
    by (auto simp: NewRowid_def split: if_splits)
  from v show 1: "last_rowid ids < v" and "seq < v" by auto
  from full v show "v \<le> MAX_ROWID" by auto
  from 1 last_rowid_ge [of v ids] show "v \<notin> set ids" by auto
qed

lemma NewRowid_Inl: "NewRowid seq ids = Inl e \<Longrightarrow> e = ErrFull"
  by (auto simp: NewRowid_def split: if_splits)

lemma NewRowid_after_insert:
  assumes "NewRowid seq ids = Inr v" and "v < MAX_ROWID"
  shows "NewRowid v (ids @ [v]) = Inr (v + 1)"
proof -
  from assms(1) have "last_rowid ids < v" by (rule NewRowid_Inr)
  then have "last_rowid (ids @ [v]) = v" by (rule last_rowid_append)
  with assms(2) show ?thesis by (simp add: NewRowid_def)
qed

lemma NewRowid_after_update:
  assumes "NewRowid seq ids = Inr v" and "v < MAX_ROWID"
  shows "NewRowid v ids = Inr (v + 1)"
proof -
  from assms(1) have "last_rowid ids < v" by (rule NewRowid_Inr)
  moreover from assms(1) have "\<not> last_rowid ids \<ge> MAX_ROWID"
    by (auto simp: NewRowid_def split: if_splits)
  ultimately show ?thesis using assms(2) by (simp add: NewRowid_def)
qed

section \<open>The RSVP upsert\<close>

lemma distinct_map_filter_le1:
  "distinct (map f xs) \<Longrightarrow> length (filter (\<lambda>x. f x = k) xs) \<le> 1"
  by (induction xs) (auto simp: image_iff filter_empty_conv)

lemma rsvp_rows_for_unique:
  assumes "rsvps_unique db"
  shows "length (rsvp_rows_for db u g) \<le> 1"
proof -
  have "length (filter (\<lambda>r. (rsvps_user_id r, rsvps_game_id r) = (u, g)) (rsvps db)) \<le> 1"
    using assms unfolding rsvps_unique_def by (rule distinct_map_filter_le1)
  then show ?thesis by (simp add: rsvp_rows_for_def)
qed

lemma find_conflict_None:
  "find (rsvp_conflict rsvp) (rsvps db) = None \<longleftrightarrow>
     rsvp_rows_for db (RSVP_UserID rsvp) (RSVP_GameID rsvp) = []"
  by (auto simp: find_None_iff rsvp_rows_for_def filter_empty_conv rsvp_conflict_def)

lemma upsert_full:
  assumes "NewRowid (rsvps_seq db) (map rsvps_id (rsvps db)) = Inl e"
  shows "CreateOrUpdateRSVP c db rsvp = (db, Some e)"
  using assms by (simp add: CreateOrUpdateRSVP_def)

lemma upsert_insert:
  assumes "rsvp_rows_for db (RSVP_UserID rsvp) (RSVP_GameID rsvp) = []"
    and "NewRowid (rsvps_seq db) (map rsvps_id (rsvps db)) = Inr v"
  shows "CreateOrUpdateRSVP c db rsvp =
     (db\<lparr>rsvps := rsvps db @ [upsert_new_row c rsvp v], rsvps_seq := v\<rparr>, None)"
proof -
  from assms(1) have "find (rsvp_conflict rsvp) (rsvps db) = None"
    by (simp add: find_conflict_None)
  with assms(2) show ?thesis by (simp add: CreateOrUpdateRSVP_def)
qed

lemma upsert_update:
  assumes "rsvp_rows_for db (RSVP_UserID rsvp) (RSVP_GameID rsvp) \<noteq> []"
    and "NewRowid (rsvps_seq db) (map rsvps_id (rsvps db)) = Inr v"
  shows "CreateOrUpdateRSVP c db rsvp =
     (db\<lparr>rsvps := map (\<lambda>r. if rsvp_conflict rsvp r
                          then r\<lparr>rsvps_status := RSVP_Status rsvp, rsvps_updated_at := CURRENT_TIMESTAMP c\<rparr>
                          else r) (rsvps db),
         rsvps_seq := v\<rparr>, None)"
proof -
  from assms(1) obtain x where "find (rsvp_conflict rsvp) (rsvps db) = Some x"
    using find_conflict_None [of rsvp db] by (cases "find (rsvp_conflict rsvp) (rsvps db)") auto
  with assms(2) show ?thesis by (simp add: CreateOrUpdateRSVP_def)
qed

lemma upsert_None_rowid:
  assumes "CreateOrUpdateRSVP c db rsvp = (db', None)"
  obtains v where "NewRowid (rsvps_seq db) (map rsvps_id (rsvps db)) = Inr v"
  using assms
  by (cases "NewRowid (rsvps_seq db) (map rsvps_id (rsvps db))")
     (auto simp: CreateOrUpdateRSVP_def)

lemma upsert_Some_unchanged:
  assumes "CreateOrUpdateRSVP c db rsvp = (db', Some e)"
  shows "db' = db"
  using assms
  by (auto simp: CreateOrUpdateRSVP_def split: sum.splits option.splits)

lemma rows_for_after_insert:
  "rsvp_rows_for (db\<lparr>rsvps := rsvps db @ [upsert_new_row c rsvp v], rsvps_seq := w\<rparr>) u g =
     rsvp_rows_for db u g @ (if u = RSVP_UserID rsvp \<and> g = RSVP_GameID rsvp then [upsert_new_row c rsvp v] else [])"
  by (simp add: rsvp_rows_for_def upsert_new_row_def)

lemma filter_pair_map_update:
  "filter (\<lambda>r. rsvps_user_id r = u \<and> rsvps_game_id r = g)
     (map (\<lambda>r. if rsvps_user_id r = a \<and> rsvps_game_id r = b
               then r\<lparr>rsvps_status := s, rsvps_updated_at := t\<rparr> else r) xs) =
   (if u = a \<and> g = b
    then map (\<lambda>r. r\<lparr>rsvps_status := s, rsvps_updated_at := t\<rparr>)
           (filter (\<lambda>r. rsvps_user_id r = u \<and> rsvps_game_id r = g) xs)
    else filter (\<lambda>r. rsvps_user_id r = u \<and> rsvps_game_id r = g) xs)"
  by (induction xs) auto

lemma rows_for_after_update:
  "rsvp_rows_for (db\<lparr>rsvps := map (\<lambda>r. if rsvp_conflict rsvp r
                          then r\<lparr>rsvps_status := s, rsvps_updated_at := t\<rparr>
                          else r) (rsvps db), rsvps_seq := w\<rparr>) u g =
     (if u = RSVP_UserID rsvp \<and> g = RSVP_GameID rsvp
      then map (\<lambda>r. r\<lparr>rsvps_status := s, rsvps_updated_at := t\<rparr>) (rsvp_rows_for db u g)
      else rsvp_rows_for db u g)"
  using filter_pair_map_update [where a = "RSVP_UserID rsvp" and b = "RSVP_GameID rsvp" and xs = "rsvps db"]
  by (simp add: rsvp_rows_for_def rsvp_conflict_def)

lemma keys_map_update:
  "map (\<lambda>r. (rsvps_user_id r, rsvps_game_id r))
     (map (\<lambda>r. if C r then r\<lparr>rsvps_status := s, rsvps_updated_at := t\<rparr> else r) xs) =
   map (\<lambda>r. (rsvps_user_id r, rsvps_game_id r)) xs"
  by (induction xs) auto

lemma ids_map_update:
  "map rsvps_id
     (map (\<lambda>r. if C r then r\<lparr>rsvps_status := s, rsvps_updated_at := t\<rparr> else r) xs) =
   map rsvps_id xs"
  by (induction xs) auto

lemma upsert_keys:
  assumes "CreateOrUpdateRSVP c db rsvp = (db', None)"
  shows "map (\<lambda>r. (rsvps_user_id r, rsvps_game_id r)) (rsvps db') =
   map (\<lambda>r. (rsvps_user_id r, rsvps_game_id r)) (rsvps db) @
     (if rsvp_rows_for db (RSVP_UserID rsvp) (RSVP_GameID rsvp) = []
      then [(RSVP_UserID rsvp, RSVP_GameID rsvp)] else [])"
proof -
  from assms obtain v where v: "NewRowid (rsvps_seq db) (map rsvps_id (rsvps db)) = Inr v"
    by (rule upsert_None_rowid)
  show ?thesis
  proof (cases "rsvp_rows_for db (RSVP_UserID rsvp) (RSVP_GameID rsvp) = []")
    case True
    from upsert_insert [OF True v, of c] assms show ?thesis
      using True by (auto simp: upsert_new_row_def)
  next
    case False
    from upsert_update [OF False v, of c] assms show ?thesis
      using False by (auto simp: keys_map_update)
  qed
qed

lemma upsert_preserves_unique:
  assumes "rsvps_unique db" and "CreateOrUpdateRSVP c db rsvp = (db', None)"
  shows "rsvps_unique db'"
proof (cases "rsvp_rows_for db (RSVP_UserID rsvp) (RSVP_GameID rsvp) = []")
  case True
  then have "(RSVP_UserID rsvp, RSVP_GameID rsvp) \<notin> (\<lambda>r. (rsvps_user_id r, rsvps_game_id r)) ` set (rsvps db)"
    by (auto simp: rsvp_rows_for_def filter_empty_conv)
  with assms True show ?thesis
    by (simp add: rsvps_unique_def upsert_keys)
next
  case False
  with assms show ?thesis
    by (simp add: rsvps_unique_def upsert_keys)
qed

lemma upsert_second_call:
  assumes "rsvp_rows_for db1 (RSVP_UserID rsvp2) (RSVP_GameID rsvp2) = [row1]"
    and "NewRowid (rsvps_seq db1) (map rsvps_id (rsvps db1)) = Inr v"
  shows "\<exists>db2. CreateOrUpdateRSVP c2 db1 rsvp2 = (db2, None) \<and>
           rsvp_rows_for db2 (RSVP_UserID rsvp2) (RSVP_GameID rsvp2) =
             [row1\<lparr>rsvps_status := RSVP_Status rsvp2, rsvps_updated_at := CURRENT_TIMESTAMP c2\<rparr>] \<and>
           (\<forall>u g. (u, g) \<noteq> (RSVP_UserID rsvp2, RSVP_GameID rsvp2) \<longrightarrow>
              rsvp_rows_for db2 u g = rsvp_rows_for db1 u g) \<and>
           map rsvps_id (rsvps db2) = map rsvps_id (rsvps db1) \<and>
           rsvps_seq db2 = v"
  using assms by (auto simp: upsert_update rows_for_after_update ids_map_update)

lemma upsert_new_row_id: "rsvps_id (upsert_new_row c rsvp v) = v"
  by (simp add: upsert_new_row_def)

lemma upsert_first_call:
  assumes "rsvp_rows_for db (RSVP_UserID rsvp) (RSVP_GameID rsvp) = []"
    and "NewRowid (rsvps_seq db) (map rsvps_id (rsvps db)) = Inr v"
  shows "\<exists>db1. CreateOrUpdateRSVP c db rsvp = (db1, None) \<and>
           rsvp_rows_for db1 (RSVP_UserID rsvp) (RSVP_GameID rsvp) = [upsert_new_row c rsvp v] \<and>
           (\<forall>u g. (u, g) \<noteq> (RSVP_UserID rsvp, RSVP_GameID rsvp) \<longrightarrow>
              rsvp_rows_for db1 u g = rsvp_rows_for db u g) \<and>
           map rsvps_id (rsvps db1) = map rsvps_id (rsvps db) @ [v] \<and>
           rsvps_seq db1 = v"
  using assms by (auto simp: upsert_insert rows_for_after_insert upsert_new_row_id)

text \<open>
  Claim C1, as the claim states it, fails in two ways. The update timestamp of the second
  call is below that of the first when the clock has gone back in between: user 7 answers
  for game 3 at clock 5000 ms and again at clock 1000 ms, and \<^verbatim>\<open>updated_at\<close> goes from 5 to 1.
  And a call leaves no row for the pair when no rowid is left: on a table whose largest
  rowid is \<open>2\<^sup>6\<^sup>3 - 1\<close> the statement fails with \<^verbatim>\<open>SQLITE_FULL\<close> and changes nothing.
\<close>

theorem CreateOrUpdateRSVP_upsert_counterexample:
  "rsvp_rows_for
     (fst (CreateOrUpdateRSVP 5000
        \<lparr>users = [], games = [], rsvps = [], chat_messages = [],
         users_seq = 0, games_seq = 0, rsvps_seq = 0, chat_messages_seq = 0\<rparr>
        \<lparr>RSVP_ID = 0, RSVP_UserID = 7, RSVP_GameID = 3, RSVP_Status = ''attending'',
         RSVP_CreatedAt = 0, RSVP_UpdatedAt = 0, RSVP_UserEmail = []\<rparr>)) 7 3 =
     [\<lparr>rsvps_id = 1, rsvps_user_id = 7, rsvps_game_id = 3, rsvps_status = ''attending'',
       rsvps_created_at = 5, rsvps_updated_at = 5\<rparr>] \<and>
   rsvp_rows_for
     (fst (CreateOrUpdateRSVP 1000
        (fst (CreateOrUpdateRSVP 5000
           \<lparr>users = [], games = [], rsvps = [], chat_messages = [],
            users_seq = 0, games_seq = 0, rsvps_seq = 0, chat_messages_seq = 0\<rparr>
           \<lparr>RSVP_ID = 0, RSVP_UserID = 7, RSVP_GameID = 3, RSVP_Status = ''attending'',
            RSVP_CreatedAt = 0, RSVP_UpdatedAt = 0, RSVP_UserEmail = []\<rparr>))
        \<lparr>RSVP_ID = 0, RSVP_UserID = 7, RSVP_GameID = 3, RSVP_Status = ''maybe'',
         RSVP_CreatedAt = 0, RSVP_UpdatedAt = 0, RSVP_UserEmail = []\<rparr>)) 7 3 =
     [\<lparr>rsvps_id = 1, rsvps_user_id = 7, rsvps_game_id = 3, rsvps_status = ''maybe'',
       rsvps_created_at = 5, rsvps_updated_at = 1\<rparr>] \<and>
   CreateOrUpdateRSVP 5000
     \<lparr>users = [], games = [],
      rsvps = [\<lparr>rsvps_id = 2 ^ 63 - 1, rsvps_user_id = 8, rsvps_game_id = 3,
                rsvps_status = ''maybe'', rsvps_created_at = 2, rsvps_updated_at = 2\<rparr>],
      chat_messages = [],
      users_seq = 0, games_seq = 0, rsvps_seq = 2 ^ 63 - 1, chat_messages_seq = 0\<rparr>
     \<lparr>RSVP_ID = 0, RSVP_UserID = 7, RSVP_GameID = 3, RSVP_Status = ''attending'',
      RSVP_CreatedAt = 0, RSVP_UpdatedAt = 0, RSVP_UserEmail = []\<rparr> =
     (\<lparr>users = [], games = [],
       rsvps = [\<lparr>rsvps_id = 2 ^ 63 - 1, rsvps_user_id = 8, rsvps_game_id = 3,
                 rsvps_status = ''maybe'', rsvps_created_at = 2, rsvps_updated_at = 2\<rparr>],
       chat_messages = [],
       users_seq = 0, games_seq = 0, rsvps_seq = 2 ^ 63 - 1, chat_messages_seq = 0\<rparr>,
      Some ErrFull) \<and>
   rsvp_rows_for
     \<lparr>users = [], games = [],
      rsvps = [\<lparr>rsvps_id = 2 ^ 63 - 1, rsvps_user_id = 8, rsvps_game_id = 3,
                rsvps_status = ''maybe'', rsvps_created_at = 2, rsvps_updated_at = 2\<rparr>],
      chat_messages = [],
      users_seq = 0, games_seq = 0, rsvps_seq = 2 ^ 63 - 1, chat_messages_seq = 0\<rparr> 7 3 = []"
  by (simp add: CreateOrUpdateRSVP_def NewRowid_def last_rowid_def MAX_ROWID_def
      rsvp_conflict_def upsert_new_row_def CURRENT_TIMESTAMP_def rsvp_rows_for_def)

text \<open>
  Claim C1, amended. On a table that satisfies \<^verbatim>\<open>UNIQUE (user_id, game_id)\<close>,
  \<^verbatim>\<open>CreateOrUpdateRSVP\<close> is one statement that either fails with \<^verbatim>\<open>SQLITE_FULL\<close> and
  changes nothing, when no rowid is left, or succeeds and leaves exactly one row for the
  pair: a fresh row, under the rowid taken, with \<^verbatim>\<open>created_at\<close> and \<^verbatim>\<open>updated_at\<close> both the
  current time when the pair had none, and otherwise the old row with only \<^verbatim>\<open>status\<close> and
  \<^verbatim>\<open>updated_at\<close> overwritten. When a rowid is left for it too, a second call for the same
  pair, at a clock that has not gone back, again leaves exactly one row: the row of the
  first call with the status of the second call and an \<^verbatim>\<open>updated_at\<close> that is not smaller.
  The rows of every other pair are unchanged.
\<close>

theorem CreateOrUpdateRSVP_upsert:
  assumes uniq: "rsvps_unique db"
    and pair: "RSVP_UserID rsvp2 = RSVP_UserID rsvp" "RSVP_GameID rsvp2 = RSVP_GameID rsvp"
    and clock: "c1 \<le> c2"
  shows
    "(\<forall>e. NewRowid (rsvps_seq db) (map rsvps_id (rsvps db)) = Inl e \<longrightarrow>
        e = ErrFull \<and> CreateOrUpdateRSVP c1 db rsvp = (db, Some ErrFull)) \<and>
     (\<forall>v. NewRowid (rsvps_seq db) (map rsvps_id (rsvps db)) = Inr v \<longrightarrow>
        (\<exists>db1 row1.
           CreateOrUpdateRSVP c1 db rsvp = (db1, None) \<and>
           rsvp_rows_for db1 (RSVP_UserID rsvp) (RSVP_GameID rsvp) = [row1] \<and>
           (rsvp_rows_for db (RSVP_UserID rsvp) (RSVP_GameID rsvp) = [] \<longrightarrow>
              row1 = \<lparr>rsvps_id = v,
                      rsvps_user_id = RSVP_UserID rsvp, rsvps_game_id = RSVP_GameID rsvp,
                      rsvps_status = RSVP_Status rsvp,
                      rsvps_created_at = CURRENT_TIMESTAMP c1,
                      rsvps_updated_at = CURRENT_TIMESTAMP c1\<rparr>) \<and>
           (\<forall>old. rsvp_rows_for db (RSVP_UserID rsvp) (RSVP_GameID rsvp) = [old] \<longrightarrow>
              row1 = old\<lparr>rsvps_status := RSVP_Status rsvp,
                          rsvps_updated_at := CURRENT_TIMESTAMP c1\<rparr>) \<and>
           rsvps_updated_at row1 = CURRENT_TIMESTAMP c1 \<and>
           (\<forall>u g. (u, g) \<noteq> (RSVP_UserID rsvp, RSVP_GameID rsvp) \<longrightarrow>
              rsvp_rows_for db1 u g = rsvp_rows_for db u g) \<and>
           (v < MAX_ROWID \<longrightarrow>
              (\<exists>db2 row2.
                 CreateOrUpdateRSVP c2 db1 rsvp2 = (db2, None) \<and>
                 rsvp_rows_for db2 (RSVP_UserID rsvp) (RSVP_GameID rsvp) = [row2] \<and>
                 row2 = row1\<lparr>rsvps_status := RSVP_Status rsvp2,
                             rsvps_updated_at := CURRENT_TIMESTAMP c2\<rparr> \<and>
                 rsvps_updated_at row1 \<le> rsvps_updated_at row2 \<and>
                 (\<forall>u g. (u, g) \<noteq> (RSVP_UserID rsvp, RSVP_GameID rsvp) \<longrightarrow>
                    rsvp_rows_for db2 u g = rsvp_rows_for db u g)))))"
proof (intro conjI allI impI)
  fix e
  assume e: "NewRowid (rsvps_seq db) (map rsvps_id (rsvps db)) = Inl e"
  then show "e = ErrFull" by (rule NewRowid_Inl)
  with e show "CreateOrUpdateRSVP c1 db rsvp = (db, Some ErrFull)"
    by (simp add: upsert_full)
next
  fix v
  assume v: "NewRowid (rsvps_seq db) (map rsvps_id (rsvps db)) = Inr v"
  let ?u = "RSVP_UserID rsvp" and ?g = "RSVP_GameID rsvp"
  let ?second = "\<lambda>db1 row1. v < MAX_ROWID \<longrightarrow>
      (\<exists>db2 row2.
         CreateOrUpdateRSVP c2 db1 rsvp2 = (db2, None) \<and>
         rsvp_rows_for db2 ?u ?g = [row2] \<and>
         row2 = row1\<lparr>rsvps_status := RSVP_Status rsvp2,
                     rsvps_updated_at := CURRENT_TIMESTAMP c2\<rparr> \<and>
         rsvps_updated_at row1 \<le> rsvps_updated_at row2 \<and>
         (\<forall>u g. (u, g) \<noteq> (?u, ?g) \<longrightarrow> rsvp_rows_for db2 u g = rsvp_rows_for db u g))"
  have mono: "CURRENT_TIMESTAMP c1 \<le> CURRENT_TIMESTAMP c2"
    using clock by (simp add: CURRENT_TIMESTAMP_def div_le_mono)
  have again: "?second db1 row1"
    if rows: "rsvp_rows_for db1 ?u ?g = [row1]"
      and others: "\<forall>u g. (u, g) \<noteq> (?u, ?g) \<longrightarrow> rsvp_rows_for db1 u g = rsvp_rows_for db u g"
      and next_rowid: "v < MAX_ROWID \<Longrightarrow>
             NewRowid (rsvps_seq db1) (map rsvps_id (rsvps db1)) = Inr (v + 1)"
      and stamp: "rsvps_updated_at row1 = CURRENT_TIMESTAMP c1"
    for db1 row1
  proof
    assume "v < MAX_ROWID"
    then have w: "NewRowid (rsvps_seq db1) (map rsvps_id (rsvps db1)) = Inr (v + 1)"
      by (rule next_rowid)
    from rows have "rsvp_rows_for db1 (RSVP_UserID rsvp2) (RSVP_GameID rsvp2) = [row1]"
      by (simp add: pair)
    from upsert_second_call [OF this w, of c2] obtain db2 where
      2: "CreateOrUpdateRSVP c2 db1 rsvp2 = (db2, None)"
         "rsvp_rows_for db2 ?u ?g =
            [row1\<lparr>rsvps_status := RSVP_Status rsvp2, rsvps_updated_at := CURRENT_TIMESTAMP c2\<rparr>]"
         "\<forall>u g. (u, g) \<noteq> (?u, ?g) \<longrightarrow> rsvp_rows_for db2 u g = rsvp_rows_for db1 u g"
      by (auto simp: pair)
    show "\<exists>db2 row2.
         CreateOrUpdateRSVP c2 db1 rsvp2 = (db2, None) \<and>
         rsvp_rows_for db2 ?u ?g = [row2] \<and>
         row2 = row1\<lparr>rsvps_status := RSVP_Status rsvp2,
                     rsvps_updated_at := CURRENT_TIMESTAMP c2\<rparr> \<and>
         rsvps_updated_at row1 \<le> rsvps_updated_at row2 \<and>
         (\<forall>u g. (u, g) \<noteq> (?u, ?g) \<longrightarrow> rsvp_rows_for db2 u g = rsvp_rows_for db u g)"
      apply (rule exI [of _ db2])
      apply (rule exI [of _ "row1\<lparr>rsvps_status := RSVP_Status rsvp2,
                                  rsvps_updated_at := CURRENT_TIMESTAMP c2\<rparr>"])
      using 2 others stamp mono by simp
  qed
  have "length (rsvp_rows_for db ?u ?g) \<le> 1"
    using uniq by (rule rsvp_rows_for_unique)
  then consider (absent) "rsvp_rows_for db ?u ?g = []"
    | (present) old where "rsvp_rows_for db ?u ?g = [old]"
    by (cases "rsvp_rows_for db ?u ?g") auto
  then show "\<exists>db1 row1.
           CreateOrUpdateRSVP c1 db rsvp = (db1, None) \<and>
           rsvp_rows_for db1 ?u ?g = [row1] \<and>
           (rsvp_rows_for db ?u ?g = [] \<longrightarrow>
              row1 = \<lparr>rsvps_id = v,
                      rsvps_user_id = RSVP_UserID rsvp, rsvps_game_id = RSVP_GameID rsvp,
                      rsvps_status = RSVP_Status rsvp,
                      rsvps_created_at = CURRENT_TIMESTAMP c1,
                      rsvps_updated_at = CURRENT_TIMESTAMP c1\<rparr>) \<and>
           (\<forall>old. rsvp_rows_for db ?u ?g = [old] \<longrightarrow>
              row1 = old\<lparr>rsvps_status := RSVP_Status rsvp,
                          rsvps_updated_at := CURRENT_TIMESTAMP c1\<rparr>) \<and>
           rsvps_updated_at row1 = CURRENT_TIMESTAMP c1 \<and>
           (\<forall>u g. (u, g) \<noteq> (?u, ?g) \<longrightarrow> rsvp_rows_for db1 u g = rsvp_rows_for db u g) \<and>
           ?second db1 row1"
  proof cases
    case absent
    let ?row1 = "upsert_new_row c1 rsvp v"
    from upsert_first_call [OF absent v, of c1] obtain db1 where
      1: "CreateOrUpdateRSVP c1 db rsvp = (db1, None)"
         "rsvp_rows_for db1 ?u ?g = [?row1]"
         "\<forall>u g. (u, g) \<noteq> (?u, ?g) \<longrightarrow> rsvp_rows_for db1 u g = rsvp_rows_for db u g"
         "map rsvps_id (rsvps db1) = map rsvps_id (rsvps db) @ [v]"
         "rsvps_seq db1 = v"
      by blast
    have stamp: "rsvps_updated_at ?row1 = CURRENT_TIMESTAMP c1"
      by (simp add: upsert_new_row_def)
    have "?second db1 ?row1"
      using 1(2,3) _ stamp
    proof (rule again)
      assume "v < MAX_ROWID"
      with v show "NewRowid (rsvps_seq db1) (map rsvps_id (rsvps db1)) = Inr (v + 1)"
        by (simp add: 1 NewRowid_after_insert)
    qed
    with 1 absent stamp show ?thesis
      apply (intro exI [of _ db1] exI [of _ ?row1])
      apply (simp add: upsert_new_row_def)
      done
  next
    case present
    let ?row1 = "old\<lparr>rsvps_status := RSVP_Status rsvp, rsvps_updated_at := CURRENT_TIMESTAMP c1\<rparr>"
    from upsert_second_call [OF present v, of c1] obtain db1 where
      1: "CreateOrUpdateRSVP c1 db rsvp = (db1, None)"
         "rsvp_rows_for db1 ?u ?g = [?row1]"
         "\<forall>u g. (u, g) \<noteq> (?u, ?g) \<longrightarrow> rsvp_rows_for db1 u g = rsvp_rows_for db u g"
         "map rsvps_id (rsvps db1) = map rsvps_id (rsvps db)"
         "rsvps_seq db1 = v"
      by blast
    have stamp: "rsvps_updated_at ?row1 = CURRENT_TIMESTAMP c1" by simp
    have "?second db1 ?row1"
      using 1(2,3) _ stamp
    proof (rule again)
      assume "v < MAX_ROWID"
      with v show "NewRowid (rsvps_seq db1) (map rsvps_id (rsvps db1)) = Inr (v + 1)"
        by (simp add: 1 NewRowid_after_update)
    qed
    with 1 present show ?thesis
      apply (intro exI [of _ db1] exI [of _ ?row1])
      apply simp
      done
  qed
qed

theorem CreateOrUpdateRSVP_upsert_witness:
  "rsvps_unique
     \<lparr>users = [], games = [], rsvps = [], chat_messages = [],
      users_seq = 0, games_seq = 0, rsvps_seq = 0, chat_messages_seq = 0\<rparr> \<and>
   (1000::nat) \<le> 2500 \<and>
   (\<exists>db1 db2.
      CreateOrUpdateRSVP 1000
        \<lparr>users = [], games = [], rsvps = [], chat_messages = [],
         users_seq = 0, games_seq = 0, rsvps_seq = 0, chat_messages_seq = 0\<rparr>
        \<lparr>RSVP_ID = 0, RSVP_UserID = 7, RSVP_GameID = 3, RSVP_Status = ''attending'',
         RSVP_CreatedAt = 0, RSVP_UpdatedAt = 0, RSVP_UserEmail = []\<rparr> = (db1, None) \<and>
      CreateOrUpdateRSVP 2500 db1
        \<lparr>RSVP_ID = 0, RSVP_UserID = 7, RSVP_GameID = 3, RSVP_Status = ''maybe'',
         RSVP_CreatedAt = 0, RSVP_UpdatedAt = 0, RSVP_UserEmail = []\<rparr> = (db2, None) \<and>
      rsvp_rows_for db1 7 3 =
        [\<lparr>rsvps_id = 1, rsvps_user_id = 7, rsvps_game_id = 3, rsvps_status = ''attending'',
          rsvps_created_at = 1, rsvps_updated_at = 1\<rparr>] \<and>
      rsvp_rows_for db2 7 3 =
        [\<lparr>rsvps_id = 1, rsvps_user_id = 7, rsvps_game_id = 3, rsvps_status = ''maybe'',
          rsvps_created_at = 1, rsvps_updated_at = 2\<rparr>] \<and>
      rsvps_seq db1 = 1 \<and> rsvps_seq db2 = 2) \<and>
   rsvps_unique
     \<lparr>users = [], games = [],
      rsvps = [\<lparr>rsvps_id = 1, rsvps_user_id = 7, rsvps_game_id = 3,
                rsvps_status = ''maybe'', rsvps_created_at = 1, rsvps_updated_at = 2\<rparr>],
      chat_messages = [],
      users_seq = 0, games_seq = 0, rsvps_seq = 2, chat_messages_seq = 0\<rparr> \<and>
   (\<exists>db1.
      CreateOrUpdateRSVP 20000
        \<lparr>users = [], games = [],
         rsvps = [\<lparr>rsvps_id = 1, rsvps_user_id = 7, rsvps_game_id = 3,
                   rsvps_status = ''maybe'', rsvps_created_at = 1, rsvps_updated_at = 2\<rparr>],
         chat_messages = [],
         users_seq = 0, games_seq = 0, rsvps_seq = 2, chat_messages_seq = 0\<rparr>
        \<lparr>RSVP_ID = 0, RSVP_UserID = 9, RSVP_GameID = 3, RSVP_Status = ''attending'',
         RSVP_CreatedAt = 0, RSVP_UpdatedAt = 0, RSVP_UserEmail = []\<rparr> = (db1, None) \<and>
      rsvp_rows_for db1 9 3 =
        [\<lparr>rsvps_id = 3, rsvps_user_id = 9, rsvps_game_id = 3, rsvps_status = ''attending'',
          rsvps_created_at = 20, rsvps_updated_at = 20\<rparr>] \<and>
      rsvp_rows_for db1 7 3 =
        [\<lparr>rsvps_id = 1, rsvps_user_id = 7, rsvps_game_id = 3, rsvps_status = ''maybe'',
          rsvps_created_at = 1, rsvps_updated_at = 2\<rparr>]) \<and>
   (\<exists>db1.
      CreateOrUpdateRSVP 20000
        \<lparr>users = [], games = [],
         rsvps = [\<lparr>rsvps_id = 1, rsvps_user_id = 7, rsvps_game_id = 3,
                   rsvps_status = ''maybe'', rsvps_created_at = 1, rsvps_updated_at = 2\<rparr>],
         chat_messages = [],
         users_seq = 0, games_seq = 0, rsvps_seq = 2, chat_messages_seq = 0\<rparr>
        \<lparr>RSVP_ID = 0, RSVP_UserID = 7, RSVP_GameID = 3, RSVP_Status = ''not_attending'',
         RSVP_CreatedAt = 0, RSVP_UpdatedAt = 0, RSVP_UserEmail = []\<rparr> = (db1, None) \<and>
      rsvp_rows_for db1 7 3 =
        [\<lparr>rsvps_id = 1, rsvps_user_id = 7, rsvps_game_id = 3,
          rsvps_status = ''not_attending'', rsvps_created_at = 1, rsvps_updated_at = 20\<rparr>]) \<and>
   rsvps_unique
     \<lparr>users = [], games = [],
      rsvps = [\<lparr>rsvps_id = 2 ^ 63 - 1, rsvps_user_id = 8, rsvps_game_id = 3,
                rsvps_status = ''maybe'', rsvps_created_at = 2, rsvps_updated_at = 2\<rparr>],
      chat_messages = [],
      users_seq = 0, games_seq = 0, rsvps_seq = 2 ^ 63 - 1, chat_messages_seq = 0\<rparr> \<and>
   CreateOrUpdateRSVP 5000
     \<lparr>users = [], games = [],
      rsvps = [\<lparr>rsvps_id = 2 ^ 63 - 1, rsvps_user_id = 8, rsvps_game_id = 3,
                rsvps_status = ''maybe'', rsvps_created_at = 2, rsvps_updated_at = 2\<rparr>],
      chat_messages = [],
      users_seq = 0, games_seq = 0, rsvps_seq = 2 ^ 63 - 1, chat_messages_seq = 0\<rparr>
     \<lparr>RSVP_ID = 0, RSVP_UserID = 7, RSVP_GameID = 3, RSVP_Status = ''attending'',
      RSVP_CreatedAt = 0, RSVP_UpdatedAt = 0, RSVP_UserEmail = []\<rparr> =
     (\<lparr>users = [], games = [],
       rsvps = [\<lparr>rsvps_id = 2 ^ 63 - 1, rsvps_user_id = 8, rsvps_game_id = 3,
                 rsvps_status = ''maybe'', rsvps_created_at = 2, rsvps_updated_at = 2\<rparr>],
       chat_messages = [],
       users_seq = 0, games_seq = 0, rsvps_seq = 2 ^ 63 - 1, chat_messages_seq = 0\<rparr>,
      Some ErrFull)"
proof -
  let ?db0 = "\<lparr>users = [], games = [], rsvps = [], chat_messages = [],
      users_seq = 0, games_seq = 0, rsvps_seq = 0, chat_messages_seq = 0\<rparr>"
  let ?dbx = "\<lparr>users = [], games = [],
      rsvps = [\<lparr>rsvps_id = 1, rsvps_user_id = 7, rsvps_game_id = 3,
                rsvps_status = ''maybe'', rsvps_created_at = 1, rsvps_updated_at = 2\<rparr>],
      chat_messages = [],
      users_seq = 0, games_seq = 0, rsvps_seq = 2, chat_messages_seq = 0\<rparr>"
  let ?dbf = "\<lparr>users = [], games = [],
      rsvps = [\<lparr>rsvps_id = 2 ^ 63 - 1, rsvps_user_id = 8, rsvps_game_id = 3,
                rsvps_status = ''maybe'', rsvps_created_at = 2, rsvps_updated_at = 2\<rparr>],
      chat_messages = [],
      users_seq = 0, games_seq = 0, rsvps_seq = 2 ^ 63 - 1, chat_messages_seq = 0\<rparr>"
  let ?a = "\<lparr>RSVP_ID = 0, RSVP_UserID = 7, RSVP_GameID = 3, RSVP_Status = ''attending'',
         RSVP_CreatedAt = 0, RSVP_UpdatedAt = 0, RSVP_UserEmail = []\<rparr>"
  let ?m = "\<lparr>RSVP_ID = 0, RSVP_UserID = 7, RSVP_GameID = 3, RSVP_Status = ''maybe'',
         RSVP_CreatedAt = 0, RSVP_UpdatedAt = 0, RSVP_UserEmail = []\<rparr>"
  let ?n = "\<lparr>RSVP_ID = 0, RSVP_UserID = 7, RSVP_GameID = 3, RSVP_Status = ''not_attending'',
         RSVP_CreatedAt = 0, RSVP_UpdatedAt = 0, RSVP_UserEmail = []\<rparr>"
  let ?b = "\<lparr>RSVP_ID = 0, RSVP_UserID = 9, RSVP_GameID = 3, RSVP_Status = ''attending'',
         RSVP_CreatedAt = 0, RSVP_UpdatedAt = 0, RSVP_UserEmail = []\<rparr>"
  have u0: "rsvps_unique ?db0" and ux: "rsvps_unique ?dbx" and uf: "rsvps_unique ?dbf"
    by (simp_all add: rsvps_unique_def)
  have r0: "NewRowid (rsvps_seq ?db0) (map rsvps_id (rsvps ?db0)) = Inr 1"
    and rx: "NewRowid (rsvps_seq ?dbx) (map rsvps_id (rsvps ?dbx)) = Inr 3"
    and rf: "NewRowid (rsvps_seq ?dbf) (map rsvps_id (rsvps ?dbf)) = Inl ErrFull"
    by (simp_all add: NewRowid_def last_rowid_def MAX_ROWID_def)
  have lt: "(1::int) < MAX_ROWID" by (simp add: MAX_ROWID_def)
  from CreateOrUpdateRSVP_upsert [of ?db0 ?m ?a 1000 2500] u0 r0 lt
  have A: "\<exists>db1 db2.
      CreateOrUpdateRSVP 1000 ?db0 ?a = (db1, None) \<and>
      CreateOrUpdateRSVP 2500 db1 ?m = (db2, None) \<and>
      rsvp_rows_for db1 7 3 =
        [\<lparr>rsvps_id = 1, rsvps_user_id = 7, rsvps_game_id = 3, rsvps_status = ''attending'',
          rsvps_created_at = 1, rsvps_updated_at = 1\<rparr>] \<and>
      rsvp_rows_for db2 7 3 =
        [\<lparr>rsvps_id = 1, rsvps_user_id = 7, rsvps_game_id = 3, rsvps_status = ''maybe'',
          rsvps_created_at = 1, rsvps_updated_at = 2\<rparr>] \<and>
      rsvps_seq db1 = 1 \<and> rsvps_seq db2 = 2"
    by (simp add: CreateOrUpdateRSVP_def NewRowid_def last_rowid_def MAX_ROWID_def
      rsvp_conflict_def upsert_new_row_def CURRENT_TIMESTAMP_def rsvp_rows_for_def)
  from CreateOrUpdateRSVP_upsert [of ?dbx ?b ?b 20000 20000] ux rx
  have B: "\<exists>db1.
      CreateOrUpdateRSVP 20000 ?dbx ?b = (db1, None) \<and>
      rsvp_rows_for db1 9 3 =
        [\<lparr>rsvps_id = 3, rsvps_user_id = 9, rsvps_game_id = 3, rsvps_status = ''attending'',
          rsvps_created_at = 20, rsvps_updated_at = 20\<rparr>] \<and>
      rsvp_rows_for db1 7 3 =
        [\<lparr>rsvps_id = 1, rsvps_user_id = 7, rsvps_game_id = 3, rsvps_status = ''maybe'',
          rsvps_created_at = 1, rsvps_updated_at = 2\<rparr>]"
    by (simp add: CreateOrUpdateRSVP_def NewRowid_def last_rowid_def MAX_ROWID_def
      rsvp_conflict_def upsert_new_row_def CURRENT_TIMESTAMP_def rsvp_rows_for_def)
  from CreateOrUpdateRSVP_upsert [of ?dbx ?n ?n 20000 20000] ux rx
  have C: "\<exists>db1.
      CreateOrUpdateRSVP 20000 ?dbx ?n = (db1, None) \<and>
      rsvp_rows_for db1 7 3 =
        [\<lparr>rsvps_id = 1, rsvps_user_id = 7, rsvps_game_id = 3,
          rsvps_status = ''not_attending'', rsvps_created_at = 1, rsvps_updated_at = 20\<rparr>]"
    by (simp add: CreateOrUpdateRSVP_def NewRowid_def last_rowid_def MAX_ROWID_def
      rsvp_conflict_def upsert_new_row_def CURRENT_TIMESTAMP_def rsvp_rows_for_def)
  from CreateOrUpdateRSVP_upsert [of ?dbf ?a ?a 5000 5000] uf rf
  have D: "CreateOrUpdateRSVP 5000 ?dbf ?a = (?dbf, Some ErrFull)"
    by simp
  from u0 ux uf A B C D show ?thesis by simp
qed

section \<open>The listings\<close>

lemma filter_pk_single:
  assumes "distinct (map f xs)" and "list_ex (\<lambda>x. f x = k) xs"
  shows "\<exists>x. x \<in> set xs \<and> f x = k \<and> filter (\<lambda>x. f x = k) xs = [x]"
proof -
  have "length (filter (\<lambda>x. f x = k) xs) \<le> 1"
    using assms(1) by (rule distinct_map_filter_le1)
  moreover have "filter (\<lambda>x. f x = k) xs \<noteq> []"
    using assms(2) by (auto simp: list_ex_iff filter_empty_conv)
  ultimately obtain x where x: "filter (\<lambda>x. f x = k) xs = [x]"
    by (cases "filter (\<lambda>x. f x = k) xs") auto
  from Cons_eq_filterD [OF x [symmetric]] have "x \<in> set xs \<and> f x = k" by auto
  with x show ?thesis by blast
qed

lemma chat_join_users_rows:
  assumes "users_pk db"
    and "\<forall>cm \<in> set cms. list_ex (\<lambda>u. User_ID u = chat_user_id cm) (users db)"
  shows "map chat_row_of (chat_join_users db cms) = cms \<and>
         (\<forall>m \<in> set (chat_join_users db cms). \<exists>u \<in> set (users db).
            User_ID u = ChatMessage_UserID m \<and> ChatMessage_UserEmail m = User_Email u)"
  using assms(2)
proof (induction cms)
  case Nil
  then show ?case by (simp add: chat_join_users_def)
next
  case (Cons cm cms)
  from assms(1) Cons.prems obtain u where
    u: "u \<in> set (users db)" "User_ID u = chat_user_id cm"
       "filter (\<lambda>u. User_ID u = chat_user_id cm) (users db) = [u]"
    using filter_pk_single [of User_ID "users db" "chat_user_id cm"]
    by (auto simp: users_pk_def)
  have step: "chat_join_users db (cm # cms) = scan_chat_message cm u # chat_join_users db cms"
    using u(3) by (simp add: chat_join_users_def)
  have "chat_row_of (scan_chat_message cm u) = cm"
    by (simp add: chat_row_of_def scan_chat_message_def)
  moreover have "ChatMessage_UserID (scan_chat_message cm u) = User_ID u"
    "ChatMessage_UserEmail (scan_chat_message cm u) = User_Email u"
    using u(2) by (simp_all add: scan_chat_message_def)
  ultimately show ?case
    using Cons u(1) by (auto simp: step)
qed

text \<open>
  Claim C6. On a database whose chat rows reference existing users (the schema's foreign key,
  with \<^verbatim>\<open>users.id\<close> the primary key), \<^verbatim>\<open>GetChatMessagesForGame\<close> succeeds and returns every
  row of the game exactly once, in ascending order of \<^verbatim>\<open>created_at\<close> (oldest first), each with
  the email of its author.
\<close>

theorem GetChatMessagesForGame_ascending:
  assumes "users_pk db" and "chat_fk_users db"
  shows "\<exists>msgs. GetChatMessagesForGame db gameID = Inr msgs \<and>
     sorted (map ChatMessage_CreatedAt msgs) \<and>
     mset (map chat_row_of msgs) =
       mset (filter (\<lambda>cm. chat_game_id cm = gameID) (chat_messages db)) \<and>
     (\<forall>m \<in> set msgs. \<exists>u \<in> set (users db).
        User_ID u = ChatMessage_UserID m \<and> ChatMessage_UserEmail m = User_Email u)"
proof -
  let ?cms = "filter (\<lambda>cm. chat_game_id cm = gameID) (chat_messages db)"
  let ?joined = "chat_join_users db ?cms"
  have fk: "\<forall>cm \<in> set ?cms. list_ex (\<lambda>u. User_ID u = chat_user_id cm) (users db)"
    using assms(2) by (simp add: chat_fk_users_def)
  from chat_join_users_rows [OF assms(1) fk]
  have rows: "map chat_row_of ?joined = ?cms"
    and emails: "\<forall>m \<in> set ?joined. \<exists>u \<in> set (users db).
            User_ID u = ChatMessage_UserID m \<and> ChatMessage_UserEmail m = User_Email u"
    by blast+
  have "mset (map chat_row_of (sort_key ChatMessage_CreatedAt ?joined)) = mset (map chat_row_of ?joined)"
    by simp
  with rows emails show ?thesis
    by (simp add: GetChatMessagesForGame_def)
qed

theorem GetChatMessagesForGame_ascending_witness:
  "users_pk
     \<lparr>users = [\<lparr>User_ID = 1, User_Email = ''a@x.com'', User_PasswordHash = ''h1'', User_CreatedAt = 1\<rparr>,
               \<lparr>User_ID = 2, User_Email = ''b@x.com'', User_PasswordHash = ''h2'', User_CreatedAt = 2\<rparr>],
      games = [], rsvps = [],
      chat_messages =
        [\<lparr>chat_id = 1, chat_game_id = 4, chat_user_id = 2, chat_message_content = ''late'',
           chat_created_at = 9\<rparr>,
         \<lparr>chat_id = 2, chat_game_id = 5, chat_user_id = 1, chat_message_content = ''other game'',
           chat_created_at = 3\<rparr>,
         \<lparr>chat_id = 3, chat_game_id = 4, chat_user_id = 1, chat_message_content = ''early'',
           chat_created_at = 6\<rparr>],
      users_seq = 2, games_seq = 0, rsvps_seq = 0, chat_messages_seq = 3\<rparr> \<and>
   chat_fk_users
     \<lparr>users = [\<lparr>User_ID = 1, User_Email = ''a@x.com'', User_PasswordHash = ''h1'', User_CreatedAt = 1\<rparr>,
               \<lparr>User_ID = 2, User_Email = ''b@x.com'', User_PasswordHash = ''h2'', User_CreatedAt = 2\<rparr>],
      games = [], rsvps = [],
      chat_messages =
        [\<lparr>chat_id = 1, chat_game_id = 4, chat_user_id = 2, chat_message_content = ''late'',
           chat_created_at = 9\<rparr>,
         \<lparr>chat_id = 2, chat_game_id = 5, chat_user_id = 1, chat_message_content = ''other game'',
           chat_created_at = 3\<rparr>,
         \<lparr>chat_id = 3, chat_game_id = 4, chat_user_id = 1, chat_message_content = ''early'',
           chat_created_at = 6\<rparr>],
      users_seq = 2, games_seq = 0, rsvps_seq = 0, chat_messages_seq = 3\<rparr> \<and>
   GetChatMessagesForGame
     \<lparr>users = [\<lparr>User_ID = 1, User_Email = ''a@x.com'', User_PasswordHash = ''h1'', User_CreatedAt = 1\<rparr>,
               \<lparr>User_ID = 2, User_Email = ''b@x.com'', User_PasswordHash = ''h2'', User_CreatedAt = 2\<rparr>],
      games = [], rsvps = [],
      chat_messages =
        [\<lparr>chat_id = 1, chat_game_id = 4, chat_user_id = 2, chat_message_content = ''late'',
           chat_created_at = 9\<rparr>,
         \<lparr>chat_id = 2, chat_game_id = 5, chat_user_id = 1, chat_message_content = ''other game'',
           chat_created_at = 3\<rparr>,
         \<lparr>chat_id = 3, chat_game_id = 4, chat_user_id = 1, chat_message_content = ''early'',
           chat_created_at = 6\<rparr>],
      users_seq = 2, games_seq = 0, rsvps_seq = 0, chat_messages_seq = 3\<rparr> 4 =
   Inr [\<lparr>ChatMessage_ID = 3, ChatMessage_GameID = 4, ChatMessage_UserID = 1,
          ChatMessage_UserEmail = ''a@x.com'', ChatMessage_MessageContent = ''early'',
          ChatMessage_CreatedAt = 6\<rparr>,
        \<lparr>ChatMessage_ID = 1, ChatMessage_GameID = 4, ChatMessage_UserID = 2,
          ChatMessage_UserEmail = ''b@x.com'', ChatMessage_MessageContent = ''late'',
          ChatMessage_CreatedAt = 9\<rparr>]"
proof -
  let ?db = "\<lparr>users = [\<lparr>User_ID = 1, User_Email = ''a@x.com'', User_PasswordHash = ''h1'', User_CreatedAt = 1\<rparr>,
               \<lparr>User_ID = 2, User_Email = ''b@x.com'', User_PasswordHash = ''h2'', User_CreatedAt = 2\<rparr>],
      games = [], rsvps = [],
      chat_messages =
        [\<lparr>chat_id = 1, chat_game_id = 4, chat_user_id = 2, chat_message_content = ''late'',
           chat_created_at = 9\<rparr>,
         \<lparr>chat_id = 2, chat_game_id = 5, chat_user_id = 1, chat_message_content = ''other game'',
           chat_created_at = 3\<rparr>,
         \<lparr>chat_id = 3, chat_game_id = 4, chat_user_id = 1, chat_message_content = ''early'',
           chat_created_at = 6\<rparr>],
              users_seq = 2, games_seq = 0, rsvps_seq = 0, chat_messages_seq = 3\<rparr>"
  have pk: "users_pk ?db" by (simp add: users_pk_def)
  have fk: "chat_fk_users ?db" by (simp add: chat_fk_users_def)
  from GetChatMessagesForGame_ascending [OF pk fk, of 4]
  obtain msgs where msgs: "GetChatMessagesForGame ?db 4 = Inr msgs"
    and sorted: "sorted (map ChatMessage_CreatedAt msgs)"
    by blast
  have "GetChatMessagesForGame ?db 4 =
    Inr [\<lparr>ChatMessage_ID = 3, ChatMessage_GameID = 4, ChatMessage_UserID = 1,
          ChatMessage_UserEmail = ''a@x.com'', ChatMessage_MessageContent = ''early'',
          ChatMessage_CreatedAt = 6\<rparr>,
        \<lparr>ChatMessage_ID = 1, ChatMessage_GameID = 4, ChatMessage_UserID = 2,
          ChatMessage_UserEmail = ''b@x.com'', ChatMessage_MessageContent = ''late'',
          ChatMessage_CreatedAt = 9\<rparr>]"
    by (simp add: GetChatMessagesForGame_def chat_join_users_def scan_chat_message_def)
  with pk fk msgs sorted show ?thesis by simp
qed

lemma rsvps_join_users_rows:
  assumes "users_pk db"
    and "\<forall>r \<in> set rs. list_ex (\<lambda>u. User_ID u = rsvps_user_id r) (users db)"
  shows "map rsvp_row_of (rsvps_join_users db rs) = rs \<and>
         (\<forall>x \<in> set (rsvps_join_users db rs). \<exists>u \<in> set (users db).
            User_ID u = RSVP_UserID x \<and> RSVP_UserEmail x = User_Email u)"
  using assms(2)
proof (induction rs)
  case Nil
  then show ?case by (simp add: rsvps_join_users_def)
next
  case (Cons r rs)
  from assms(1) Cons.prems obtain u where
    u: "u \<in> set (users db)" "User_ID u = rsvps_user_id r"
       "filter (\<lambda>u. User_ID u = rsvps_user_id r) (users db) = [u]"
    using filter_pk_single [of User_ID "users db" "rsvps_user_id r"]
    by (auto simp: users_pk_def)
  have step: "rsvps_join_users db (r # rs) = scan_rsvp r u # rsvps_join_users db rs"
    using u(3) by (simp add: rsvps_join_users_def)
  have "rsvp_row_of (scan_rsvp r u) = r"
    by (simp add: rsvp_row_of_def scan_rsvp_def)
  moreover have "RSVP_UserID (scan_rsvp r u) = User_ID u"
    "RSVP_UserEmail (scan_rsvp r u) = User_Email u"
    using u(2) by (simp_all add: scan_rsvp_def)
  ultimately show ?case
    using Cons u(1) by (auto simp: step)
qed

lemma sorted_neg_descending:
  "sorted (map (\<lambda>x. - int (f x)) xs) \<Longrightarrow> sorted_wrt (\<lambda>a b. f b \<le> f a) xs"
  by (induction xs) auto

text \<open>
  The listing of the RSVPs of a game, on a database whose RSVP rows reference existing
  users: every row of the game once, with the email of its user, in descending order of
  \<^verbatim>\<open>updated_at\<close>.
\<close>

lemma GetRSVPsForGame_descending:
  assumes "users_pk db" and "rsvps_fk_users db"
  shows "\<exists>xs. GetRSVPsForGame db gameID = Inr xs \<and>
     sorted_wrt (\<lambda>a b. RSVP_UpdatedAt b \<le> RSVP_UpdatedAt a) xs \<and>
     mset (map rsvp_row_of xs) = mset (filter (\<lambda>r. rsvps_game_id r = gameID) (rsvps db)) \<and>
     (\<forall>x \<in> set xs. \<exists>u \<in> set (users db).
        User_ID u = RSVP_UserID x \<and> RSVP_UserEmail x = User_Email u)"
proof -
  let ?rs = "filter (\<lambda>r. rsvps_game_id r = gameID) (rsvps db)"
  let ?joined = "rsvps_join_users db ?rs"
  let ?key = "\<lambda>x. - int (RSVP_UpdatedAt x)"
  have fk: "\<forall>r \<in> set ?rs. list_ex (\<lambda>u. User_ID u = rsvps_user_id r) (users db)"
    using assms(2) by (simp add: rsvps_fk_users_def)
  from rsvps_join_users_rows [OF assms(1) fk]
  have rows: "map rsvp_row_of ?joined = ?rs"
    and emails: "\<forall>x \<in> set ?joined. \<exists>u \<in> set (users db).
            User_ID u = RSVP_UserID x \<and> RSVP_UserEmail x = User_Email u"
    by blast+
  have "sorted (map ?key (sort_key ?key ?joined))"
    by (rule sorted_sort_key)
  then have desc: "sorted_wrt (\<lambda>a b. RSVP_UpdatedAt b \<le> RSVP_UpdatedAt a) (sort_key ?key ?joined)"
    by (rule sorted_neg_descending)
  have "mset (map rsvp_row_of (sort_key ?key ?joined)) = mset (map rsvp_row_of ?joined)"
    by simp
  with rows emails desc show ?thesis
    by (simp add: GetRSVPsForGame_def)
qed

text \<open>
  Claim C10. A game id without rows in \<^verbatim>\<open>rsvps\<close> gets the empty RSVP list and no error, a
  game id without rows in \<^verbatim>\<open>chat_messages\<close> gets the empty chat list and no error, and this
  is so whatever the table \<^verbatim>\<open>games\<close> holds: neither listing reads it.
\<close>

theorem listings_empty_without_rows:
  "((\<forall>r \<in> set (rsvps db). rsvps_game_id r \<noteq> gameID) \<longrightarrow>
      GetRSVPsForGame db gameID = Inr [] \<and>
      GetRSVPsForGame (db\<lparr>games := gs\<rparr>) gameID = Inr []) \<and>
   ((\<forall>cm \<in> set (chat_messages db). chat_game_id cm \<noteq> gameID) \<longrightarrow>
      GetChatMessagesForGame db gameID = Inr [] \<and>
      GetChatMessagesForGame (db\<lparr>games := gs\<rparr>) gameID = Inr [])"
proof -
  have "filter (\<lambda>r. rsvps_game_id r = gameID) (rsvps db) = []"
    if "\<forall>r \<in> set (rsvps db). rsvps_game_id r \<noteq> gameID"
    using that by (simp add: filter_empty_conv)
  moreover have "filter (\<lambda>cm. chat_game_id cm = gameID) (chat_messages db) = []"
    if "\<forall>cm \<in> set (chat_messages db). chat_game_id cm \<noteq> gameID"
    using that by (simp add: filter_empty_conv)
  ultimately show ?thesis
    by (simp add: GetRSVPsForGame_def GetChatMessagesForGame_def
        rsvps_join_users_def chat_join_users_def)
qed

theorem listings_empty_without_rows_witness:
  "GetRSVPsForGame
       \<lparr>users = [\<lparr>User_ID = 1, User_Email = ''a@x.com'', User_PasswordHash = ''h'', User_CreatedAt = 1\<rparr>],
        games = [\<lparr>Game_ID = 1, Game_GMID = 1, Game_Title = ''Session 1'', Game_Description = [],
                   Game_GameDateTime = 50, Game_Location = ''here'', Game_CreatedAt = 2\<rparr>,
                 \<lparr>Game_ID = 2, Game_GMID = 1, Game_Title = ''Session 2'', Game_Description = [],
                   Game_GameDateTime = 60, Game_Location = ''there'', Game_CreatedAt = 3\<rparr>],
        rsvps = [\<lparr>rsvps_id = 1, rsvps_user_id = 1, rsvps_game_id = 2, rsvps_status = ''maybe'',
                   rsvps_created_at = 4, rsvps_updated_at = 4\<rparr>],
        chat_messages = [\<lparr>chat_id = 1, chat_game_id = 2, chat_user_id = 1,
                   chat_message_content = ''hello'', chat_created_at = 5\<rparr>],
        users_seq = 1, games_seq = 2, rsvps_seq = 1, chat_messages_seq = 1\<rparr> 1 = Inr [] \<and>
   GetChatMessagesForGame
       \<lparr>users = [\<lparr>User_ID = 1, User_Email = ''a@x.com'', User_PasswordHash = ''h'', User_CreatedAt = 1\<rparr>],
        games = [\<lparr>Game_ID = 1, Game_GMID = 1, Game_Title = ''Session 1'', Game_Description = [],
                   Game_GameDateTime = 50, Game_Location = ''here'', Game_CreatedAt = 2\<rparr>,
                 \<lparr>Game_ID = 2, Game_GMID = 1, Game_Title = ''Session 2'', Game_Description = [],
                   Game_GameDateTime = 60, Game_Location = ''there'', Game_CreatedAt = 3\<rparr>],
        rsvps = [\<lparr>rsvps_id = 1, rsvps_user_id = 1, rsvps_game_id = 2, rsvps_status = ''maybe'',
                   rsvps_created_at = 4, rsvps_updated_at = 4\<rparr>],
        chat_messages = [\<lparr>chat_id = 1, chat_game_id = 2, chat_user_id = 1,
                   chat_message_content = ''hello'', chat_created_at = 5\<rparr>],
        users_seq = 1, games_seq = 2, rsvps_seq = 1, chat_messages_seq = 1\<rparr> 1 = Inr [] \<and>
   GetRSVPsForGame
       \<lparr>users = [\<lparr>User_ID = 1, User_Email = ''a@x.com'', User_PasswordHash = ''h'', User_CreatedAt = 1\<rparr>],
        games = [\<lparr>Game_ID = 1, Game_GMID = 1, Game_Title = ''Session 1'', Game_Description = [],
                   Game_GameDateTime = 50, Game_Location = ''here'', Game_CreatedAt = 2\<rparr>,
                 \<lparr>Game_ID = 2, Game_GMID = 1, Game_Title = ''Session 2'', Game_Description = [],
                   Game_GameDateTime = 60, Game_Location = ''there'', Game_CreatedAt = 3\<rparr>],
        rsvps = [\<lparr>rsvps_id = 1, rsvps_user_id = 1, rsvps_game_id = 2, rsvps_status = ''maybe'',
                   rsvps_created_at = 4, rsvps_updated_at = 4\<rparr>],
        chat_messages = [\<lparr>chat_id = 1, chat_game_id = 2, chat_user_id = 1,
                   chat_message_content = ''hello'', chat_created_at = 5\<rparr>],
        users_seq = 1, games_seq = 2, rsvps_seq = 1, chat_messages_seq = 1\<rparr> 99 = Inr [] \<and>
   GetChatMessagesForGame
       \<lparr>users = [\<lparr>User_ID = 1, User_Email = ''a@x.com'', User_PasswordHash = ''h'', User_CreatedAt = 1\<rparr>],
        games = [\<lparr>Game_ID = 1, Game_GMID = 1, Game_Title = ''Session 1'', Game_Description = [],
                   Game_GameDateTime = 50, Game_Location = ''here'', Game_CreatedAt = 2\<rparr>,
                 \<lparr>Game_ID = 2, Game_GMID = 1, Game_Title = ''Session 2'', Game_Description = [],
                   Game_GameDateTime = 60, Game_Location = ''there'', Game_CreatedAt = 3\<rparr>],
        rsvps = [\<lparr>rsvps_id = 1, rsvps_user_id = 1, rsvps_game_id = 2, rsvps_status = ''maybe'',
                   rsvps_created_at = 4, rsvps_updated_at = 4\<rparr>],
        chat_messages = [\<lparr>chat_id = 1, chat_game_id = 2, chat_user_id = 1,
                   chat_message_content = ''hello'', chat_created_at = 5\<rparr>],
        users_seq = 1, games_seq = 2, rsvps_seq = 1, chat_messages_seq = 1\<rparr> 99 = Inr []"
proof -
  let ?db = "\<lparr>users = [\<lparr>User_ID = 1, User_Email = ''a@x.com'', User_PasswordHash = ''h'', User_CreatedAt = 1\<rparr>],
        games = [\<lparr>Game_ID = 1, Game_GMID = 1, Game_Title = ''Session 1'', Game_Description = [],
                   Game_GameDateTime = 50, Game_Location = ''here'', Game_CreatedAt = 2\<rparr>,
                 \<lparr>Game_ID = 2, Game_GMID = 1, Game_Title = ''Session 2'', Game_Description = [],
                   Game_GameDateTime = 60, Game_Location = ''there'', Game_CreatedAt = 3\<rparr>],
        rsvps = [\<lparr>rsvps_id = 1, rsvps_user_id = 1, rsvps_game_id = 2, rsvps_status = ''maybe'',
                   rsvps_created_at = 4, rsvps_updated_at = 4\<rparr>],
        chat_messages = [\<lparr>chat_id = 1, chat_game_id = 2, chat_user_id = 1,
                   chat_message_content = ''hello'', chat_created_at = 5\<rparr>],
              users_seq = 1, games_seq = 2, rsvps_seq = 1, chat_messages_seq = 1\<rparr>"
  have r1: "\<forall>r \<in> set (rsvps ?db). rsvps_game_id r \<noteq> 1"
    and c1: "\<forall>cm \<in> set (chat_messages ?db). chat_game_id cm \<noteq> 1"
    and r99: "\<forall>r \<in> set (rsvps ?db). rsvps_game_id r \<noteq> 99"
    and c99: "\<forall>cm \<in> set (chat_messages ?db). chat_game_id cm \<noteq> 99"
    by simp_all
  from listings_empty_without_rows [of ?db 1 "games ?db"] r1 c1
  have "GetRSVPsForGame ?db 1 = Inr []" "GetChatMessagesForGame ?db 1 = Inr []"
    by blast+
  moreover from listings_empty_without_rows [of ?db 99 "games ?db"] r99 c99
  have "GetRSVPsForGame ?db 99 = Inr []" "GetChatMessagesForGame ?db 99 = Inr []"
    by blast+
  ultimately show ?thesis by (intro conjI)
qed

text \<open>
  Claim C5, at the scenario of the repository's own test \<^verbatim>\<open>TestGetRSVPsForGame\<close>: users 1, 2
  and 3 submit their RSVP for game 1 in that order, 10 milliseconds apart, within one
  second of the clock. \<^verbatim>\<open>CURRENT_TIMESTAMP\<close> gives the three rows the same
  \<^verbatim>\<open>updated_at\<close>, the sort has nothing to order them by, and the listing returns them in the
  order of submission 1, 2, 3, not 3, 2, 1.
\<close>

theorem GetRSVPsForGame_same_second:
  "GetRSVPsForGame
     (fst (CreateOrUpdateRSVP 5020
       (fst (CreateOrUpdateRSVP 5010
         (fst (CreateOrUpdateRSVP 5000
           \<lparr>users = [\<lparr>User_ID = 1, User_Email = ''user1@rsvplist.com'', User_PasswordHash = ''h1'', User_CreatedAt = 4\<rparr>,
                     \<lparr>User_ID = 2, User_Email = ''user2@rsvplist.com'', User_PasswordHash = ''h2'', User_CreatedAt = 4\<rparr>,
                     \<lparr>User_ID = 3, User_Email = ''user3@rsvplist.com'', User_PasswordHash = ''h3'', User_CreatedAt = 4\<rparr>,
                     \<lparr>User_ID = 4, User_Email = ''gmrsvplist@example.com'', User_PasswordHash = ''h4'', User_CreatedAt = 4\<rparr>],
            games = [\<lparr>Game_ID = 1, Game_GMID = 4, Game_Title = ''Multi-RSVP Game'', Game_Description = [],
                      Game_GameDateTime = 86404, Game_Location = ''Test Location'', Game_CreatedAt = 4\<rparr>],
            rsvps = [], chat_messages = [],
            users_seq = 4, games_seq = 1, rsvps_seq = 0, chat_messages_seq = 0\<rparr>
           \<lparr>RSVP_ID = 0, RSVP_UserID = 1, RSVP_GameID = 1, RSVP_Status = RSVPStatusAttending,
            RSVP_CreatedAt = 0, RSVP_UpdatedAt = 0, RSVP_UserEmail = []\<rparr>))
         \<lparr>RSVP_ID = 0, RSVP_UserID = 2, RSVP_GameID = 1, RSVP_Status = RSVPStatusNotAttending,
          RSVP_CreatedAt = 0, RSVP_UpdatedAt = 0, RSVP_UserEmail = []\<rparr>))
       \<lparr>RSVP_ID = 0, RSVP_UserID = 3, RSVP_GameID = 1, RSVP_Status = RSVPStatusMaybe,
        RSVP_CreatedAt = 0, RSVP_UpdatedAt = 0, RSVP_UserEmail = []\<rparr>)) 1 =
   Inr [\<lparr>RSVP_ID = 1, RSVP_UserID = 1, RSVP_GameID = 1, RSVP_Status = ''attending'',
          RSVP_CreatedAt = 5, RSVP_UpdatedAt = 5, RSVP_UserEmail = ''user1@rsvplist.com''\<rparr>,
        \<lparr>RSVP_ID = 2, RSVP_UserID = 2, RSVP_GameID = 1, RSVP_Status = ''not_attending'',
          RSVP_CreatedAt = 5, RSVP_UpdatedAt = 5, RSVP_UserEmail = ''user2@rsvplist.com''\<rparr>,
        \<lparr>RSVP_ID = 3, RSVP_UserID = 3, RSVP_GameID = 1, RSVP_Status = ''maybe'',
          RSVP_CreatedAt = 5, RSVP_UpdatedAt = 5, RSVP_UserEmail = ''user3@rsvplist.com''\<rparr>]"
  by (simp add: GetRSVPsForGame_def CreateOrUpdateRSVP_def rsvp_conflict_def upsert_new_row_def
      NewRowid_def last_rowid_def MAX_ROWID_def CURRENT_TIMESTAMP_def rsvps_join_users_def scan_rsvp_def
      RSVPStatusAttending_def RSVPStatusNotAttending_def RSVPStatusMaybe_def)

text \<open>The same three submissions one second apart come back most recent first.\<close>

lemma GetRSVPsForGame_distinct_seconds:
  "GetRSVPsForGame
     (fst (CreateOrUpdateRSVP 7000
       (fst (CreateOrUpdateRSVP 6000
         (fst (CreateOrUpdateRSVP 5000
           \<lparr>users = [\<lparr>User_ID = 1, User_Email = ''user1@rsvplist.com'', User_PasswordHash = ''h1'', User_CreatedAt = 4\<rparr>,
                     \<lparr>User_ID = 2, User_Email = ''user2@rsvplist.com'', User_PasswordHash = ''h2'', User_CreatedAt = 4\<rparr>,
                     \<lparr>User_ID = 3, User_Email = ''user3@rsvplist.com'', User_PasswordHash = ''h3'', User_CreatedAt = 4\<rparr>,
                     \<lparr>User_ID = 4, User_Email = ''gmrsvplist@example.com'', User_PasswordHash = ''h4'', User_CreatedAt = 4\<rparr>],
            games = [\<lparr>Game_ID = 1, Game_GMID = 4, Game_Title = ''Multi-RSVP Game'', Game_Description = [],
                      Game_GameDateTime = 86404, Game_Location = ''Test Location'', Game_CreatedAt = 4\<rparr>],
            rsvps = [], chat_messages = [],
            users_seq = 4, games_seq = 1, rsvps_seq = 0, chat_messages_seq = 0\<rparr>
           \<lparr>RSVP_ID = 0, RSVP_UserID = 1, RSVP_GameID = 1, RSVP_Status = RSVPStatusAttending,
            RSVP_CreatedAt = 0, RSVP_UpdatedAt = 0, RSVP_UserEmail = []\<rparr>))
         \<lparr>RSVP_ID = 0, RSVP_UserID = 2, RSVP_GameID = 1, RSVP_Status = RSVPStatusNotAttending,
          RSVP_CreatedAt = 0, RSVP_UpdatedAt = 0, RSVP_UserEmail = []\<rparr>))
       \<lparr>RSVP_ID = 0, RSVP_UserID = 3, RSVP_GameID = 1, RSVP_Status = RSVPStatusMaybe,
        RSVP_CreatedAt = 0, RSVP_UpdatedAt = 0, RSVP_UserEmail = []\<rparr>)) 1 =
   Inr [\<lparr>RSVP_ID = 3, RSVP_UserID = 3, RSVP_GameID = 1, RSVP_Status = ''maybe'',
          RSVP_CreatedAt = 7, RSVP_UpdatedAt = 7, RSVP_UserEmail = ''user3@rsvplist.com''\<rparr>,
        \<lparr>RSVP_ID = 2, RSVP_UserID = 2, RSVP_GameID = 1, RSVP_Status = ''not_attending'',
          RSVP_CreatedAt = 6, RSVP_UpdatedAt = 6, RSVP_UserEmail = ''user2@rsvplist.com''\<rparr>,
        \<lparr>RSVP_ID = 1, RSVP_UserID = 1, RSVP_GameID = 1, RSVP_Status = ''attending'',
          RSVP_CreatedAt = 5, RSVP_UpdatedAt = 5, RSVP_UserEmail = ''user1@rsvplist.com''\<rparr>]"
  by (simp add: GetRSVPsForGame_def CreateOrUpdateRSVP_def rsvp_conflict_def upsert_new_row_def
      NewRowid_def last_rowid_def MAX_ROWID_def CURRENT_TIMESTAMP_def rsvps_join_users_def scan_rsvp_def
      RSVPStatusAttending_def RSVPStatusNotAttending_def RSVPStatusMaybe_def)

section \<open>Templates\<close>

lemma RenderTemplate_cases:
  "(\<exists>msg. RenderTemplate ex ts name data = http_Error msg StatusInternalServerError) \<or>
   (\<exists>out. RenderTemplate ex ts name data = \<lparr>Header = [], SetCookies = [], Body = Page out\<rparr>)"
  by (auto simp: RenderTemplate_def Let_def split: option.splits prod.splits)

lemma RenderTemplate_not_Redirect: "Body (RenderTemplate ex ts name data) \<noteq> Redirect url code"
  using RenderTemplate_cases [of ex ts name data] by (auto simp: http_Error_def)

lemma RenderTemplate_incomplete:
  assumes "map_of ts name = Some t" and "Template_Name t = name"
    and "name \<notin> set (Template_Trees t)"
  shows "RenderTemplate ex ts name data =
     http_Error (''Error executing template '' @ name @ '': template: '' @ [CHR 0x22] @ name @
                 [CHR 0x22] @ '' is an incomplete or empty template'')
       StatusInternalServerError"
  using assms by (simp add: RenderTemplate_def Execute_def)

text \<open>
  What \<open>LoadTemplates\<close> leaves in the map: under each key a template of that name, whose
  trees are named by the base names of the files and by their \<^verbatim>\<open>{{define}}\<close> blocks.
\<close>

lemma parseFiles_result:
  assumes "parseFiles t fs = Inr t'"
  shows "Template_Name t' = Template_Name t \<and>
     (\<forall>n \<in> set (Template_Trees t').
        n \<in> set (Template_Trees t) \<or>
        (\<exists>f \<in> set fs. n = file_base f \<or> (\<exists>d. file_parse f = Inr d \<and> n \<in> set d)))"
  using assms
proof (induction fs arbitrary: t)
  case Nil
  then show ?case by simp
next
  case (Cons f fs)
  from Cons.prems obtain d where d: "file_parse f = Inr d"
    and rest: "parseFiles (t\<lparr>Template_Trees := Template_Trees t @ file_base f # d\<rparr>) fs = Inr t'"
    by (auto split: sum.splits)
  from Cons.IH [OF rest] d show ?case by auto
qed

lemma ParseFiles_New:
  assumes "ParseFiles (New name) fs = Inr t'"
  shows "Template_Name t' = name \<and>
     (\<forall>n \<in> set (Template_Trees t').
        \<exists>f \<in> set fs. n = file_base f \<or> (\<exists>d. file_parse f = Inr d \<and> n \<in> set d))"
proof -
  from assms have "parseFiles (New name) fs = Inr t'"
    by (simp add: ParseFiles_def split: if_splits)
  from parseFiles_result [OF this] show ?thesis by (simp add: New_def)
qed

lemma set_assign: "set (assign name tmpl ts) \<subseteq> insert (name, tmpl) (set ts)"
  by (auto simp: assign_def)

lemma load_pages_result:
  assumes "load_pages dir layoutFile partialFiles pageFiles ts = Inr ts'"
    and "\<forall>(k, t) \<in> set ts. P k t"
    and "\<And>name fs t. ParseFiles (New name) fs = Inr t \<Longrightarrow>
           set fs \<subseteq> insert layoutFile (set partialFiles \<union> set pageFiles) \<Longrightarrow> P name t"
  shows "\<forall>(k, t) \<in> set ts'. P k t"
  using assms
proof (induction pageFiles arbitrary: ts)
  case Nil
  then show ?case by simp
next
  case (Cons pageFile pageFiles)
  let ?name = "template_name dir pageFile"
  from Cons.prems(1) obtain tmpl where
    tmpl: "ParseFiles (New ?name) ([pageFile, layoutFile] @ partialFiles) = Inr tmpl"
    and rest: "load_pages dir layoutFile partialFiles pageFiles (assign ?name tmpl ts) = Inr ts'"
    by (auto simp: Let_def split: sum.splits)
  have "P ?name tmpl"
    using tmpl by (rule Cons.prems(3)) auto
  with Cons.prems(2) set_assign [of ?name tmpl ts]
  have inv: "\<forall>(k, t) \<in> set (assign ?name tmpl ts). P k t" by auto
  show ?case
    using rest inv
  proof (rule Cons.IH)
    fix name fs t
    assume "ParseFiles (New name) fs = Inr t"
      and "set fs \<subseteq> insert layoutFile (set partialFiles \<union> set pageFiles)"
    then show "P name t" by (intro Cons.prems(3)) auto
  qed
qed

lemma load_partials_result:
  assumes "load_partials dir partialFiles ts = Inr ts'"
    and "\<forall>(k, t) \<in> set ts. P k t"
    and "\<And>name fs t. ParseFiles (New name) fs = Inr t \<Longrightarrow>
           set fs \<subseteq> set partialFiles \<Longrightarrow> P name t"
  shows "\<forall>(k, t) \<in> set ts'. P k t"
  using assms
proof (induction partialFiles arbitrary: ts)
  case Nil
  then show ?case by simp
next
  case (Cons partialFile partialFiles)
  let ?name = "template_name dir partialFile"
  from Cons.prems(1) obtain tmpl where
    tmpl: "ParseFiles (New ?name) [partialFile] = Inr tmpl"
    and rest: "load_partials dir partialFiles (assign ?name tmpl ts) = Inr ts'"
    by (auto simp: Let_def split: sum.splits)
  have "P ?name tmpl"
    using tmpl by (rule Cons.prems(3)) auto
  with Cons.prems(2) set_assign [of ?name tmpl ts]
  have inv: "\<forall>(k, t) \<in> set (assign ?name tmpl ts). P k t" by auto
  show ?case
    using rest inv
  proof (rule Cons.IH)
    fix name fs t
    assume "ParseFiles (New name) fs = Inr t" and "set fs \<subseteq> set partialFiles"
    then show "P name t" by (intro Cons.prems(3)) auto
  qed
qed

lemma LoadTemplates_result:
  assumes "LoadTemplates dir files = Inr ts" and "(k, t) \<in> set ts"
  shows "Template_Name t = k \<and>
     (\<forall>n \<in> set (Template_Trees t).
        \<exists>f \<in> set files. n = file_base f \<or> (\<exists>d. file_parse f = Inr d \<and> n \<in> set d))"
proof -
  let ?P = "\<lambda>k t. Template_Name t = k \<and>
     (\<forall>n \<in> set (Template_Trees t).
        \<exists>f \<in> set files. n = file_base f \<or> (\<exists>d. file_parse f = Inr d \<and> n \<in> set d))"
  let ?partialFiles = "filter match_partial files"
  from assms(1) obtain layoutFile where layout: "find is_layout files = Some layoutFile"
    by (auto simp: LoadTemplates_def split: option.splits)
  then have layout_in: "layoutFile \<in> set files"
    by (auto simp: find_Some_iff)
  let ?pageFiles = "filter (\<lambda>file. \<not> (file_path dir file = file_path dir layoutFile) \<and>
                                \<not> list_ex (\<lambda>pf. file_path dir file = file_path dir pf) ?partialFiles)
                  (filter match_html files)"
  from assms(1) layout obtain ts1 where
    pages: "load_pages dir layoutFile ?partialFiles ?pageFiles [] = Inr ts1"
    and partials: "load_partials dir ?partialFiles ts1 = Inr ts"
    by (auto simp: LoadTemplates_def Let_def split: sum.splits)
  have parsed: "?P name t'" if "ParseFiles (New name) fs = Inr t'" and "set fs \<subseteq> set files"
    for name fs t'
    using ParseFiles_New [OF that(1)] that(2) by blast
  have "\<forall>(k, t) \<in> set ts1. ?P k t"
    using pages
  proof (rule load_pages_result)
    show "\<forall>(k, t) \<in> set []. ?P k t" by simp
  next
    fix name fs t'
    assume "ParseFiles (New name) fs = Inr t'"
      and "set fs \<subseteq> insert layoutFile (set ?partialFiles \<union> set ?pageFiles)"
    with layout_in show "?P name t'" by (intro parsed) auto
  qed
  with partials have "\<forall>(k, t) \<in> set ts. ?P k t"
  proof (rule load_partials_result)
    fix name fs t'
    assume "ParseFiles (New name) fs = Inr t'" and "set fs \<subseteq> set ?partialFiles"
    then show "?P name t'" by (intro parsed) auto
  qed
  with assms(2) show ?thesis by auto
qed

text \<open>
  The response of \<open>RenderTemplate\<close> on the map of \<open>LoadTemplates\<close>. A template is loaded
  under the path of its file below the directory, and \<open>ParseFiles\<close> names what it parses
  by base names. So unless a file is named like the path, or defines a template of that
  name, the template under the key has no tree, and \<open>RenderTemplate\<close> answers with status
  500: the template was not found, or it is incomplete.
\<close>

lemma RenderTemplate_LoadTemplates:
  assumes "LoadTemplates dir files = Inr ts"
    and "\<forall>f \<in> set files. name \<noteq> file_base f \<and> (\<forall>d. file_parse f = Inr d \<longrightarrow> name \<notin> set d)"
  shows "RenderTemplate ex ts name data =
     (if map_of ts name = None
      then http_Error (''Template not found: '' @ name @ ''. Available: '' @
                         Sprint_strings (getTemplateKeys ts)) StatusInternalServerError
      else http_Error (''Error executing template '' @ name @ '': template: '' @ [CHR 0x22] @
                         name @ [CHR 0x22] @ '' is an incomplete or empty template'')
             StatusInternalServerError)"
proof (cases "map_of ts name")
  case None
  then show ?thesis by (simp add: RenderTemplate_def)
next
  case (Some t)
  then have "(name, t) \<in> set ts" by (rule map_of_SomeD)
  from LoadTemplates_result [OF assms(1) this] assms(2)
  have "Template_Name t = name" and "name \<notin> set (Template_Trees t)"
    by auto
  with Some show ?thesis
    by (simp add: RenderTemplate_incomplete)
qed

section \<open>Sessions\<close>

lemma Login_success:
  assumes "Login ex ts cmp nr clock db store r = (store1, resp)"
    and "Body resp = Redirect ''/games'' StatusSeeOther"
  shows "\<exists>tok (user::User). nr = Inr tok \<and> store1 = store(tok \<mapsto> User_ID user) \<and>
           SetCookies resp =
             [\<lparr>Name = sessionCookieName, Value = tok, Path = ''/'',
               Expires = clock + 24 * 60 * 60 * 1000, HttpOnly = True,
               Secure = TLS r, SameSite = ''Lax''\<rparr>]"
  using assms
  by (auto simp: Login_def Let_def http_Error_def RenderTemplate_not_Redirect
      split: if_splits option.splits sum.splits)

lemma IsAuthenticated_iff:
  "IsAuthenticated store r \<longleftrightarrow>
     (\<exists>tok uid. Cookie r sessionCookieName = Inr tok \<and> store tok = Some uid)"
  by (auto simp: IsAuthenticated_def split: sum.splits option.splits)

lemma Logout_store:
  "fst (Logout store r) =
     (case Cookie r sessionCookieName of Inr tok \<Rightarrow> store(tok := None) | Inl err \<Rightarrow> store)"
  by (simp add: Logout_def split: sum.splits)

lemma Logout_body:
  "Body (snd (Logout store r)) = Redirect ''/login'' StatusSeeOther"
  by (simp add: Logout_def http_Redirect_def split: sum.splits)

text \<open>
  Claim C4. After a login that succeeded, a request with the issued cookie is authenticated.
  Once \<^verbatim>\<open>Logout\<close> has run on a request with that cookie, a request that still carries it is
  not: \<^verbatim>\<open>IsAuthenticated\<close> is false, \<^verbatim>\<open>GetCurrentUser\<close> fails and \<^verbatim>\<open>AuthMiddleware\<close> redirects to
  \<^verbatim>\<open>/login\<close> without running the handler. \<^verbatim>\<open>Logout\<close> on a request whose token is not in the
  store (or that has no cookie) leaves the store as it is and answers with the same
  redirect, not an error.
\<close>

theorem login_logout_invalidates_session:
  assumes login: "Login ex ts cmp nr clock db store r = (store1, resp)"
    and ok: "Body resp = Redirect ''/games'' StatusSeeOther"
    and r1: "Cookie r1 sessionCookieName = Inr (Value (hd (SetCookies resp)))"
    and r2: "Cookie r2 sessionCookieName = Inr (Value (hd (SetCookies resp)))"
  shows "IsAuthenticated store1 r1 \<and> IsAuthenticated store1 r2 \<and>
     \<not> IsAuthenticated (fst (Logout store1 r1)) r2 \<and>
     GetCurrentUser (fst (Logout store1 r1)) r2 db' = Inl ErrInvalidSessionToken \<and>
     AuthMiddleware (fst (Logout store1 r1)) next st r2 =
       (st, http_Redirect ''/login'' StatusSeeOther) \<and>
     Body (snd (Logout store1 r1)) = Redirect ''/login'' StatusSeeOther \<and>
     (\<forall>s r0. (\<forall>t. Cookie r0 sessionCookieName = Inr t \<longrightarrow> s t = None) \<longrightarrow>
        fst (Logout s r0) = s \<and> Body (snd (Logout s r0)) = Redirect ''/login'' StatusSeeOther)"
proof -
  from Login_success [OF login ok] obtain tok and user :: User where
    tok: "store1 = store(tok \<mapsto> User_ID user)" "Value (hd (SetCookies resp)) = tok"
    by auto
  have auth: "IsAuthenticated store1 r1" "IsAuthenticated store1 r2"
    using r1 r2 tok by (simp_all add: IsAuthenticated_iff)
  have out: "fst (Logout store1 r1) tok = None"
    using r1 tok by (simp add: Logout_store)
  then have no: "\<not> IsAuthenticated (fst (Logout store1 r1)) r2"
    using r2 tok by (simp add: IsAuthenticated_iff)
  have cur: "GetCurrentUser (fst (Logout store1 r1)) r2 db' = Inl ErrInvalidSessionToken"
    using r2 tok out by (simp add: GetCurrentUser_def)
  have mw: "AuthMiddleware (fst (Logout store1 r1)) next st r2 =
       (st, http_Redirect ''/login'' StatusSeeOther)"
    using no by (simp add: AuthMiddleware_def)
  have idem: "fst (Logout s r0) = s"
    if "\<forall>t. Cookie r0 sessionCookieName = Inr t \<longrightarrow> s t = None" for s r0
    using that by (auto simp: Logout_store split: sum.splits)
  from auth no cur mw idem show ?thesis
    by (simp add: Logout_body)
qed

theorem login_logout_invalidates_session_witness:
  "Login (\<lambda>t data. ([], None)) [] (\<lambda>h p. if h = p then None else Some (ErrLibrary ''mismatch'')) (Inr ''token-1'') 0
     \<lparr>users = [\<lparr>User_ID = 1, User_Email = ''a@x.com'', User_PasswordHash = ''pw1'', User_CreatedAt = 1\<rparr>],
      games = [], rsvps = [], chat_messages = [],
      users_seq = 1, games_seq = 0, rsvps_seq = 0, chat_messages_seq = 0\<rparr>
     Map.empty
     \<lparr>Method = ''POST'', URL_Path = ''/login'', Cookies = [],
      Form = Some [(''email'', ''a@x.com''), (''password'', ''pw1'')], TLS = False\<rparr> =
   ([''token-1'' \<mapsto> 1],
    \<lparr>Header = [],
     SetCookies = [\<lparr>Name = ''session_token'', Value = ''token-1'', Path = ''/'',
                    Expires = 86400000, HttpOnly = True, Secure = False, SameSite = ''Lax''\<rparr>],
     Body = Redirect ''/games'' 303\<rparr>) \<and>
   IsAuthenticated [''token-1'' \<mapsto> 1]
     \<lparr>Method = ''GET'', URL_Path = ''/games/new'', Cookies = [(''session_token'', ''token-1'')],
      Form = None, TLS = False\<rparr> \<and>
   \<not> IsAuthenticated
     (fst (Logout [''token-1'' \<mapsto> 1]
        \<lparr>Method = ''POST'', URL_Path = ''/logout'', Cookies = [(''session_token'', ''token-1'')],
         Form = None, TLS = False\<rparr>))
     \<lparr>Method = ''GET'', URL_Path = ''/games/new'', Cookies = [(''session_token'', ''token-1'')],
      Form = None, TLS = False\<rparr> \<and>
   fst (Logout Map.empty
        \<lparr>Method = ''POST'', URL_Path = ''/logout'', Cookies = [(''session_token'', ''token-1'')],
         Form = None, TLS = False\<rparr>) = Map.empty"
proof -
  let ?cmp = "\<lambda>h p. if h = p then None else Some (ErrLibrary ''mismatch'')"
  let ?db = "\<lparr>users = [\<lparr>User_ID = 1, User_Email = ''a@x.com'', User_PasswordHash = ''pw1'', User_CreatedAt = 1\<rparr>],
      games = [], rsvps = [], chat_messages = [],
      users_seq = 1, games_seq = 0, rsvps_seq = 0, chat_messages_seq = 0\<rparr>"
  let ?r = "\<lparr>Method = ''POST'', URL_Path = ''/login'', Cookies = [],
      Form = Some [(''email'', ''a@x.com''), (''password'', ''pw1'')], TLS = False\<rparr>"
  let ?out = "\<lparr>Method = ''POST'', URL_Path = ''/logout'', Cookies = [(''session_token'', ''token-1'')],
         Form = None, TLS = False\<rparr>"
  let ?next = "\<lparr>Method = ''GET'', URL_Path = ''/games/new'', Cookies = [(''session_token'', ''token-1'')],
      Form = None, TLS = False\<rparr>"
  let ?resp = "\<lparr>Header = [],
     SetCookies = [\<lparr>Name = ''session_token'', Value = ''token-1'', Path = ''/'',
                    Expires = 86400000, HttpOnly = True, Secure = False, SameSite = ''Lax''\<rparr>],
     Body = Redirect ''/games'' 303\<rparr>"
  have login: "Login (\<lambda>t data. ([], None)) [] ?cmp (Inr ''token-1'') 0 ?db Map.empty ?r = ([''token-1'' \<mapsto> 1], ?resp)"
    by (simp add: Login_def MethodPost_def FormValue_def GetUserByEmail_def VerifyPassword_def
        sessionCookieName_def StatusSeeOther_def)
  have ok: "Body ?resp = Redirect ''/games'' StatusSeeOther"
    by (simp add: StatusSeeOther_def)
  have c1: "Cookie ?out sessionCookieName = Inr (Value (hd (SetCookies ?resp)))"
    and c2: "Cookie ?next sessionCookieName = Inr (Value (hd (SetCookies ?resp)))"
    by (simp_all add: Cookie_def sessionCookieName_def)
  have absent: "\<forall>t. Cookie ?out sessionCookieName = Inr t \<longrightarrow> (Map.empty :: session_store) t = None"
    by simp
  note inst = login_logout_invalidates_session [OF login ok c1 c2]
  note a = inst [THEN conjunct2, THEN conjunct1]
  note b = inst [THEN conjunct2, THEN conjunct2, THEN conjunct1]
  note idem = inst [THEN conjunct2, THEN conjunct2, THEN conjunct2, THEN conjunct2,
      THEN conjunct2, THEN conjunct2]
  from idem [rule_format, of ?out Map.empty] absent
  have c: "fst (Logout Map.empty ?out) = Map.empty"
    by simp
  from login a b c show ?thesis by (intro conjI)
qed


text \<open>
  \<^verbatim>\<open>LoadTemplates("web/templates")\<close>, the call of \<^verbatim>\<open>main\<close>, on a directory with the files
  that the handlers render: the layout and the error page in the directory, the pages
  and the partials one directory below. The files are written like the two at hand:
  \<^verbatim>\<open>games/game_detail.html\<close> defines \<^verbatim>\<open>content\<close> and calls \<^verbatim>\<open>layout\<close>, and so does each page here;
  \<^verbatim>\<open>games/_rsvp_section.html\<close> defines nothing, and so does each partial here; the layout
  defines \<^verbatim>\<open>layout\<close>. The error page and the layout are not one directory below, so they
  get no entry; and no template of the map has a tree under its own name.
\<close>

lemma LoadTemplates_web_templates:
  "LoadTemplates ''web/templates''
     [\<lparr>file_dir = [], file_base = ''error.html'', file_parse = Inr [''content'']\<rparr>,
      \<lparr>file_dir = [], file_base = ''layout.html'', file_parse = Inr [''layout'']\<rparr>,
      \<lparr>file_dir = [''auth''], file_base = ''login.html'', file_parse = Inr [''content'']\<rparr>,
      \<lparr>file_dir = [''auth''], file_base = ''register.html'', file_parse = Inr [''content'']\<rparr>,
      \<lparr>file_dir = [''games''], file_base = ''_chat_messages.html'', file_parse = Inr []\<rparr>,
      \<lparr>file_dir = [''games''], file_base = ''_rsvp_section.html'', file_parse = Inr []\<rparr>,
      \<lparr>file_dir = [''games''], file_base = ''game_detail.html'', file_parse = Inr [''content'']\<rparr>,
      \<lparr>file_dir = [''games''], file_base = ''games_list.html'', file_parse = Inr [''content'']\<rparr>,
      \<lparr>file_dir = [''games''], file_base = ''new_game.html'', file_parse = Inr [''content'']\<rparr>] =
   Inr [(''auth/login.html'',
         \<lparr>Template_Name = ''auth/login.html'',
          Template_Trees = [''login.html'', ''content'', ''layout.html'', ''layout'',
                            ''_chat_messages.html'', ''_rsvp_section.html'']\<rparr>),
        (''auth/register.html'',
         \<lparr>Template_Name = ''auth/register.html'',
          Template_Trees = [''register.html'', ''content'', ''layout.html'', ''layout'',
                            ''_chat_messages.html'', ''_rsvp_section.html'']\<rparr>),
        (''games/game_detail.html'',
         \<lparr>Template_Name = ''games/game_detail.html'',
          Template_Trees = [''game_detail.html'', ''content'', ''layout.html'', ''layout'',
                            ''_chat_messages.html'', ''_rsvp_section.html'']\<rparr>),
        (''games/games_list.html'',
         \<lparr>Template_Name = ''games/games_list.html'',
          Template_Trees = [''games_list.html'', ''content'', ''layout.html'', ''layout'',
                            ''_chat_messages.html'', ''_rsvp_section.html'']\<rparr>),
        (''games/new_game.html'',
         \<lparr>Template_Name = ''games/new_game.html'',
          Template_Trees = [''new_game.html'', ''content'', ''layout.html'', ''layout'',
                            ''_chat_messages.html'', ''_rsvp_section.html'']\<rparr>),
        (''games/_chat_messages.html'',
         \<lparr>Template_Name = ''games/_chat_messages.html'',
          Template_Trees = [''_chat_messages.html'']\<rparr>),
        (''games/_rsvp_section.html'',
         \<lparr>Template_Name = ''games/_rsvp_section.html'',
          Template_Trees = [''_rsvp_section.html'']\<rparr>)]"
  by (simp add: LoadTemplates_def is_layout_def match_partial_def match_html_def
      suffix_to_prefix file_path_def Join_def template_name_def TrimPrefix_def ParseFiles_def
      New_def assign_def Let_def)

lemma Login_generic_failure:
  assumes "Method r = MethodPost" and "Form r = Some form"
    and "FormValue form ''email'' \<noteq> []" and "FormValue form ''password'' \<noteq> []"
    and "GetUserByEmail db (FormValue form ''email'') = Inl ErrNoRows \<or>
         (\<exists>user err. GetUserByEmail db (FormValue form ''email'') = Inr user \<and>
            CompareHashAndPassword (User_PasswordHash user) (FormValue form ''password'') = Some err)"
  shows "Login ex ts CompareHashAndPassword nr clock db store r =
     (store, RenderTemplate ex ts ''auth/login.html''
               [(''Error'', StringValue ''Invalid email or password.'')])"
  using assms by (auto simp: Login_def VerifyPassword_def)

text \<open>
  The failure branches of \<open>Login\<close>, whatever the templates are. A login with an unknown
  email and a login with a known email and a wrong password get the same response,
  whatever the database, the session store, the clock and the rest of the two requests
  are, and neither changes the session store: both are what \<open>RenderTemplate\<close> makes of the
  login page with the one message \<^verbatim>\<open>Invalid email or password.\<close> A login with the right
  password stores a fresh session for the user, sets the session cookie and redirects to
  \<^verbatim>\<open>/games\<close>.
\<close>

lemma Login_failures_equal:
  assumes r1: "Method r1 = MethodPost" "Form r1 = Some f1"
      "FormValue f1 ''email'' \<noteq> []" "FormValue f1 ''password'' \<noteq> []"
    and unknown: "GetUserByEmail db1 (FormValue f1 ''email'') = Inl ErrNoRows"
    and r2: "Method r2 = MethodPost" "Form r2 = Some f2"
      "FormValue f2 ''email'' \<noteq> []" "FormValue f2 ''password'' \<noteq> []"
    and wrong: "GetUserByEmail db2 (FormValue f2 ''email'') = Inr user2"
      "CompareHashAndPassword (User_PasswordHash user2) (FormValue f2 ''password'') = Some err"
    and r3: "Method r3 = MethodPost" "Form r3 = Some f3"
      "FormValue f3 ''email'' \<noteq> []" "FormValue f3 ''password'' \<noteq> []"
    and right: "GetUserByEmail db3 (FormValue f3 ''email'') = Inr user3"
      "CompareHashAndPassword (User_PasswordHash user3) (FormValue f3 ''password'') = None"
  shows "snd (Login ex ts CompareHashAndPassword nrA clockA db1 storeA r1) =
           snd (Login ex ts CompareHashAndPassword nrB clockB db2 storeB r2) \<and>
     fst (Login ex ts CompareHashAndPassword nrA clockA db1 storeA r1) = storeA \<and>
     fst (Login ex ts CompareHashAndPassword nrB clockB db2 storeB r2) = storeB \<and>
     Login ex ts CompareHashAndPassword (Inr sessionToken) clockC db3 storeC r3 =
       (storeC(sessionToken \<mapsto> User_ID user3),
        \<lparr>Header = [],
         SetCookies = [\<lparr>Name = sessionCookieName, Value = sessionToken, Path = ''/'',
                        Expires = clockC + 24 * 60 * 60 * 1000, HttpOnly = True,
                        Secure = TLS r3, SameSite = ''Lax''\<rparr>],
         Body = Redirect ''/games'' StatusSeeOther\<rparr>)"
proof -
  have 1: "Login ex ts CompareHashAndPassword nrA clockA db1 storeA r1 =
       (storeA, RenderTemplate ex ts ''auth/login.html''
                  [(''Error'', StringValue ''Invalid email or password.'')])"
    using r1 unknown by (intro Login_generic_failure) auto
  have 2: "Login ex ts CompareHashAndPassword nrB clockB db2 storeB r2 =
       (storeB, RenderTemplate ex ts ''auth/login.html''
                  [(''Error'', StringValue ''Invalid email or password.'')])"
    using r2 wrong by (intro Login_generic_failure) auto
  have 3: "Login ex ts CompareHashAndPassword (Inr sessionToken) clockC db3 storeC r3 =
       (storeC(sessionToken \<mapsto> User_ID user3),
        \<lparr>Header = [],
         SetCookies = [\<lparr>Name = sessionCookieName, Value = sessionToken, Path = ''/'',
                        Expires = clockC + 24 * 60 * 60 * 1000, HttpOnly = True,
                        Secure = TLS r3, SameSite = ''Lax''\<rparr>],
         Body = Redirect ''/games'' StatusSeeOther\<rparr>)"
    using r3 right by (simp add: Login_def VerifyPassword_def)
  from 1 2 3 show ?thesis by simp
qed

text \<open>
  With the templates that \<open>LoadTemplates\<close> loads, that response is not the login page:
  whatever the files below the directory are, as long as none is named like, or defines, a
  template \<^verbatim>\<open>auth/login.html\<close>, a failed login is answered with status 500.
\<close>

lemma Login_failure_status_500:
  assumes "LoadTemplates dir files = Inr ts"
    and "\<forall>f \<in> set files. ''auth/login.html'' \<noteq> file_base f \<and>
           (\<forall>d. file_parse f = Inr d \<longrightarrow> ''auth/login.html'' \<notin> set d)"
    and "Method r = MethodPost" and "Form r = Some form"
    and "FormValue form ''email'' \<noteq> []" and "FormValue form ''password'' \<noteq> []"
    and "GetUserByEmail db (FormValue form ''email'') = Inl ErrNoRows \<or>
         (\<exists>user err. GetUserByEmail db (FormValue form ''email'') = Inr user \<and>
            CompareHashAndPassword (User_PasswordHash user) (FormValue form ''password'') = Some err)"
  shows "\<exists>msg. Login ex ts CompareHashAndPassword nr clock db store r =
           (store, http_Error msg StatusInternalServerError)"
proof -
  have "Login ex ts CompareHashAndPassword nr clock db store r =
     (store, RenderTemplate ex ts ''auth/login.html''
               [(''Error'', StringValue ''Invalid email or password.'')])"
    using assms(3-7) by (rule Login_generic_failure)
  moreover from RenderTemplate_LoadTemplates [OF assms(1,2), of ex]
  obtain msg where "RenderTemplate ex ts ''auth/login.html''
      [(''Error'', StringValue ''Invalid email or password.'')] =
    http_Error msg StatusInternalServerError"
    by (cases "map_of ts ''auth/login.html'' = None") auto
  ultimately show ?thesis by auto
qed

text \<open>
  Claim C8, on the application's templates. User \<^verbatim>\<open>a@x.com\<close> is registered with the hash of
  password \<^verbatim>\<open>pw1\<close>. A login as \<^verbatim>\<open>nobody@x.com\<close> and a login as \<^verbatim>\<open>a@x.com\<close> with password \<^verbatim>\<open>wrong\<close>
  both leave the session store as it is, and both get status 500 with the text
  \<^verbatim>\<open>Error executing template auth/login.html: template: "auth/login.html" is an incomplete
  or empty template\<close>, whatever the template engine does: not the login page with
  \<^verbatim>\<open>Invalid email or password.\<close>
\<close>

theorem Login_failure_incomplete_template:
  "\<exists>ts.
     LoadTemplates ''web/templates''
       [\<lparr>file_dir = [], file_base = ''error.html'', file_parse = Inr [''content'']\<rparr>,
        \<lparr>file_dir = [], file_base = ''layout.html'', file_parse = Inr [''layout'']\<rparr>,
        \<lparr>file_dir = [''auth''], file_base = ''login.html'', file_parse = Inr [''content'']\<rparr>,
        \<lparr>file_dir = [''auth''], file_base = ''register.html'', file_parse = Inr [''content'']\<rparr>,
        \<lparr>file_dir = [''games''], file_base = ''_chat_messages.html'', file_parse = Inr []\<rparr>,
        \<lparr>file_dir = [''games''], file_base = ''_rsvp_section.html'', file_parse = Inr []\<rparr>,
        \<lparr>file_dir = [''games''], file_base = ''game_detail.html'', file_parse = Inr [''content'']\<rparr>,
        \<lparr>file_dir = [''games''], file_base = ''games_list.html'', file_parse = Inr [''content'']\<rparr>,
        \<lparr>file_dir = [''games''], file_base = ''new_game.html'', file_parse = Inr [''content'']\<rparr>] = Inr ts \<and>
     Login HtmlExecute ts (\<lambda>h p. if h = p then None else Some (ErrLibrary ''mismatch''))
       (Inr ''token-9'') 0
       \<lparr>users = [\<lparr>User_ID = 1, User_Email = ''a@x.com'', User_PasswordHash = ''pw1'',
                   User_CreatedAt = 1\<rparr>],
        games = [], rsvps = [], chat_messages = [],
        users_seq = 1, games_seq = 0, rsvps_seq = 0, chat_messages_seq = 0\<rparr>
       Map.empty
       \<lparr>Method = ''POST'', URL_Path = ''/login'', Cookies = [],
        Form = Some [(''email'', ''nobody@x.com''), (''password'', ''pw1'')], TLS = False\<rparr> =
     (Map.empty,
      http_Error
        (''Error executing template auth/login.html: template: '' @ [CHR 0x22] @
         ''auth/login.html'' @ [CHR 0x22] @ '' is an incomplete or empty template'') 500) \<and>
     Login HtmlExecute ts (\<lambda>h p. if h = p then None else Some (ErrLibrary ''mismatch''))
       (Inr ''token-9'') 0
       \<lparr>users = [\<lparr>User_ID = 1, User_Email = ''a@x.com'', User_PasswordHash = ''pw1'',
                   User_CreatedAt = 1\<rparr>],
        games = [], rsvps = [], chat_messages = [],
        users_seq = 1, games_seq = 0, rsvps_seq = 0, chat_messages_seq = 0\<rparr>
       Map.empty
       \<lparr>Method = ''POST'', URL_Path = ''/login'', Cookies = [],
        Form = Some [(''email'', ''a@x.com''), (''password'', ''wrong'')], TLS = False\<rparr> =
     (Map.empty,
      http_Error
        (''Error executing template auth/login.html: template: '' @ [CHR 0x22] @
         ''auth/login.html'' @ [CHR 0x22] @ '' is an incomplete or empty template'') 500)"
  by (simp add: LoadTemplates_web_templates Login_def MethodPost_def FormValue_def
      GetUserByEmail_def VerifyPassword_def RenderTemplate_def Execute_def
      StatusInternalServerError_def)

section \<open>Registration\<close>

lemma GetUserByEmail_NoRows:
  "GetUserByEmail db email = Inl err \<longleftrightarrow>
     err = ErrNoRows \<and> filter (\<lambda>u. User_Email u = email) (users db) = []"
  by (auto simp: GetUserByEmail_def split: list.splits)

lemma GetUserByEmail_found:
  "filter (\<lambda>u. User_Email u = email) (users db) \<noteq> [] \<Longrightarrow>
     \<exists>u. GetUserByEmail db email = Inr u"
  by (auto simp: GetUserByEmail_def split: list.splits)

lemma CreateUser_cases:
  assumes "CreateUser gen c db email password = (db', res)"
  shows "(db' = db \<and> (\<exists>err. res = Inl err)) \<or>
     (\<exists>h v. gen password = Inr h \<and>
        NewRowid (users_seq db) (map User_ID (users db)) = Inr v \<and>
        \<not> list_ex (\<lambda>u. User_Email u = email) (users db) \<and>
        (\<exists>u. res = Inr u) \<and>
        db' = db\<lparr>users := users db @
                 [\<lparr>User_ID = v, User_Email = email,
                   User_PasswordHash = h, User_CreatedAt = CURRENT_TIMESTAMP c\<rparr>],
               users_seq := v\<rparr>)"
  using assms
  by (auto simp: CreateUser_def Let_def GetUserByID_def split: sum.splits if_splits list.splits)

lemma Register_cases:
  assumes "Register ex ts gen c db r = (db', resp)"
  shows "(db' = db \<and> Body resp \<noteq> Redirect ''/login'' StatusSeeOther) \<or>
     (\<exists>form h v. Method r = MethodPost \<and> Form r = Some form \<and>
        FormValue form ''email'' \<noteq> [] \<and>
        filter (\<lambda>u. User_Email u = FormValue form ''email'') (users db) = [] \<and>
        gen (FormValue form ''password'') = Inr h \<and>
        NewRowid (users_seq db) (map User_ID (users db)) = Inr v \<and>
        Body resp = Redirect ''/login'' StatusSeeOther \<and>
        db' = db\<lparr>users := users db @
                 [\<lparr>User_ID = v,
                   User_Email = FormValue form ''email'',
                   User_PasswordHash = h, User_CreatedAt = CURRENT_TIMESTAMP c\<rparr>],
               users_seq := v\<rparr>)"
proof (cases "Method r = MethodPost \<and> (\<exists>form. Form r = Some form \<and>
    FormValue form ''email'' \<noteq> [] \<and> FormValue form ''password'' \<noteq> [] \<and>
    FormValue form ''password'' = FormValue form ''confirm_password'' \<and>
    filter (\<lambda>u. User_Email u = FormValue form ''email'') (users db) = [])")
  case False
  with assms have "db' = db \<and> Body resp \<noteq> Redirect ''/login'' StatusSeeOther"
    by (auto simp: Register_def Let_def http_Error_def RenderTemplate_not_Redirect
        GetUserByEmail_NoRows split: if_splits option.splits sum.splits)
  then show ?thesis by simp
next
  case True
  then obtain form where form: "Method r = MethodPost" "Form r = Some form"
    "FormValue form ''email'' \<noteq> []" "FormValue form ''password'' \<noteq> []"
    "FormValue form ''password'' = FormValue form ''confirm_password''"
    "filter (\<lambda>u. User_Email u = FormValue form ''email'') (users db) = []"
    by blast
  from form(6) have norows: "GetUserByEmail db (FormValue form ''email'') = Inl ErrNoRows"
    by (simp add: GetUserByEmail_NoRows)
  obtain db2 res where cu:
    "CreateUser gen c db (FormValue form ''email'') (FormValue form ''password'') = (db2, res)"
    by (cases "CreateUser gen c db (FormValue form ''email'') (FormValue form ''password'')")
  from assms form norows cu have out:
    "(case res of
        Inl err \<Rightarrow> (db2, http_Error (''Could not create user: '' @ Error_text err)
                          StatusInternalServerError)
      | Inr _ \<Rightarrow> (db2, http_Redirect ''/login'' StatusSeeOther)) = (db', resp)"
    by (simp add: Register_def Let_def split: sum.splits)
  from CreateUser_cases [OF cu] show ?thesis
  proof
    assume "db2 = db \<and> (\<exists>err. res = Inl err)"
    with out show ?thesis by (auto simp: http_Error_def)
  next
    assume "\<exists>h v. gen (FormValue form ''password'') = Inr h \<and>
      NewRowid (users_seq db) (map User_ID (users db)) = Inr v \<and>
      \<not> list_ex (\<lambda>u. User_Email u = FormValue form ''email'') (users db) \<and>
      (\<exists>u. res = Inr u) \<and>
      db2 = db\<lparr>users := users db @
                 [\<lparr>User_ID = v,
                   User_Email = FormValue form ''email'',
                   User_PasswordHash = h, User_CreatedAt = CURRENT_TIMESTAMP c\<rparr>],
               users_seq := v\<rparr>"
    with out form show ?thesis by (auto simp: http_Redirect_def)
  qed
qed

lemma Register_preserves_email_unique:
  assumes "users_email_unique db"
  shows "users_email_unique (fst (Register ex ts gen c db r))"
proof -
  obtain db' resp where reg: "Register ex ts gen c db r = (db', resp)"
    by (cases "Register ex ts gen c db r")
  from Register_cases [OF reg] consider (same) "db' = db"
    | (new) form h v where
        "filter (\<lambda>u. User_Email u = FormValue form ''email'') (users db) = []"
        "db' = db\<lparr>users := users db @
                 [\<lparr>User_ID = v,
                   User_Email = FormValue form ''email'',
                   User_PasswordHash = h, User_CreatedAt = CURRENT_TIMESTAMP c\<rparr>],
               users_seq := v\<rparr>"
    by blast
  then show ?thesis
  proof cases
    case same
    with assms show ?thesis by (simp add: reg)
  next
    case new
    from new(1) have "FormValue form ''email'' \<notin> User_Email ` set (users db)"
      by (force simp: filter_empty_conv)
    with assms new(2) show ?thesis
      by (simp add: reg users_email_unique_def)
  qed
qed

lemma Register_existing_email:
  assumes "Method r = MethodPost" and "Form r = Some form"
    and "filter (\<lambda>u. User_Email u = FormValue form ''email'') (users db) \<noteq> []"
    and "FormValue form ''email'' \<noteq> []"
  shows "Register ex ts gen c db r =
     (db, RenderTemplate ex ts ''auth/register.html''
            [(''Error'', StringValue
               (if FormValue form ''password'' = [] then ''Email and password are required.''
                else if FormValue form ''password'' \<noteq> FormValue form ''confirm_password''
                then ''Passwords do not match.''
                else ''Email already registered.''))])"
proof -
  from GetUserByEmail_found [OF assms(3)] obtain u where
    "GetUserByEmail db (FormValue form ''email'') = Inr u" by blast
  with assms show ?thesis by (simp add: Register_def Let_def)
qed

text \<open>
  The database under two registrations, whatever the templates are. Let a registration
  succeed on a database whose emails are distinct (the redirect to \<^verbatim>\<open>/login\<close>). A second
  registration with the same email, whatever its passwords, hash function and clock,
  leaves the database as the first one left it: exactly one user has that email, and the
  emails remain distinct. Its response is what \<open>RenderTemplate\<close> makes of the registration
  form with an error message (\<^verbatim>\<open>Email already registered.\<close> when its two passwords are
  filled in and equal).
\<close>

lemma Register_duplicate_email_database:
  assumes uniq: "users_email_unique db"
    and first: "Register ex ts gen c db r = (db1, resp)"
      "Body resp = Redirect ''/login'' StatusSeeOther" "Form r = Some form"
    and second: "Method r' = MethodPost" "Form r' = Some form'"
      "FormValue form' ''email'' = FormValue form ''email''"
  shows "(\<exists>msg. Register ex' ts' gen' c' db1 r' =
            (db1, RenderTemplate ex' ts' ''auth/register.html'' [(''Error'', StringValue msg)]) \<and>
          (FormValue form' ''password'' \<noteq> [] \<and>
           FormValue form' ''password'' = FormValue form' ''confirm_password'' \<longrightarrow>
             msg = ''Email already registered.'')) \<and>
     length (filter (\<lambda>u. User_Email u = FormValue form ''email'') (users db1)) = 1 \<and>
     length (filter (\<lambda>u. User_Email u = FormValue form ''email'')
               (users (fst (Register ex' ts' gen' c' db1 r')))) = 1 \<and>
     users_email_unique db1 \<and>
     users_email_unique (fst (Register ex' ts' gen' c' db1 r'))"
proof -
  let ?e = "FormValue form ''email''"
  from Register_cases [OF first(1)] first(2,3) obtain h v where
    e: "?e \<noteq> []" and fresh: "filter (\<lambda>u. User_Email u = ?e) (users db) = []"
    and db1: "db1 = db\<lparr>users := users db @
                 [\<lparr>User_ID = v, User_Email = ?e,
                   User_PasswordHash = h, User_CreatedAt = CURRENT_TIMESTAMP c\<rparr>],
               users_seq := v\<rparr>"
    by auto
  have one: "length (filter (\<lambda>u. User_Email u = ?e) (users db1)) = 1"
    using fresh by (simp add: db1)
  then have ne: "filter (\<lambda>u. User_Email u = FormValue form' ''email'') (users db1) \<noteq> []"
    using second(3) by auto
  have reg2: "Register ex' ts' gen' c' db1 r' =
     (db1, RenderTemplate ex' ts' ''auth/register.html''
            [(''Error'', StringValue
               (if FormValue form' ''password'' = [] then ''Email and password are required.''
                else if FormValue form' ''password'' \<noteq> FormValue form' ''confirm_password''
                then ''Passwords do not match.''
                else ''Email already registered.''))])"
    using second e ne by (intro Register_existing_email) simp_all
  have u1: "users_email_unique db1"
    using Register_preserves_email_unique [OF uniq, of ex ts gen c r] first(1) by simp
  from reg2 one u1 show ?thesis by auto
qed

text \<open>
  With the templates that \<open>LoadTemplates\<close> loads, that response is not the registration
  form: whatever the files below the directory are, as long as none is named like, or
  defines, a template \<^verbatim>\<open>auth/register.html\<close>, a registration with an email that is taken is
  answered with status 500.
\<close>

lemma Register_duplicate_status_500:
  assumes "LoadTemplates dir files = Inr ts"
    and "\<forall>f \<in> set files. ''auth/register.html'' \<noteq> file_base f \<and>
           (\<forall>d. file_parse f = Inr d \<longrightarrow> ''auth/register.html'' \<notin> set d)"
    and "Method r = MethodPost" and "Form r = Some form"
    and "filter (\<lambda>u. User_Email u = FormValue form ''email'') (users db) \<noteq> []"
    and "FormValue form ''email'' \<noteq> []"
  shows "\<exists>msg. Register ex ts gen c db r = (db, http_Error msg StatusInternalServerError)"
proof -
  let ?data = "[(''Error'', StringValue
               (if FormValue form ''password'' = [] then ''Email and password are required.''
                else if FormValue form ''password'' \<noteq> FormValue form ''confirm_password''
                then ''Passwords do not match.''
                else ''Email already registered.''))]"
  have "Register ex ts gen c db r = (db, RenderTemplate ex ts ''auth/register.html'' ?data)"
    using assms(3-6) by (rule Register_existing_email)
  moreover from RenderTemplate_LoadTemplates [OF assms(1,2), of ex ?data]
  obtain msg where "RenderTemplate ex ts ''auth/register.html'' ?data =
    http_Error msg StatusInternalServerError"
    by (cases "map_of ts ''auth/register.html'' = None") auto
  ultimately show ?thesis by auto
qed

text \<open>
  Claim C9, on the application's templates. The first registration of \<^verbatim>\<open>a@x.com\<close> succeeds:
  user 1 is stored and the response is the redirect to \<^verbatim>\<open>/login\<close>. The second registration
  of \<^verbatim>\<open>a@x.com\<close> leaves the database as it is, with that one user, and is answered with
  status 500 and the text \<^verbatim>\<open>Error executing template auth/register.html: template:
  "auth/register.html" is an incomplete or empty template\<close>, whatever the template engine
  does: not with the registration form and \<^verbatim>\<open>Email already registered.\<close>
\<close>

theorem Register_duplicate_incomplete_template:
  "\<exists>ts.
     LoadTemplates ''web/templates''
       [\<lparr>file_dir = [], file_base = ''error.html'', file_parse = Inr [''content'']\<rparr>,
        \<lparr>file_dir = [], file_base = ''layout.html'', file_parse = Inr [''layout'']\<rparr>,
        \<lparr>file_dir = [''auth''], file_base = ''login.html'', file_parse = Inr [''content'']\<rparr>,
        \<lparr>file_dir = [''auth''], file_base = ''register.html'', file_parse = Inr [''content'']\<rparr>,
        \<lparr>file_dir = [''games''], file_base = ''_chat_messages.html'', file_parse = Inr []\<rparr>,
        \<lparr>file_dir = [''games''], file_base = ''_rsvp_section.html'', file_parse = Inr []\<rparr>,
        \<lparr>file_dir = [''games''], file_base = ''game_detail.html'', file_parse = Inr [''content'']\<rparr>,
        \<lparr>file_dir = [''games''], file_base = ''games_list.html'', file_parse = Inr [''content'']\<rparr>,
        \<lparr>file_dir = [''games''], file_base = ''new_game.html'', file_parse = Inr [''content'']\<rparr>] = Inr ts \<and>
     Register HtmlExecute ts (\<lambda>p. Inr (''bcrypt:'' @ p)) 3000
       \<lparr>users = [], games = [], rsvps = [], chat_messages = [],
        users_seq = 0, games_seq = 0, rsvps_seq = 0, chat_messages_seq = 0\<rparr>
       \<lparr>Method = ''POST'', URL_Path = ''/register'', Cookies = [],
        Form = Some [(''email'', ''a@x.com''), (''password'', ''pw1''),
                     (''confirm_password'', ''pw1'')],
        TLS = False\<rparr> =
     (\<lparr>users = [\<lparr>User_ID = 1, User_Email = ''a@x.com'', User_PasswordHash = ''bcrypt:pw1'',
                  User_CreatedAt = 3\<rparr>],
       games = [], rsvps = [], chat_messages = [],
       users_seq = 1, games_seq = 0, rsvps_seq = 0, chat_messages_seq = 0\<rparr>,
      http_Redirect ''/login'' 303) \<and>
     Register HtmlExecute ts (\<lambda>p. Inr (''bcrypt:'' @ p)) 9000
       \<lparr>users = [\<lparr>User_ID = 1, User_Email = ''a@x.com'', User_PasswordHash = ''bcrypt:pw1'',
                  User_CreatedAt = 3\<rparr>],
        games = [], rsvps = [], chat_messages = [],
        users_seq = 1, games_seq = 0, rsvps_seq = 0, chat_messages_seq = 0\<rparr>
       \<lparr>Method = ''POST'', URL_Path = ''/register'', Cookies = [],
        Form = Some [(''email'', ''a@x.com''), (''password'', ''pw2''),
                     (''confirm_password'', ''pw2'')],
        TLS = False\<rparr> =
     (\<lparr>users = [\<lparr>User_ID = 1, User_Email = ''a@x.com'', User_PasswordHash = ''bcrypt:pw1'',
                  User_CreatedAt = 3\<rparr>],
       games = [], rsvps = [], chat_messages = [],
       users_seq = 1, games_seq = 0, rsvps_seq = 0, chat_messages_seq = 0\<rparr>,
      http_Error
        (''Error executing template auth/register.html: template: '' @ [CHR 0x22] @
         ''auth/register.html'' @ [CHR 0x22] @ '' is an incomplete or empty template'') 500)"
  by (simp add: LoadTemplates_web_templates Register_def MethodPost_def FormValue_def
      GetUserByEmail_def CreateUser_def GetUserByID_def NewRowid_def last_rowid_def
      MAX_ROWID_def CURRENT_TIMESTAMP_def StatusSeeOther_def RenderTemplate_def Execute_def
      StatusInternalServerError_def)

section \<open>The RSVP and chat handlers\<close>

lemma upsert_rows_status:
  assumes "CreateOrUpdateRSVP c db rsvp = (db', None)"
  shows "rsvp_rows_for db' (RSVP_UserID rsvp) (RSVP_GameID rsvp) \<noteq> [] \<and>
     (\<forall>row \<in> set (rsvp_rows_for db' (RSVP_UserID rsvp) (RSVP_GameID rsvp)).
        rsvps_status row = RSVP_Status rsvp)"
proof -
  from assms obtain v where v: "NewRowid (rsvps_seq db) (map rsvps_id (rsvps db)) = Inr v"
    by (rule upsert_None_rowid)
  show ?thesis
  proof (cases "rsvp_rows_for db (RSVP_UserID rsvp) (RSVP_GameID rsvp) = []")
    case True
    from upsert_insert [OF True v, of c] assms
    have db': "db' = db\<lparr>rsvps := rsvps db @ [upsert_new_row c rsvp v], rsvps_seq := v\<rparr>"
      by simp
    have "rsvp_rows_for db' (RSVP_UserID rsvp) (RSVP_GameID rsvp) = [upsert_new_row c rsvp v]"
      unfolding db' by (simp add: rows_for_after_insert True)
    moreover have "rsvps_status (upsert_new_row c rsvp v) = RSVP_Status rsvp"
      by (simp add: upsert_new_row_def)
    ultimately show ?thesis by simp
  next
    case False
    from upsert_update [OF False v, of c] assms False show ?thesis
      by (auto simp: rows_for_after_update)
  qed
qed

lemma SubmitRSVP_invalid_unchanged:
  assumes "\<forall>f. Form r = Some f \<longrightarrow> \<not> valid_status (FormValue f ''status'')"
  shows "fst (SubmitRSVP ex ts SessionStore clock_ms db r) = db \<and>
     (\<exists>msg code. Body (snd (SubmitRSVP ex ts SessionStore clock_ms db r)) = HttpError msg code)"
  using assms
  by (simp add: SubmitRSVP_def Let_def http_Error_def split: sum.splits option.splits)

text \<open>
  Claim C2. The status check of an RSVP submission is the \<^verbatim>\<open>switch\<close> of \<^verbatim>\<open>SubmitRSVP\<close>, before
  the upsert is called. For a submission that reaches it (a \<^verbatim>\<open>POST\<close> of an authenticated
  user to a path with a game id, with a parsed form): a status other than \<^verbatim>\<open>attending\<close>,
  \<^verbatim>\<open>not_attending\<close> and \<^verbatim>\<open>maybe\<close> is answered with \<^verbatim>\<open>400 Invalid RSVP status value\<close> and the
  database is unchanged; one of the three is stored, in every row the pair has afterwards
  (when the table has a rowid left for the statement; without one the database is
  unchanged). And for any request at all whose status is not one of the three, the handler
  answers with an error and leaves the database unchanged.
\<close>

theorem SubmitRSVP_validates_status:
  assumes post: "Method r = MethodPost"
    and user: "GetCurrentUser SessionStore r db = Inr currentUser"
    and game: "ParseInt (gameIDStr_of (URL_Path r) ''/rsvp'') = Inr gameID"
    and form: "Form r = Some form"
  shows "(\<not> valid_status (FormValue form ''status'') \<longrightarrow>
            SubmitRSVP ex ts SessionStore clock_ms db r =
              (db, http_Error ''Invalid RSVP status value'' StatusBadRequest)) \<and>
         (valid_status (FormValue form ''status'') \<longrightarrow>
            (\<forall>v. NewRowid (rsvps_seq db) (map rsvps_id (rsvps db)) = Inr v \<longrightarrow>
               rsvp_rows_for (fst (SubmitRSVP ex ts SessionStore clock_ms db r))
                  (User_ID currentUser) gameID \<noteq> [] \<and>
               (\<forall>row \<in> set (rsvp_rows_for (fst (SubmitRSVP ex ts SessionStore clock_ms db r))
                                 (User_ID currentUser) gameID).
                  rsvps_status row = FormValue form ''status'')) \<and>
            (\<forall>e. NewRowid (rsvps_seq db) (map rsvps_id (rsvps db)) = Inl e \<longrightarrow>
               SubmitRSVP ex ts SessionStore clock_ms db r =
                 (db, http_Error ''Failed to update RSVP status. Please try again.''
                        StatusInternalServerError))) \<and>
         (valid_status status \<longleftrightarrow>
            status = ''attending'' \<or> status = ''not_attending'' \<or> status = ''maybe'') \<and>
         (\<forall>r'. (\<forall>f. Form r' = Some f \<longrightarrow> \<not> valid_status (FormValue f ''status'')) \<longrightarrow>
            fst (SubmitRSVP ex ts SessionStore clock_ms db r') = db \<and>
            (\<exists>msg code. Body (snd (SubmitRSVP ex ts SessionStore clock_ms db r')) =
               HttpError msg code))"
proof -
  have id: "gameIDStr_of (URL_Path r) ''/rsvp'' \<noteq> []"
    using game by (auto simp: ParseInt_def)
  let ?rsvp = "\<lparr>RSVP_ID = 0, RSVP_UserID = User_ID currentUser,
                 RSVP_GameID = gameID, RSVP_Status = FormValue form ''status'',
                 RSVP_CreatedAt = 0, RSVP_UpdatedAt = 0, RSVP_UserEmail = []\<rparr>"
  let ?S = "SubmitRSVP ex ts SessionStore clock_ms db r"
  have invalid: "?S = (db, http_Error ''Invalid RSVP status value'' StatusBadRequest)"
    if "\<not> valid_status (FormValue form ''status'')"
    using that post user game form id by (simp add: SubmitRSVP_def Let_def)
  have stored: "rsvp_rows_for (fst ?S) (User_ID currentUser) gameID \<noteq> [] \<and>
      (\<forall>row \<in> set (rsvp_rows_for (fst ?S) (User_ID currentUser) gameID).
         rsvps_status row = FormValue form ''status'')"
    if ok: "valid_status (FormValue form ''status'')"
      and v: "NewRowid (rsvps_seq db) (map rsvps_id (rsvps db)) = Inr v" for v
  proof -
    obtain db' e where up: "CreateOrUpdateRSVP clock_ms db ?rsvp = (db', e)"
      by (cases "CreateOrUpdateRSVP clock_ms db ?rsvp")
    with v have e: "e = None"
      by (auto simp: CreateOrUpdateRSVP_def split: option.splits)
    from upsert_rows_status [OF up [unfolded e]]
    have rows: "rsvp_rows_for db' (User_ID currentUser) gameID \<noteq> []"
      "\<forall>row \<in> set (rsvp_rows_for db' (User_ID currentUser) gameID).
         rsvps_status row = FormValue form ''status''"
      by simp_all
    have "fst ?S = db'"
      using ok post user game form id up e
      by (simp add: SubmitRSVP_def Let_def GetRSVPsForGame_def split: sum.splits)
    with rows show ?thesis by simp
  qed
  have full: "?S = (db, http_Error ''Failed to update RSVP status. Please try again.''
                        StatusInternalServerError)"
    if ok: "valid_status (FormValue form ''status'')"
      and e: "NewRowid (rsvps_seq db) (map rsvps_id (rsvps db)) = Inl e" for e
  proof -
    from e have "CreateOrUpdateRSVP clock_ms db ?rsvp = (db, Some e)"
      by (rule upsert_full)
    with ok post user game form id show ?thesis
      by (simp add: SubmitRSVP_def Let_def)
  qed
  have "valid_status status \<longleftrightarrow>
            status = ''attending'' \<or> status = ''not_attending'' \<or> status = ''maybe''"
    by (simp add: valid_status_def RSVPStatusAttending_def RSVPStatusNotAttending_def
        RSVPStatusMaybe_def)
  with invalid stored full SubmitRSVP_invalid_unchanged [of _ ex ts SessionStore clock_ms db]
  show ?thesis by simp
qed

theorem SubmitRSVP_validates_status_witness:
  "SubmitRSVP (\<lambda>t data. ([], None)) [] [''tok'' \<mapsto> 1] 7000
     \<lparr>users = [\<lparr>User_ID = 1, User_Email = ''a@x.com'', User_PasswordHash = ''h'', User_CreatedAt = 1\<rparr>],
      games = [\<lparr>Game_ID = 5, Game_GMID = 1, Game_Title = ''Session 1'', Game_Description = [],
                 Game_GameDateTime = 50, Game_Location = ''here'', Game_CreatedAt = 2\<rparr>],
      rsvps = [], chat_messages = [],
      users_seq = 1, games_seq = 5, rsvps_seq = 0, chat_messages_seq = 0\<rparr>
     \<lparr>Method = ''POST'', URL_Path = ''/games/5/rsvp'', Cookies = [(''session_token'', ''tok'')],
      Form = Some [(''status'', ''going'')], TLS = False\<rparr> =
   (\<lparr>users = [\<lparr>User_ID = 1, User_Email = ''a@x.com'', User_PasswordHash = ''h'', User_CreatedAt = 1\<rparr>],
      games = [\<lparr>Game_ID = 5, Game_GMID = 1, Game_Title = ''Session 1'', Game_Description = [],
                 Game_GameDateTime = 50, Game_Location = ''here'', Game_CreatedAt = 2\<rparr>],
      rsvps = [], chat_messages = [],
      users_seq = 1, games_seq = 5, rsvps_seq = 0, chat_messages_seq = 0\<rparr>,
    http_Error ''Invalid RSVP status value'' 400) \<and>
   rsvp_rows_for (fst (SubmitRSVP (\<lambda>t data. ([], None)) [] [''tok'' \<mapsto> 1] 7000
     \<lparr>users = [\<lparr>User_ID = 1, User_Email = ''a@x.com'', User_PasswordHash = ''h'', User_CreatedAt = 1\<rparr>],
      games = [\<lparr>Game_ID = 5, Game_GMID = 1, Game_Title = ''Session 1'', Game_Description = [],
                 Game_GameDateTime = 50, Game_Location = ''here'', Game_CreatedAt = 2\<rparr>],
      rsvps = [], chat_messages = [],
      users_seq = 1, games_seq = 5, rsvps_seq = 0, chat_messages_seq = 0\<rparr>
     \<lparr>Method = ''POST'', URL_Path = ''/games/5/rsvp'', Cookies = [(''session_token'', ''tok'')],
      Form = Some [(''status'', ''maybe'')], TLS = False\<rparr>)) 1 5 \<noteq> []"
proof -
  let ?ex = "\<lambda>(t::Template) (data::template_data). ([]::string, None::error option)"
  let ?u = "\<lparr>User_ID = 1, User_Email = ''a@x.com'', User_PasswordHash = ''h'', User_CreatedAt = 1\<rparr>"
  let ?db = "\<lparr>users = [?u],
      games = [\<lparr>Game_ID = 5, Game_GMID = 1, Game_Title = ''Session 1'', Game_Description = [],
                 Game_GameDateTime = 50, Game_Location = ''here'', Game_CreatedAt = 2\<rparr>],
      rsvps = [], chat_messages = [],
      users_seq = 1, games_seq = 5, rsvps_seq = 0, chat_messages_seq = 0\<rparr>"
  let ?bad = "\<lparr>Method = ''POST'', URL_Path = ''/games/5/rsvp'', Cookies = [(''session_token'', ''tok'')],
      Form = Some [(''status'', ''going'')], TLS = False\<rparr>"
  let ?good = "\<lparr>Method = ''POST'', URL_Path = ''/games/5/rsvp'', Cookies = [(''session_token'', ''tok'')],
      Form = Some [(''status'', ''maybe'')], TLS = False\<rparr>"
  have id: "ParseInt (gameIDStr_of ''/games/5/rsvp'' ''/rsvp'') = Inr 5"
    by code_simp
  have post: "Method ?bad = MethodPost" "Method ?good = MethodPost"
    by (simp_all add: MethodPost_def)
  have user: "GetCurrentUser [''tok'' \<mapsto> 1] ?bad ?db = Inr ?u"
    "GetCurrentUser [''tok'' \<mapsto> 1] ?good ?db = Inr ?u"
    by (simp_all add: GetCurrentUser_def Cookie_def sessionCookieName_def GetUserByID_def)
  have game: "ParseInt (gameIDStr_of (URL_Path ?bad) ''/rsvp'') = Inr 5"
    "ParseInt (gameIDStr_of (URL_Path ?good) ''/rsvp'') = Inr 5"
    using id by simp_all
  have form: "Form ?bad = Some [(''status'', ''going'')]"
    "Form ?good = Some [(''status'', ''maybe'')]"
    by simp_all
  have bad: "\<not> valid_status (FormValue [(''status'', ''going'')] ''status'')"
    and good: "valid_status (FormValue [(''status'', ''maybe'')] ''status'')"
    by (simp_all add: valid_status_def FormValue_def RSVPStatusAttending_def
        RSVPStatusNotAttending_def RSVPStatusMaybe_def)
  have rowid: "NewRowid (rsvps_seq ?db) (map rsvps_id (rsvps ?db)) = Inr 1"
    by (simp add: NewRowid_def last_rowid_def MAX_ROWID_def)
  from SubmitRSVP_validates_status
    [where ex = "?ex" and ts = "[]", OF post(1) user(1) game(1) form(1), of 7000] bad
  have 1: "SubmitRSVP ?ex [] [''tok'' \<mapsto> 1] 7000 ?db ?bad =
      (?db, http_Error ''Invalid RSVP status value'' 400)"
    by (simp add: StatusBadRequest_def)
  from SubmitRSVP_validates_status
    [where ex = "?ex" and ts = "[]", OF post(2) user(2) game(2) form(2), of 7000] good rowid
  have 2: "rsvp_rows_for (fst (SubmitRSVP ?ex [] [''tok'' \<mapsto> 1] 7000 ?db ?good)) 1 5 \<noteq> []"
    by simp
  from 1 2 show ?thesis by (intro conjI)
qed


lemma GetUserByID_Inr:
  "GetUserByID db uid = Inr u \<Longrightarrow>
     filter (\<lambda>u. User_ID u = uid) (users db) \<noteq> [] \<and> User_ID u = uid"
  by (auto simp: GetUserByID_def split: list.splits dest: Cons_eq_filterD [OF sym])

lemma CreateChatMessage_full:
  assumes "NewRowid (chat_messages_seq db) (map chat_id (chat_messages db)) = Inl e"
  shows "CreateChatMessage c db m = (db, Inl e)"
  using assms by (simp add: CreateChatMessage_def)

lemma CreateChatMessage_ok:
  assumes "GetUserByID db (ChatMessage_UserID m) = Inr u"
    and "NewRowid (chat_messages_seq db) (map chat_id (chat_messages db)) = Inr v"
  shows "\<exists>created. CreateChatMessage c db m =
     (db\<lparr>chat_messages := chat_messages db @
           [\<lparr>chat_id = v,
             chat_game_id = ChatMessage_GameID m, chat_user_id = ChatMessage_UserID m,
             chat_message_content = ChatMessage_MessageContent m,
             chat_created_at = CURRENT_TIMESTAMP c\<rparr>],
         chat_messages_seq := v\<rparr>, Inr created)"
proof -
  from GetUserByID_Inr [OF assms(1)]
  have ne: "filter (\<lambda>u. User_ID u = ChatMessage_UserID m) (users db) \<noteq> []" by simp
  with assms(2) show ?thesis
    by (simp add: CreateChatMessage_def Let_def chat_join_users_def split: list.splits)
qed

text \<open>
  The two branches of \<open>PostChatMessage\<close>, whatever the templates are. For a chat post
  that reaches the content check (a \<^verbatim>\<open>POST\<close> of an authenticated user to a path with a game
  id, with a parsed form): when the content is empty after \<^verbatim>\<open>TrimSpace\<close>, the database is
  unchanged, and the response is what \<open>RenderTemplate\<close> makes of the chat section with the
  transcript of the game and the error \<^verbatim>\<open>Message content cannot be empty.\<close>; otherwise,
  with a rowid left, one row is appended to \<^verbatim>\<open>chat_messages\<close>, with the game, the user, the
  content as sent and the current time, and the response is what \<open>RenderTemplate\<close> makes of
  the chat section with the new transcript; without a rowid the database is unchanged and
  the response is status 500.
\<close>

lemma PostChatMessage_cases:
  assumes post: "Method r = MethodPost"
    and user: "GetCurrentUser SessionStore r db = Inr currentUser"
    and game: "ParseInt (gameIDStr_of (URL_Path r) ''/chat'') = Inr gameID"
    and form: "Form r = Some form"
  shows "(TrimSpace (FormValue form ''message_content'') = [] \<longrightarrow>
           (\<exists>chatMessages. GetChatMessagesForGame db gameID = Inr chatMessages \<and>
              PostChatMessage ex ts SessionStore clock_ms db r =
                (db, RenderTemplate ex ts ''games/_chat_messages.html''
                       [(''ChatMessages'', ChatMessageList chatMessages),
                        (''GameID'', IntValue gameID),
                        (''User'', UserValue currentUser),
                        (''Error'', StringValue ''Message content cannot be empty.'')]))) \<and>
         (TrimSpace (FormValue form ''message_content'') \<noteq> [] \<longrightarrow>
           (\<forall>v. NewRowid (chat_messages_seq db) (map chat_id (chat_messages db)) = Inr v \<longrightarrow>
             (\<exists>db' updatedChatMessages.
                db' = db\<lparr>chat_messages := chat_messages db @
                        [\<lparr>chat_id = v,
                          chat_game_id = gameID, chat_user_id = User_ID currentUser,
                          chat_message_content = FormValue form ''message_content'',
                          chat_created_at = CURRENT_TIMESTAMP clock_ms\<rparr>],
                      chat_messages_seq := v\<rparr> \<and>
                GetChatMessagesForGame db' gameID = Inr updatedChatMessages \<and>
                PostChatMessage ex ts SessionStore clock_ms db r =
                  (db', RenderTemplate ex ts ''games/_chat_messages.html''
                          [(''ChatMessages'', ChatMessageList updatedChatMessages),
                           (''GameID'', IntValue gameID),
                           (''User'', UserValue currentUser)]))) \<and>
           (\<forall>e. NewRowid (chat_messages_seq db) (map chat_id (chat_messages db)) = Inl e \<longrightarrow>
              PostChatMessage ex ts SessionStore clock_ms db r =
                (db, http_Error ''Failed to post message. Please try again.''
                       StatusInternalServerError)))"
proof -
  have id: "gameIDStr_of (URL_Path r) ''/chat'' \<noteq> []"
    using game by (auto simp: ParseInt_def)
  have listing: "\<exists>ms. GetChatMessagesForGame d gameID = Inr ms" for d
    by (simp add: GetChatMessagesForGame_def)
  let ?m = "\<lparr>ChatMessage_ID = 0, ChatMessage_GameID = gameID,
              ChatMessage_UserID = User_ID currentUser,
              ChatMessage_UserEmail = User_Email currentUser,
              ChatMessage_MessageContent = FormValue form ''message_content'',
              ChatMessage_CreatedAt = 0\<rparr>"
  have empty: "\<exists>chatMessages. GetChatMessagesForGame db gameID = Inr chatMessages \<and>
              PostChatMessage ex ts SessionStore clock_ms db r =
                (db, RenderTemplate ex ts ''games/_chat_messages.html''
                       [(''ChatMessages'', ChatMessageList chatMessages),
                        (''GameID'', IntValue gameID),
                        (''User'', UserValue currentUser),
                        (''Error'', StringValue ''Message content cannot be empty.'')])"
    if "TrimSpace (FormValue form ''message_content'') = []"
    using that post user game form id listing [of db]
    by (auto simp: PostChatMessage_def Let_def)
  have appended: "\<exists>db' updatedChatMessages.
                db' = db\<lparr>chat_messages := chat_messages db @
                        [\<lparr>chat_id = v,
                          chat_game_id = gameID, chat_user_id = User_ID currentUser,
                          chat_message_content = FormValue form ''message_content'',
                          chat_created_at = CURRENT_TIMESTAMP clock_ms\<rparr>],
                      chat_messages_seq := v\<rparr> \<and>
                GetChatMessagesForGame db' gameID = Inr updatedChatMessages \<and>
                PostChatMessage ex ts SessionStore clock_ms db r =
                  (db', RenderTemplate ex ts ''games/_chat_messages.html''
                          [(''ChatMessages'', ChatMessageList updatedChatMessages),
                           (''GameID'', IntValue gameID),
                           (''User'', UserValue currentUser)])"
    if ne: "TrimSpace (FormValue form ''message_content'') \<noteq> []"
      and v: "NewRowid (chat_messages_seq db) (map chat_id (chat_messages db)) = Inr v" for v
  proof -
    let ?db' = "db\<lparr>chat_messages := chat_messages db @
                      [\<lparr>chat_id = v,
                        chat_game_id = gameID, chat_user_id = User_ID currentUser,
                        chat_message_content = FormValue form ''message_content'',
                        chat_created_at = CURRENT_TIMESTAMP clock_ms\<rparr>],
                    chat_messages_seq := v\<rparr>"
    from user obtain uid where "GetUserByID db uid = Inr currentUser"
      by (auto simp: GetCurrentUser_def split: sum.splits option.splits)
    with GetUserByID_Inr [OF this] have "GetUserByID db (ChatMessage_UserID ?m) = Inr currentUser"
      by simp
    from CreateChatMessage_ok [OF this, of v clock_ms] v obtain created where
      cr: "CreateChatMessage clock_ms db ?m = (?db', Inr created)"
      by auto
    from listing [of ?db'] obtain ms where ms: "GetChatMessagesForGame ?db' gameID = Inr ms"
      by blast
    from ne post user game form id cr ms
    have "PostChatMessage ex ts SessionStore clock_ms db r =
                (?db', RenderTemplate ex ts ''games/_chat_messages.html''
                        [(''ChatMessages'', ChatMessageList ms),
                         (''GameID'', IntValue gameID),
                         (''User'', UserValue currentUser)])"
      by (simp add: PostChatMessage_def Let_def)
    with ms show ?thesis by simp
  qed
  have full: "PostChatMessage ex ts SessionStore clock_ms db r =
                (db, http_Error ''Failed to post message. Please try again.''
                       StatusInternalServerError)"
    if ne: "TrimSpace (FormValue form ''message_content'') \<noteq> []"
      and e: "NewRowid (chat_messages_seq db) (map chat_id (chat_messages db)) = Inl e" for e
  proof -
    from e have "CreateChatMessage clock_ms db ?m = (db, Inl e)"
      by (rule CreateChatMessage_full)
    with ne post user game form id show ?thesis
      by (simp add: PostChatMessage_def Let_def)
  qed
  from empty appended full show ?thesis by blast
qed

text \<open>
  With the templates that \<open>LoadTemplates\<close> loads, the response to a blank post is not the
  chat section: whatever the files below the directory are, as long as none is named
  like, or defines, a template \<^verbatim>\<open>games/_chat_messages.html\<close>, it is status 500.
\<close>

lemma PostChatMessage_blank_status_500:
  assumes "LoadTemplates dir files = Inr ts"
    and "\<forall>f \<in> set files. ''games/_chat_messages.html'' \<noteq> file_base f \<and>
           (\<forall>d. file_parse f = Inr d \<longrightarrow> ''games/_chat_messages.html'' \<notin> set d)"
    and post: "Method r = MethodPost"
    and user: "GetCurrentUser SessionStore r db = Inr currentUser"
    and game: "ParseInt (gameIDStr_of (URL_Path r) ''/chat'') = Inr gameID"
    and form: "Form r = Some form"
    and blank: "TrimSpace (FormValue form ''message_content'') = []"
  shows "\<exists>msg. PostChatMessage ex ts SessionStore clock_ms db r =
           (db, http_Error msg StatusInternalServerError)"
proof -
  from PostChatMessage_cases [OF post user game form, of ex ts clock_ms] blank
  obtain chatMessages where
    "PostChatMessage ex ts SessionStore clock_ms db r =
       (db, RenderTemplate ex ts ''games/_chat_messages.html''
              [(''ChatMessages'', ChatMessageList chatMessages),
               (''GameID'', IntValue gameID),
               (''User'', UserValue currentUser),
               (''Error'', StringValue ''Message content cannot be empty.'')])"
    by blast
  moreover from RenderTemplate_LoadTemplates [OF assms(1,2), of ex]
  obtain msg where "RenderTemplate ex ts ''games/_chat_messages.html''
              [(''ChatMessages'', ChatMessageList chatMessages),
               (''GameID'', IntValue gameID),
               (''User'', UserValue currentUser),
               (''Error'', StringValue ''Message content cannot be empty.'')] =
    http_Error msg StatusInternalServerError"
    by (cases "map_of ts ''games/_chat_messages.html'' = None") auto
  ultimately show ?thesis by auto
qed

text \<open>
  Claim C7, on the application's templates. Game 5 has a transcript of two messages. User 1
  posts a message of white space only (a space, a tab, a no-break space and a newline). The
  database is unchanged, and the transcript is still the two messages; but the response
  is status 500 with the text \<^verbatim>\<open>Error executing template games/_chat_messages.html:
  template: "games/_chat_messages.html" is an incomplete or empty template\<close>, whatever the
  template engine does: neither the transcript nor \<^verbatim>\<open>Message content cannot be empty.\<close>
  reaches the caller. A post with content appends its row, with the current time, and
  gets the same status 500.
\<close>

theorem PostChatMessage_blank_incomplete_template:
  "\<exists>ts.
     LoadTemplates ''web/templates''
       [\<lparr>file_dir = [], file_base = ''error.html'', file_parse = Inr [''content'']\<rparr>,
        \<lparr>file_dir = [], file_base = ''layout.html'', file_parse = Inr [''layout'']\<rparr>,
        \<lparr>file_dir = [''auth''], file_base = ''login.html'', file_parse = Inr [''content'']\<rparr>,
        \<lparr>file_dir = [''auth''], file_base = ''register.html'', file_parse = Inr [''content'']\<rparr>,
        \<lparr>file_dir = [''games''], file_base = ''_chat_messages.html'', file_parse = Inr []\<rparr>,
        \<lparr>file_dir = [''games''], file_base = ''_rsvp_section.html'', file_parse = Inr []\<rparr>,
        \<lparr>file_dir = [''games''], file_base = ''game_detail.html'', file_parse = Inr [''content'']\<rparr>,
        \<lparr>file_dir = [''games''], file_base = ''games_list.html'', file_parse = Inr [''content'']\<rparr>,
        \<lparr>file_dir = [''games''], file_base = ''new_game.html'', file_parse = Inr [''content'']\<rparr>] = Inr ts \<and>
     PostChatMessage HtmlExecute ts [''tok'' \<mapsto> 1] 7000
       \<lparr>users = [\<lparr>User_ID = 1, User_Email = ''a@x.com'', User_PasswordHash = ''h1'',
                  User_CreatedAt = 1\<rparr>,
                \<lparr>User_ID = 2, User_Email = ''b@x.com'', User_PasswordHash = ''h2'',
                  User_CreatedAt = 1\<rparr>],
        games = [\<lparr>Game_ID = 5, Game_GMID = 1, Game_Title = ''Session 1'', Game_Description = [],
                  Game_GameDateTime = 50, Game_Location = ''here'', Game_CreatedAt = 2\<rparr>],
        rsvps = [],
        chat_messages =
          [\<lparr>chat_id = 1, chat_game_id = 5, chat_user_id = 2, chat_message_content = ''hello'',
             chat_created_at = 3\<rparr>,
           \<lparr>chat_id = 2, chat_game_id = 5, chat_user_id = 1, chat_message_content = ''hi'',
             chat_created_at = 4\<rparr>],
        users_seq = 2, games_seq = 5, rsvps_seq = 0, chat_messages_seq = 2\<rparr>
       \<lparr>Method = ''POST'', URL_Path = ''/games/5/chat'',
        Cookies = [(''session_token'', ''tok'')],
        Form = Some [(''message_content'', [CHR 0x20, CHR 0x09, CHR 0xC2, CHR 0xA0, CHR 0x0A])],
        TLS = False\<rparr> =
     (\<lparr>users = [\<lparr>User_ID = 1, User_Email = ''a@x.com'', User_PasswordHash = ''h1'',
                 User_CreatedAt = 1\<rparr>,
               \<lparr>User_ID = 2, User_Email = ''b@x.com'', User_PasswordHash = ''h2'',
                 User_CreatedAt = 1\<rparr>],
       games = [\<lparr>Game_ID = 5, Game_GMID = 1, Game_Title = ''Session 1'', Game_Description = [],
                 Game_GameDateTime = 50, Game_Location = ''here'', Game_CreatedAt = 2\<rparr>],
       rsvps = [],
       chat_messages =
         [\<lparr>chat_id = 1, chat_game_id = 5, chat_user_id = 2, chat_message_content = ''hello'',
            chat_created_at = 3\<rparr>,
          \<lparr>chat_id = 2, chat_game_id = 5, chat_user_id = 1, chat_message_content = ''hi'',
            chat_created_at = 4\<rparr>],
       users_seq = 2, games_seq = 5, rsvps_seq = 0, chat_messages_seq = 2\<rparr>,
      http_Error
        (''Error executing template games/_chat_messages.html: template: '' @ [CHR 0x22] @
         ''games/_chat_messages.html'' @ [CHR 0x22] @ '' is an incomplete or empty template'') 500) \<and>
     GetChatMessagesForGame
       \<lparr>users = [\<lparr>User_ID = 1, User_Email = ''a@x.com'', User_PasswordHash = ''h1'',
                  User_CreatedAt = 1\<rparr>,
                \<lparr>User_ID = 2, User_Email = ''b@x.com'', User_PasswordHash = ''h2'',
                  User_CreatedAt = 1\<rparr>],
        games = [\<lparr>Game_ID = 5, Game_GMID = 1, Game_Title = ''Session 1'', Game_Description = [],
                  Game_GameDateTime = 50, Game_Location = ''here'', Game_CreatedAt = 2\<rparr>],
        rsvps = [],
        chat_messages =
          [\<lparr>chat_id = 1, chat_game_id = 5, chat_user_id = 2, chat_message_content = ''hello'',
             chat_created_at = 3\<rparr>,
           \<lparr>chat_id = 2, chat_game_id = 5, chat_user_id = 1, chat_message_content = ''hi'',
             chat_created_at = 4\<rparr>],
        users_seq = 2, games_seq = 5, rsvps_seq = 0, chat_messages_seq = 2\<rparr> 5 =
     Inr [\<lparr>ChatMessage_ID = 1, ChatMessage_GameID = 5, ChatMessage_UserID = 2,
            ChatMessage_UserEmail = ''b@x.com'', ChatMessage_MessageContent = ''hello'',
            ChatMessage_CreatedAt = 3\<rparr>,
          \<lparr>ChatMessage_ID = 2, ChatMessage_GameID = 5, ChatMessage_UserID = 1,
            ChatMessage_UserEmail = ''a@x.com'', ChatMessage_MessageContent = ''hi'',
            ChatMessage_CreatedAt = 4\<rparr>] \<and>
     PostChatMessage HtmlExecute ts [''tok'' \<mapsto> 1] 7000
       \<lparr>users = [\<lparr>User_ID = 1, User_Email = ''a@x.com'', User_PasswordHash = ''h1'',
                  User_CreatedAt = 1\<rparr>,
                \<lparr>User_ID = 2, User_Email = ''b@x.com'', User_PasswordHash = ''h2'',
                  User_CreatedAt = 1\<rparr>],
        games = [\<lparr>Game_ID = 5, Game_GMID = 1, Game_Title = ''Session 1'', Game_Description = [],
                  Game_GameDateTime = 50, Game_Location = ''here'', Game_CreatedAt = 2\<rparr>],
        rsvps = [],
        chat_messages =
          [\<lparr>chat_id = 1, chat_game_id = 5, chat_user_id = 2, chat_message_content = ''hello'',
             chat_created_at = 3\<rparr>,
           \<lparr>chat_id = 2, chat_game_id = 5, chat_user_id = 1, chat_message_content = ''hi'',
             chat_created_at = 4\<rparr>],
        users_seq = 2, games_seq = 5, rsvps_seq = 0, chat_messages_seq = 2\<rparr>
       \<lparr>Method = ''POST'', URL_Path = ''/games/5/chat'',
        Cookies = [(''session_token'', ''tok'')],
        Form = Some [(''message_content'', '' see you '')], TLS = False\<rparr> =
     (\<lparr>users = [\<lparr>User_ID = 1, User_Email = ''a@x.com'', User_PasswordHash = ''h1'',
                 User_CreatedAt = 1\<rparr>,
               \<lparr>User_ID = 2, User_Email = ''b@x.com'', User_PasswordHash = ''h2'',
                 User_CreatedAt = 1\<rparr>],
       games = [\<lparr>Game_ID = 5, Game_GMID = 1, Game_Title = ''Session 1'', Game_Description = [],
                 Game_GameDateTime = 50, Game_Location = ''here'', Game_CreatedAt = 2\<rparr>],
       rsvps = [],
       chat_messages =
         [\<lparr>chat_id = 1, chat_game_id = 5, chat_user_id = 2, chat_message_content = ''hello'',
            chat_created_at = 3\<rparr>,
          \<lparr>chat_id = 2, chat_game_id = 5, chat_user_id = 1, chat_message_content = ''hi'',
            chat_created_at = 4\<rparr>,
          \<lparr>chat_id = 3, chat_game_id = 5, chat_user_id = 1, chat_message_content = '' see you '',
            chat_created_at = 7\<rparr>],
       users_seq = 2, games_seq = 5, rsvps_seq = 0, chat_messages_seq = 3\<rparr>,
      http_Error
        (''Error executing template games/_chat_messages.html: template: '' @ [CHR 0x22] @
         ''games/_chat_messages.html'' @ [CHR 0x22] @ '' is an incomplete or empty template'') 500)"
proof -
  have path: "gameIDStr_of ''/games/5/chat'' ''/chat'' = ''5''"
    by code_simp
  have id: "ParseInt ''5'' = Inr 5"
    by code_simp
  have blank: "TrimSpace [CHR 0x20, CHR 0x09, CHR 0xC2, CHR 0xA0, CHR 0x0A] = []"
    by (simp add: TrimSpace_def white_space_def)
  have content: "TrimSpace '' see you '' = ''see you''"
    by (simp add: TrimSpace_def white_space_def)
  show ?thesis
    by (simp add: LoadTemplates_web_templates PostChatMessage_def MethodPost_def FormValue_def
        GetCurrentUser_def Cookie_def sessionCookieName_def GetUserByID_def Let_def path id
        blank content
        GetChatMessagesForGame_def chat_join_users_def scan_chat_message_def
        CreateChatMessage_def NewRowid_def last_rowid_def MAX_ROWID_def CURRENT_TIMESTAMP_def
        RenderTemplate_def Execute_def StatusInternalServerError_def)
qed

section \<open>The constraints of the schema hold in every reachable database\<close>

lemma Register_preserves_constraints:
  assumes "schema_constraints db"
  shows "schema_constraints (fst (Register ex ts gen c db r))"
proof -
  obtain db' resp where reg: "Register ex ts gen c db r = (db', resp)"
    by (cases "Register ex ts gen c db r")
  from Register_cases [OF reg] consider (same) "db' = db"
    | (new) form h v where
        "NewRowid (users_seq db) (map User_ID (users db)) = Inr v"
        "db' = db\<lparr>users := users db @
                 [\<lparr>User_ID = v,
                   User_Email = FormValue form ''email'',
                   User_PasswordHash = h, User_CreatedAt = CURRENT_TIMESTAMP c\<rparr>],
               users_seq := v\<rparr>"
    by blast
  then show ?thesis
  proof cases
    case same
    with assms show ?thesis by (simp add: reg)
  next
    case new
    have email: "users_email_unique db'"
      using Register_preserves_email_unique [of db ex ts gen c r] assms
      by (simp add: reg schema_constraints_def)
    have pk: "users_pk db'"
      using assms NewRowid_Inr(4) [OF new(1)]
      by (simp add: new(2) schema_constraints_def users_pk_def)
    have rest: "rsvps_unique db'" "rsvps_fk_users db'" "chat_fk_users db'"
      using assms
      by (auto simp: new(2) schema_constraints_def rsvps_unique_def rsvps_fk_users_def
          chat_fk_users_def list_ex_iff)
    from email pk rest show ?thesis
      by (simp add: reg schema_constraints_def)
  qed
qed

lemma upsert_preserves_constraints:
  assumes "schema_constraints db"
    and "list_ex (\<lambda>u. User_ID u = RSVP_UserID rsvp) (users db)"
  shows "schema_constraints (fst (CreateOrUpdateRSVP c db rsvp))"
proof -
  obtain db' e where up: "CreateOrUpdateRSVP c db rsvp = (db', e)"
    by (cases "CreateOrUpdateRSVP c db rsvp")
  show ?thesis
  proof (cases e)
    case (Some err)
    with up have "db' = db" by (auto dest: upsert_Some_unchanged)
    with assms(1) show ?thesis by (simp add: up)
  next
    case None
    have uniq: "rsvps_unique db'"
      using assms(1) up None by (auto simp: schema_constraints_def intro: upsert_preserves_unique)
    have others: "users db' = users db \<and> chat_messages db' = chat_messages db \<and>
        (\<forall>row \<in> set (rsvps db'). rsvps_user_id row = RSVP_UserID rsvp \<or>
            rsvps_user_id row \<in> rsvps_user_id ` set (rsvps db))"
      using up
      by (auto simp: CreateOrUpdateRSVP_def upsert_new_row_def rsvp_conflict_def
          split: sum.splits option.splits if_splits)
    then have "rsvps_fk_users db'" "users_pk db'" "users_email_unique db'" "chat_fk_users db'"
      using assms
      by (auto simp: schema_constraints_def rsvps_fk_users_def users_pk_def users_email_unique_def
          chat_fk_users_def)
    with uniq show ?thesis
      by (simp add: up schema_constraints_def)
  qed
qed

lemma GetCurrentUser_exists:
  "GetCurrentUser store r db = Inr u \<Longrightarrow> list_ex (\<lambda>u'. User_ID u' = User_ID u) (users db)"
  by (auto simp: GetCurrentUser_def GetUserByID_def list_ex_iff
      split: sum.splits option.splits list.splits dest!: Cons_eq_filterD [OF sym])

lemma SubmitRSVP_db_cases:
  "fst (SubmitRSVP ex ts store c db r) = db \<or>
   (\<exists>u g form. GetCurrentUser store r db = Inr u \<and>
      fst (SubmitRSVP ex ts store c db r) =
        fst (CreateOrUpdateRSVP c db
          \<lparr>RSVP_ID = 0, RSVP_UserID = User_ID u, RSVP_GameID = g,
           RSVP_Status = FormValue form ''status'', RSVP_CreatedAt = 0, RSVP_UpdatedAt = 0,
           RSVP_UserEmail = []\<rparr>))"
proof (cases "Method r = MethodPost")
  case False
  then show ?thesis by (simp add: SubmitRSVP_def)
next
  case post: True
  show ?thesis
  proof (cases "GetCurrentUser store r db")
    case (Inl e)
    with post show ?thesis by (simp add: SubmitRSVP_def)
  next
    case u: (Inr u)
    show ?thesis
    proof (cases "ParseInt (gameIDStr_of (URL_Path r) ''/rsvp'')")
      case (Inl e)
      with post u show ?thesis by (simp add: SubmitRSVP_def Let_def)
    next
      case g: (Inr g)
      then have id: "gameIDStr_of (URL_Path r) ''/rsvp'' \<noteq> []"
        by (auto simp: ParseInt_def)
      show ?thesis
      proof (cases "Form r")
        case None
        with post u g id show ?thesis by (simp add: SubmitRSVP_def Let_def)
      next
        case form: (Some form)
        show ?thesis
        proof (cases "valid_status (FormValue form ''status'')")
          case False
          with post u g id form show ?thesis by (simp add: SubmitRSVP_def Let_def)
        next
          case True
          with post u g id form
          have "fst (SubmitRSVP ex ts store c db r) =
            fst (CreateOrUpdateRSVP c db
              \<lparr>RSVP_ID = 0, RSVP_UserID = User_ID u, RSVP_GameID = g,
               RSVP_Status = FormValue form ''status'', RSVP_CreatedAt = 0, RSVP_UpdatedAt = 0,
               RSVP_UserEmail = []\<rparr>)"
            by (simp add: SubmitRSVP_def Let_def GetRSVPsForGame_def
                split: prod.splits option.splits sum.splits)
          with u show ?thesis by blast
        qed
      qed
    qed
  qed
qed

lemma SubmitRSVP_preserves_constraints:
  assumes "schema_constraints db"
  shows "schema_constraints (fst (SubmitRSVP ex ts store c db r))"
  using SubmitRSVP_db_cases [of ex ts store c db r]
proof
  assume "fst (SubmitRSVP ex ts store c db r) = db"
  with assms show ?thesis by simp
next
  assume "\<exists>u g form. GetCurrentUser store r db = Inr u \<and>
      fst (SubmitRSVP ex ts store c db r) =
        fst (CreateOrUpdateRSVP c db
          \<lparr>RSVP_ID = 0, RSVP_UserID = User_ID u, RSVP_GameID = g,
           RSVP_Status = FormValue form ''status'', RSVP_CreatedAt = 0, RSVP_UpdatedAt = 0,
           RSVP_UserEmail = []\<rparr>)"
  then obtain u g form where u: "GetCurrentUser store r db = Inr u"
    and eq: "fst (SubmitRSVP ex ts store c db r) =
      fst (CreateOrUpdateRSVP c db
        \<lparr>RSVP_ID = 0, RSVP_UserID = User_ID u, RSVP_GameID = g,
         RSVP_Status = FormValue form ''status'', RSVP_CreatedAt = 0, RSVP_UpdatedAt = 0,
         RSVP_UserEmail = []\<rparr>)"
    by blast
  from GetCurrentUser_exists [OF u] assms show ?thesis
    unfolding eq by (intro upsert_preserves_constraints) simp_all
qed

lemma CreateChatMessage_db_cases:
  "fst (CreateChatMessage c db m) = db \<or>
   (\<exists>v. fst (CreateChatMessage c db m) =
      db\<lparr>chat_messages := chat_messages db @
           [\<lparr>chat_id = v, chat_game_id = ChatMessage_GameID m,
             chat_user_id = ChatMessage_UserID m,
             chat_message_content = ChatMessage_MessageContent m,
             chat_created_at = CURRENT_TIMESTAMP c\<rparr>],
         chat_messages_seq := v\<rparr>)"
proof (cases "NewRowid (chat_messages_seq db) (map chat_id (chat_messages db))")
  case (Inl e)
  then show ?thesis by (simp add: CreateChatMessage_def)
next
  case (Inr v)
  then have "fst (CreateChatMessage c db m) =
      db\<lparr>chat_messages := chat_messages db @
           [\<lparr>chat_id = v, chat_game_id = ChatMessage_GameID m,
             chat_user_id = ChatMessage_UserID m,
             chat_message_content = ChatMessage_MessageContent m,
             chat_created_at = CURRENT_TIMESTAMP c\<rparr>],
         chat_messages_seq := v\<rparr>"
    by (simp add: CreateChatMessage_def Let_def split: list.splits)
  then show ?thesis by blast
qed

lemma PostChatMessage_db_cases:
  "fst (PostChatMessage ex ts store c db r) = db \<or>
   (\<exists>u g content v. GetCurrentUser store r db = Inr u \<and>
      fst (PostChatMessage ex ts store c db r) =
        db\<lparr>chat_messages := chat_messages db @
             [\<lparr>chat_id = v,
               chat_game_id = g, chat_user_id = User_ID u,
               chat_message_content = content,
               chat_created_at = CURRENT_TIMESTAMP c\<rparr>],
           chat_messages_seq := v\<rparr>)"
proof (cases "Method r = MethodPost")
  case False
  then show ?thesis by (simp add: PostChatMessage_def)
next
  case post: True
  show ?thesis
  proof (cases "GetCurrentUser store r db")
    case (Inl e)
    with post show ?thesis by (simp add: PostChatMessage_def)
  next
    case u: (Inr u)
    show ?thesis
    proof (cases "ParseInt (gameIDStr_of (URL_Path r) ''/chat'')")
      case (Inl e)
      with post u show ?thesis by (simp add: PostChatMessage_def Let_def)
    next
      case g: (Inr g)
      then have id: "gameIDStr_of (URL_Path r) ''/chat'' \<noteq> []"
        by (auto simp: ParseInt_def)
      show ?thesis
      proof (cases "Form r")
        case None
        with post u g id show ?thesis by (simp add: PostChatMessage_def Let_def)
      next
        case form: (Some form)
        show ?thesis
        proof (cases "TrimSpace (FormValue form ''message_content'') = []")
          case True
          with post u g id form show ?thesis
            by (simp add: PostChatMessage_def Let_def GetChatMessagesForGame_def)
        next
          case False
          let ?m = "\<lparr>ChatMessage_ID = 0, ChatMessage_GameID = g,
                ChatMessage_UserID = User_ID u, ChatMessage_UserEmail = User_Email u,
                ChatMessage_MessageContent = FormValue form ''message_content'',
                ChatMessage_CreatedAt = 0\<rparr>"
          from False post u g id form
          have same: "fst (PostChatMessage ex ts store c db r) = fst (CreateChatMessage c db ?m)"
            by (simp add: PostChatMessage_def Let_def GetChatMessagesForGame_def
                split: prod.splits sum.splits)
          from CreateChatMessage_db_cases [of c db ?m] show ?thesis
          proof
            assume "fst (CreateChatMessage c db ?m) = db"
            with same show ?thesis by simp
          next
            assume "\<exists>v. fst (CreateChatMessage c db ?m) =
              db\<lparr>chat_messages := chat_messages db @
                   [\<lparr>chat_id = v, chat_game_id = ChatMessage_GameID ?m,
                     chat_user_id = ChatMessage_UserID ?m,
                     chat_message_content = ChatMessage_MessageContent ?m,
                     chat_created_at = CURRENT_TIMESTAMP c\<rparr>],
                 chat_messages_seq := v\<rparr>"
            with same u show ?thesis by auto
          qed
        qed
      qed
    qed
  qed
qed

lemma PostChatMessage_preserves_constraints:
  assumes "schema_constraints db"
  shows "schema_constraints (fst (PostChatMessage ex ts store c db r))"
  using PostChatMessage_db_cases [of ex ts store c db r]
proof
  assume "fst (PostChatMessage ex ts store c db r) = db"
  with assms show ?thesis by simp
next
  assume "\<exists>u g content v. GetCurrentUser store r db = Inr u \<and>
      fst (PostChatMessage ex ts store c db r) =
        db\<lparr>chat_messages := chat_messages db @
             [\<lparr>chat_id = v,
               chat_game_id = g, chat_user_id = User_ID u,
               chat_message_content = content,
               chat_created_at = CURRENT_TIMESTAMP c\<rparr>],
           chat_messages_seq := v\<rparr>"
  then obtain u g content v where u: "GetCurrentUser store r db = Inr u"
    and eq: "fst (PostChatMessage ex ts store c db r) =
      db\<lparr>chat_messages := chat_messages db @
           [\<lparr>chat_id = v,
             chat_game_id = g, chat_user_id = User_ID u,
             chat_message_content = content,
             chat_created_at = CURRENT_TIMESTAMP c\<rparr>],
         chat_messages_seq := v\<rparr>"
    by blast
  from GetCurrentUser_exists [OF u] assms show ?thesis
    unfolding eq
    by (simp add: schema_constraints_def users_pk_def users_email_unique_def rsvps_unique_def
        rsvps_fk_users_def chat_fk_users_def)
qed

text \<open>Every database the handlers can produce satisfies the constraints of the schema.\<close>

lemma reachable_schema_constraints:
  "reachable db \<Longrightarrow> schema_constraints db"
proof (induction rule: reachable.induct)
  case InitDB
  show ?case
    by (simp add: schema_constraints_def users_pk_def users_email_unique_def rsvps_unique_def
        rsvps_fk_users_def chat_fk_users_def)
next
  case (Register db HtmlExecute ts GenerateFromPassword clock_ms r)
  then show ?case by (simp add: Register_preserves_constraints)
next
  case (SubmitRSVP db HtmlExecute ts SessionStore clock_ms r)
  then show ?case by (simp add: SubmitRSVP_preserves_constraints)
next
  case (PostChatMessage db HtmlExecute ts SessionStore clock_ms r)
  then show ?case by (simp add: PostChatMessage_preserves_constraints)
next
  case (CreateGame db gs n)
  then show ?case
    by (simp add: schema_constraints_def users_pk_def users_email_unique_def rsvps_unique_def
        rsvps_fk_users_def chat_fk_users_def)
qed

end
